theory Spec2Isabelle
  imports Complex_Main "HOL-Library.Sublist"
begin

section \<open>JavaScript values and strings\<close>

text \<open>
  The handlers read fields of the object parsed from the model output
  (\<^verbatim>\<open>content: Record<string, unknown>\<close>). A field is one of the JSON value kinds or
  absent (\<^verbatim>\<open>undefined\<close>). Numbers parsed from JSON are finite, so a rational stands for
  them; objects and arrays are not inspected by the code and are kept opaque.
\<close>

datatype jsval = JUndefined | JNull | JBool bool | JNum rat | JStr string | JObject

type_synonym jsobject = "string \<Rightarrow> jsval"

text \<open>JavaScript truthiness (\<^verbatim>\<open>if (v)\<close>, \<^verbatim>\<open>v && ...\<close>, \<^verbatim>\<open>!v\<close>).\<close>

fun truthy :: "jsval \<Rightarrow> bool" where
  "truthy JUndefined = False"
| "truthy JNull = False"
| "truthy (JBool b) = b"
| "truthy (JNum n) = (n \<noteq> 0)"
| "truthy (JStr s) = (s \<noteq> [])"
| "truthy JObject = True"

fun is_string :: "jsval \<Rightarrow> bool" where
  "is_string (JStr s) = True"
| "is_string v = False"

fun is_number :: "jsval \<Rightarrow> bool" where
  "is_number (JNum n) = True"
| "is_number v = False"

text \<open>\<^verbatim>\<open>s.startsWith(p)\<close> and \<^verbatim>\<open>s.includes(p)\<close>.\<close>

definition startsWith :: "string \<Rightarrow> string \<Rightarrow> bool" where
  "startsWith s p = (take (length p) s = p)"

fun str_includes :: "string \<Rightarrow> string \<Rightarrow> bool" where
  "str_includes [] p = (p = [])"
| "str_includes (c # cs) p = (startsWith (c # cs) p \<or> str_includes cs p)"

text \<open>
  \<^verbatim>\<open>toUpperCase\<close> / \<^verbatim>\<open>toLowerCase\<close> on the ASCII letters; the token symbols the
  regular expressions capture are \<^verbatim>\<open>[a-zA-Z0-9]+\<close>.
\<close>

definition upper_char :: "char \<Rightarrow> char" where
  "upper_char c = (let n = (of_char c :: nat) in if 97 \<le> n \<and> n \<le> 122 then char_of (n - 32) else c)"

definition lower_char :: "char \<Rightarrow> char" where
  "lower_char c = (let n = (of_char c :: nat) in if 65 \<le> n \<and> n \<le> 90 then char_of (n + 32) else c)"

definition toUpperCase :: "string \<Rightarrow> string" where
  "toUpperCase s = map upper_char s"

definition toLowerCase :: "string \<Rightarrow> string" where
  "toLowerCase s = map lower_char s"

text \<open>Decimal rendering of a bigint (\<^verbatim>\<open>value.toString()\<close>, template literals).\<close>

definition digit_char :: "int \<Rightarrow> char" where
  "digit_char d = char_of (48 + d)"

function digits :: "int \<Rightarrow> string" where
  "digits n = (if n < 10 then [digit_char n] else digits (n div 10) @ [digit_char (n mod 10)])"
  by pat_completeness auto
termination
  by (relation "measure nat") auto

declare digits.simps [simp del]

definition bigint_to_string :: "int \<Rightarrow> string" where
  "bigint_to_string i = (if i < 0 then CHR ''-'' # digits (- i) else digits i)"

text \<open>
  \<^verbatim>\<open>formatUnits(value, decimals)\<close> and \<^verbatim>\<open>formatEther(value)\<close> of the viem library, which the
  actions import: the decimal digits of the value, padded on the left to \<open>decimals\<close>
  digits, split \<open>decimals\<close> places from the right, trailing zeros of the fraction removed.
\<close>

definition padStart :: "nat \<Rightarrow> char \<Rightarrow> string \<Rightarrow> string" where
  "padStart n c s = replicate (n - length s) c @ s"

definition strip_trailing_zeros :: "string \<Rightarrow> string" where
  "strip_trailing_zeros s = rev (dropWhile (\<lambda>c. c = CHR ''0'') (rev s))"

definition formatUnits :: "int \<Rightarrow> nat \<Rightarrow> string" where
  "formatUnits v decimals =
     (let negative = (v < 0);
          display = padStart decimals (CHR ''0'') (digits \<bar>v\<bar>);
          integer = take (length display - decimals) display;
          fraction = strip_trailing_zeros (drop (length display - decimals) display)
      in (if negative then ''-'' else '''')
         @ (if integer = [] then ''0'' else integer)
         @ (if fraction = [] then '''' else CHR ''.'' # fraction))"

definition formatEther :: "int \<Rightarrow> string" where
  "formatEther v = formatUnits v 18"

section \<open>Collaborator calls, traces and thrown errors\<close>

text \<open>
  An argument of a contract call, and a contract call as it is passed to
  \<^verbatim>\<open>simulateContract\<close> / \<^verbatim>\<open>writeContract\<close> / \<^verbatim>\<open>readContract\<close>.
\<close>

datatype arg = AStr string | AInt int

record contract_call =
  address :: string
  functionName :: string
  args :: "arg list"
  callValue :: "int option"

text \<open>
  Every call an action makes on a collaborator (wallet provider, public client, wallet
  client, LI.FI SDK) and every invocation of the handler callback is an event; an
  execution is the list of its events in program order.
\<close>

record response =
  resp_text :: string
  resp_content :: "(string \<times> jsval) list"

record transfer_options =
  gas :: "int option"
  gasPrice :: "int option"
  data :: "string option"

record route_request =
  fromTokenAddress :: string
  toTokenAddress :: string
  fromAmount :: int
  fromAddress :: string
  slippage :: rat

datatype call =
    SwitchChain string
  | ConfigureLiFiSdk string
  | GetTokenAddress string string
  | FormatAddress string
  | GetBalance string string
  | ReadContract contract_call
  | SimulateContract contract_call
  | WriteContract contract_call
  | WaitForTransactionReceipt string
  | CheckERC20Allowance string string string string
  | ApproveERC20 string string string int
  | Transfer string string int transfer_options
  | TransferERC20 string string string int
  | GetRoutes route_request
  | ExecuteRoute nat
  | ComposeState
  | WalletInfo
  | UseModel
  | InitWalletProvider
  | WsConnect string
  | WsSend string string
  | WsClose
  | Callback response

text \<open>
  A thrown \<^verbatim>\<open>Error\<close> is its message. A computation yields the calls it made and
  either the error it threw (\<open>Inl\<close>) or its value (\<open>Inr\<close>).
\<close>

type_synonym err = string

type_synonym 'a io = "call list \<times> (err + 'a)"

definition io_return :: "'a \<Rightarrow> 'a io" where
  "io_return x = ([], Inr x)"

definition io_throw :: "err \<Rightarrow> 'a io" where
  "io_throw e = ([], Inl e)"

definition io_call :: "call \<Rightarrow> (err + 'a) \<Rightarrow> 'a io" where
  "io_call c r = ([c], r)"

definition io_bind :: "'a io \<Rightarrow> ('a \<Rightarrow> 'b io) \<Rightarrow> 'b io" where
  "io_bind m f =
     (case m of
        (t, Inl e) \<Rightarrow> (t, Inl e)
      | (t, Inr x) \<Rightarrow> (case f x of (t', r) \<Rightarrow> (t @ t', r)))"

definition io_catch :: "'a io \<Rightarrow> (err \<Rightarrow> 'a io) \<Rightarrow> 'a io" where
  "io_catch m h =
     (case m of
        (t, Inl e) \<Rightarrow> (case h e of (t', r) \<Rightarrow> (t @ t', r))
      | (t, Inr x) \<Rightarrow> (t, Inr x))"

definition io_lift :: "(err + 'a) \<Rightarrow> 'a io" where
  "io_lift r = ([], r)"

section \<open>The collaborators\<close>

text \<open>
  What each collaborator answers: the value returned or the error thrown. The wallet
  provider, the chain clients, the LI.FI SDK, the agent runtime, the viem parsers and the
  JavaScript engine are outside the action code. Where an action reads the same quantity
  twice in one execution (a balance before and after a transaction), the first argument
  numbers the reads, so that the second answer may differ from the first.
\<close>

type_synonym regex_match = "string option list"

datatype regex =
    TransferRegex
  | BasicSwapRegex
  | AdvancedSwapRegex
  | BridgeRegex
  | MarkdownJsonRegex
  | TokenNotFoundRegex
  | TokenMention string

text \<open>
  What \<^verbatim>\<open>JSON.parse\<close> returns, as the handlers read it: \<^verbatim>\<open>null\<close>, or a value whose
  properties can be read (an object; a number, string, boolean or array has none of the
  properties the handlers read, and is the object without fields). A text that is not JSON
  is a \<^verbatim>\<open>SyntaxError\<close>, here \<open>None\<close>.
\<close>

datatype parsed = PObject jsobject | PNull

record js_runtime =
  parseUnits :: "string \<Rightarrow> nat \<Rightarrow> err + int"
  parseFloat :: "string \<Rightarrow> rat option"
  numberToString :: "rat \<Rightarrow> string"
  jsonParse :: "string \<Rightarrow> parsed option"
  regexMatch :: "regex \<Rightarrow> string \<Rightarrow> regex_match option"

record wallet_provider =
  walletAddress :: string
  walletAccount :: "string option"
  chains :: "(string \<times> string) list"
  formatAddress :: "string \<Rightarrow> err + string"
  configureLiFiSdk :: "string \<Rightarrow> err + unit"
  getTokenAddress :: "string \<Rightarrow> string \<Rightarrow> err + string"
  providerTransfer :: "string \<Rightarrow> string \<Rightarrow> int \<Rightarrow> transfer_options \<Rightarrow> err + string"
  transferERC20 :: "string \<Rightarrow> string \<Rightarrow> string \<Rightarrow> int \<Rightarrow> err + string"
  checkERC20Allowance :: "string \<Rightarrow> string \<Rightarrow> string \<Rightarrow> string \<Rightarrow> err + int"
  approveERC20 :: "string \<Rightarrow> string \<Rightarrow> string \<Rightarrow> int \<Rightarrow> err + string"

record chain_client =
  getBalance :: "nat \<Rightarrow> string \<Rightarrow> string \<Rightarrow> err + int"
  decimals :: "string \<Rightarrow> err + nat"
  balanceOf :: "nat \<Rightarrow> string \<Rightarrow> string \<Rightarrow> err + int"
  delegationFee :: "err + int"
  getUserWithdrawalRequests :: "err + nat list"
  getUserRequestStatus :: "nat \<Rightarrow> err + (bool \<times> int)"
  simulateContract :: "contract_call \<Rightarrow> err + unit"
  writeContract :: "contract_call \<Rightarrow> err + string"
  waitForTransactionReceipt :: "string \<Rightarrow> err + unit"

record lifi_sdk =
  getRoutes :: "route_request \<Rightarrow> err + nat list"
  executeRoute :: "nat \<Rightarrow> err + (string \<times> string) option"

text \<open>
  What \<^verbatim>\<open>runtime.useModel\<close> resolves to: a string, an object, or \<^verbatim>\<open>null\<close> (which also
  stands for \<^verbatim>\<open>undefined\<close>).
\<close>

datatype model_output = MString string | MObject jsobject | MNull

record agent_runtime =
  composeState :: "err + unit"
  walletInfo :: "err + unit"
  useModel :: "err + model_output"
  initWalletProvider :: "err + unit"
  EXPLORERS :: "string \<Rightarrow> string option"

record world =
  js :: js_runtime
  wallet :: wallet_provider
  client :: chain_client
  lifi :: lifi_sdk
  runtime :: agent_runtime

text \<open>\<^verbatim>\<open>parseEther(x)\<close> of viem is \<^verbatim>\<open>parseUnits(x, 18)\<close>.\<close>

definition parseEther :: "world \<Rightarrow> string \<Rightarrow> err + int" where
  "parseEther w s = parseUnits (js w) s 18"

text \<open>
  \<^verbatim>\<open>Number.parseFloat(s)\<close> followed by \<^verbatim>\<open>Number.isNaN(v) || v <= 0\<close>: the amount is
  accepted when it parses to a positive number.
\<close>

definition positive_amount :: "world \<Rightarrow> string \<Rightarrow> bool" where
  "positive_amount w s = (case parseFloat (js w) s of None \<Rightarrow> False | Some v \<Rightarrow> 0 < v)"

section \<open>ERC20 allowance before a pull of funds\<close>

text \<open>
  The block that \<^verbatim>\<open>BridgeAction.bridge\<close> (for the L1 and for the L2 bridge) and
  \<^verbatim>\<open>StakeAction.doWithdraw\<close> each contain: read the allowance; when it is below the
  amount, submit an approval of the amount and wait for its receipt.
\<close>

definition ensure_allowance :: "world \<Rightarrow> string \<Rightarrow> string \<Rightarrow> string \<Rightarrow> string \<Rightarrow> int \<Rightarrow> unit io" where
  "ensure_allowance w chain token owner spender amount =
     io_bind (io_call (CheckERC20Allowance chain token owner spender)
                (checkERC20Allowance (wallet w) chain token owner spender))
       (\<lambda>allowance.
          if allowance < amount then
            io_bind (io_call (ApproveERC20 chain token spender amount)
                       (approveERC20 (wallet w) chain token spender amount))
              (\<lambda>txHash. io_call (WaitForTransactionReceipt txHash)
                           (waitForTransactionReceipt (client w) txHash))
          else io_return ())"

section \<open>Staking on Lista DAO\<close>

definition LISTA_DAO :: string where
  "LISTA_DAO = ''0x1adB950d8bB3dA4bE104211D5AB038628e477fE6''"

definition SLIS_BNB :: string where
  "SLIS_BNB = ''0xB0b84D294e0C75A6abe60171b70edEb2EFd14A1B''"

definition balanceOf_call :: "string \<Rightarrow> string \<Rightarrow> contract_call" where
  "balanceOf_call token owner =
     \<lparr>address = token, functionName = ''balanceOf'', args = [AStr owner], callValue = None\<rparr>"

definition requestWithdraw_call :: "int \<Rightarrow> contract_call" where
  "requestWithdraw_call amountToWithdraw =
     \<lparr>address = LISTA_DAO, functionName = ''requestWithdraw'',
      args = [AInt amountToWithdraw], callValue = None\<rparr>"

definition withdraw_rethrow :: "err \<Rightarrow> 'a io" where
  "withdraw_rethrow e =
     (if str_includes e ''insufficient funds'' \<or> str_includes e ''insufficient balance''
      then io_throw ''Insufficient slisBNB balance to withdraw. Please check your balance.''
      else if str_includes e ''user rejected'' then io_throw ''Transaction rejected by user.''
      else io_throw e)"

text \<open>
  \<^verbatim>\<open>StakeAction.doWithdraw(amount?)\<close>; the empty string stands for an absent amount
  (both are falsy for \<^verbatim>\<open>!amount\<close>).
\<close>

definition doWithdraw :: "world \<Rightarrow> string \<Rightarrow> string io" where
  "doWithdraw w amount =
     (case walletAccount (wallet w) of
        None \<Rightarrow> io_throw ''Wallet account not found''
      | Some account \<Rightarrow>
          io_catch
            (io_bind
               (if amount = [] then
                  io_call (ReadContract (balanceOf_call SLIS_BNB account))
                    (balanceOf (client w) 0 SLIS_BNB account)
                else io_lift (parseEther w amount))
               (\<lambda>amountToWithdraw.
                  if amountToWithdraw \<le> 0 then io_throw ''No slisBNB tokens available to withdraw''
                  else
                    io_bind (ensure_allowance w ''bsc'' SLIS_BNB account LISTA_DAO amountToWithdraw)
                      (\<lambda>_. io_bind (io_call (SimulateContract (requestWithdraw_call amountToWithdraw))
                                       (simulateContract (client w) (requestWithdraw_call amountToWithdraw)))
                        (\<lambda>_. io_bind (io_call (WriteContract (requestWithdraw_call amountToWithdraw))
                                         (writeContract (client w) (requestWithdraw_call amountToWithdraw)))
                          (\<lambda>txHash. io_bind (io_call (WaitForTransactionReceipt txHash)
                                               (waitForTransactionReceipt (client w) txHash))
                            (\<lambda>_. io_bind (io_call (ReadContract (balanceOf_call SLIS_BNB account))
                                             (balanceOf (client w) 1 SLIS_BNB account))
                              (\<lambda>slisBNBBalance.
                                 io_return (''Successfully requested withdrawal of ''
                                   @ (if amount = [] then formatEther amountToWithdraw else amount)
                                   @ '' slisBNB. You have '' @ formatEther slisBNBBalance
                                   @ '' slisBNB left. '' @ [CHR 0x0A]
                                   @ ''You can claim your BNB in 7-14 days using the 'claim' action.''
                                   @ [CHR 0x0A] @ ''Transaction Hash: '' @ txHash))))))))
            withdraw_rethrow)"

definition status_call :: "string \<Rightarrow> nat \<Rightarrow> contract_call" where
  "status_call account idx =
     \<lparr>address = LISTA_DAO, functionName = ''getUserRequestStatus'',
      args = [AStr account, AInt (int idx)], callValue = None\<rparr>"

definition claim_call :: "nat \<Rightarrow> contract_call" where
  "claim_call idx =
     \<lparr>address = LISTA_DAO, functionName = ''claimWithdraw'',
      args = [AInt (int idx)], callValue = None\<rparr>"

text \<open>
  The loop of \<^verbatim>\<open>StakeAction.doClaim\<close>:
  \<^verbatim>\<open>for (let idx = 0; idx < requests.length; idx++)\<close>, carrying
  \<^verbatim>\<open>totalClaimed\<close>, \<^verbatim>\<open>claimedCount\<close> and \<^verbatim>\<open>lastTxHash\<close>. A claimable request is
  simulated, written and awaited; the first request that is not claimable ends the loop
  (\<^verbatim>\<open>break\<close>).
\<close>

function claim_loop :: "world \<Rightarrow> string \<Rightarrow> nat \<Rightarrow> nat \<Rightarrow> int \<times> nat \<times> string \<Rightarrow> (int \<times> nat \<times> string) io" where
  "claim_loop w account n idx acc =
     (if idx < n then
        io_bind (io_call (ReadContract (status_call account idx)) (getUserRequestStatus (client w) idx))
          (\<lambda>(isClaimable, amount).
             if isClaimable then
               io_bind (io_call (SimulateContract (claim_call idx)) (simulateContract (client w) (claim_call idx)))
                 (\<lambda>_. io_bind (io_call (WriteContract (claim_call idx)) (writeContract (client w) (claim_call idx)))
                   (\<lambda>txHash. io_bind (io_call (WaitForTransactionReceipt txHash) (waitForTransactionReceipt (client w) txHash))
                     (\<lambda>_. case acc of (totalClaimed, claimedCount, lastTxHash) \<Rightarrow>
                        claim_loop w account n (Suc idx) (totalClaimed + amount, Suc claimedCount, txHash))))
             else io_return acc)
      else io_return acc)"
  by pat_completeness auto
termination
  by (relation "measure (\<lambda>(w, account, n, idx, acc). n - idx)") auto

declare claim_loop.simps [simp del]

definition rethrow_user_rejected :: "err \<Rightarrow> 'a io" where
  "rethrow_user_rejected e =
     (if str_includes e ''user rejected'' then io_throw ''Transaction rejected by user.''
      else io_throw e)"

definition doClaim :: "world \<Rightarrow> string io" where
  "doClaim w =
     (case walletAccount (wallet w) of
        None \<Rightarrow> io_throw ''Wallet account not found''
      | Some account \<Rightarrow>
          io_catch
            (io_bind
               (io_call
                  (ReadContract \<lparr>address = LISTA_DAO, functionName = ''getUserWithdrawalRequests'',
                                 args = [AStr account], callValue = None\<rparr>)
                  (getUserWithdrawalRequests (client w)))
               (\<lambda>requests.
                  if length requests = 0 then
                    io_return ''No withdrawal requests found to claim. You need to request a withdrawal first using the 'withdraw' action.''
                  else
                    io_bind (claim_loop w account (length requests) 0 (0, 0, []))
                      (\<lambda>(totalClaimed, claimedCount, lastTxHash).
                         if claimedCount = 0 then
                           io_return ''No claimable withdrawals found. Withdrawal requests typically need 7-14 days to become claimable.''
                         else
                           io_return (''Successfully claimed '' @ formatEther totalClaimed @ '' BNB from ''
                             @ digits (int claimedCount) @ '' withdrawal request(s).'' @ [CHR 0x0A]
                             @ ''Transaction Hash: '' @ lastTxHash))))
            rethrow_user_rejected)"

text \<open>The indices whose claimability was read, and the indices claimed, in order.\<close>

fun status_reads :: "call list \<Rightarrow> int list" where
  "status_reads [] = []"
| "status_reads (ReadContract c # t) =
     (if functionName c = ''getUserRequestStatus''
      then (case args c of [a, AInt i] \<Rightarrow> i # status_reads t | _ \<Rightarrow> status_reads t)
      else status_reads t)"
| "status_reads (c # t) = status_reads t"

fun claimed :: "call list \<Rightarrow> int list" where
  "claimed [] = []"
| "claimed (WriteContract c # t) =
     (if functionName c = ''claimWithdraw''
      then (case args c of [AInt i] \<Rightarrow> i # claimed t | _ \<Rightarrow> claimed t)
      else claimed t)"
| "claimed (c # t) = claimed t"

section \<open>Bridging between BSC and opBNB\<close>

text \<open>
  \<^verbatim>\<open>BridgeParams\<close>. An absent (\<^verbatim>\<open>undefined\<close>) token or recipient is \<open>None\<close>; an absent
  chain or amount is the empty string (the code tests them with \<^verbatim>\<open>!x\<close>).
\<close>

record BridgeParams =
  b_fromChain :: string
  b_toChain :: string
  b_fromToken :: "string option"
  b_toToken :: "string option"
  b_amount :: string
  b_toAddress :: "string option"

record BridgeResponse =
  br_fromChain :: string
  br_toChain :: string
  br_fromToken :: string
  br_toToken :: string
  br_amount :: string
  br_txHash :: string
  br_recipient :: string

definition L1_BRIDGE_ADDRESS :: string where
  "L1_BRIDGE_ADDRESS = ''0xF05F0e4362859c3331Cb9395CBC201E3Fa6757Ea''"

definition L2_BRIDGE_ADDRESS :: string where
  "L2_BRIDGE_ADDRESS = ''0x4000698e3De52120DE28181BaACda82B21568416''"

definition LEGACY_ERC20_ETH :: string where
  "LEGACY_ERC20_ETH = ''0xDeadDeAddeAddEAddeadDEaDDEAdDeaDDeAD0000''"

text \<open>Truthiness of an optional string (\<^verbatim>\<open>undefined\<close> and \<^verbatim>\<open>""\<close> are falsy).\<close>

fun truthy_str :: "string option \<Rightarrow> bool" where
  "truthy_str None = False"
| "truthy_str (Some s) = (s \<noteq> [])"

fun is_BNB :: "string option \<Rightarrow> bool" where
  "is_BNB None = False"
| "is_BNB (Some s) = (toUpperCase s = ''BNB'')"

definition unsupported_direction :: string where
  "unsupported_direction =
     ''Unsupported bridge direction. Currently only supporting: BSC '' @ [CHR 0xE2, CHR 0x86, CHR 0x94] @ '' opBNB''"

definition isSupported :: "string \<Rightarrow> string \<Rightarrow> bool" where
  "isSupported fromChain toChain =
     ((fromChain = ''bsc'' \<and> toChain = ''opBNB'') \<or> (fromChain = ''opBNB'' \<and> toChain = ''bsc''))"

text \<open>
  \<^verbatim>\<open>BridgeAction.validateAndNormalizeParams\<close>: the checks in the order of the source; the
  result is the normalised parameter record. It calls no collaborator.
\<close>

definition bridge_validateAndNormalizeParams :: "world \<Rightarrow> BridgeParams \<Rightarrow> err + BridgeParams" where
  "bridge_validateAndNormalizeParams w p0 =
     (let p = (if b_fromChain p0 = [] then p0\<lparr>b_fromChain := ''bsc''\<rparr> else p0) in
      if b_toChain p = [] then Inl ''Destination chain is required for bridging''
      else if \<not> isSupported (b_fromChain p) (b_toChain p) then Inl unsupported_direction
      else if b_amount p = [] then Inl ''Amount is required for bridging''
      else if \<not> positive_amount w (b_amount p) then
        Inl (''Invalid amount format: '' @ b_amount p @ ''. Please provide a valid number.'')
      else if b_fromChain p = ''bsc'' \<and> b_toChain p = ''opBNB'' \<and> truthy_str (b_fromToken p)
              \<and> \<not> is_BNB (b_fromToken p) \<and> \<not> truthy_str (b_toToken p) then
        Inl ''When bridging ERC20 tokens from BSC to opBNB, the token address on opBNB is required''
      else if b_fromChain p = ''bsc'' \<and> b_toChain p = ''opBNB'' \<and> truthy_str (b_fromToken p)
              \<and> \<not> is_BNB (b_fromToken p) \<and> \<not> startsWith (the (b_toToken p)) ''0x'' then
        Inl (''Invalid token address: '' @ the (b_toToken p) @ ''. Please provide a 0x-prefixed address.'')
      else
        (let p' = (if is_BNB (b_fromToken p) then p\<lparr>b_fromToken := None\<rparr> else p) in
         if truthy_str (b_toAddress p')
            \<and> (\<not> startsWith (the (b_toAddress p')) ''0x'' \<or> length (the (b_toAddress p')) \<noteq> 42) then
           Inl (''Invalid destination address: '' @ the (b_toAddress p')
                @ ''. Please provide a valid 0x-prefixed address.'')
         else Inr p'))"

definition bridge_rethrow :: "BridgeParams \<Rightarrow> BridgeResponse \<Rightarrow> err \<Rightarrow> 'a io" where
  "bridge_rethrow p resp e =
     (let errorMessage = (if e = [] then ''Error'' else e) in
      if str_includes errorMessage ''insufficient funds'' then
        io_throw (''Insufficient funds to bridge '' @ b_amount p @ '' '' @ br_fromToken resp
                  @ ''. Please check your balance.'')
      else if str_includes errorMessage ''user rejected'' then io_throw ''Transaction rejected by user.''
      else if str_includes errorMessage ''execution reverted'' then
        io_throw ''Bridge transaction reverted. This could be due to contract restrictions or incorrect parameters.''
      else io_throw e)"

text \<open>
  The amount in base units: \<^verbatim>\<open>parseEther\<close> for the native token, otherwise the token's
  \<^verbatim>\<open>decimals\<close> are read and \<^verbatim>\<open>parseUnits\<close> is used.
\<close>

definition decimals_call :: "string \<Rightarrow> contract_call" where
  "decimals_call token = \<lparr>address = token, functionName = ''decimals'', args = [], callValue = None\<rparr>"

definition bridge_amount :: "world \<Rightarrow> BridgeParams \<Rightarrow> bool \<Rightarrow> int io" where
  "bridge_amount w p nativeTokenBridge =
     (if nativeTokenBridge then io_lift (parseEther w (b_amount p))
      else
        io_bind (io_call (ReadContract (decimals_call (the (b_fromToken p))))
                   (decimals (client w) (the (b_fromToken p))))
          (\<lambda>d. io_lift (parseUnits (js w) (b_amount p) d)))"

text \<open>Simulate, then write: \<^verbatim>\<open>publicClient.simulateContract\<close>, \<^verbatim>\<open>walletClient.writeContract\<close>.\<close>

definition simulate_then_write :: "world \<Rightarrow> contract_call \<Rightarrow> string io" where
  "simulate_then_write w c =
     io_bind (io_call (SimulateContract c) (simulateContract (client w) c))
       (\<lambda>_. io_call (WriteContract c) (writeContract (client w) c))"

text \<open>The four deposit calls on the L1 bridge (BSC to opBNB).\<close>

definition l1_deposit_call :: "BridgeParams \<Rightarrow> bool \<Rightarrow> bool \<Rightarrow> int \<Rightarrow> contract_call" where
  "l1_deposit_call p selfBridge nativeTokenBridge amount =
     (if selfBridge \<and> nativeTokenBridge then
        \<lparr>address = L1_BRIDGE_ADDRESS, functionName = ''depositETH'',
         args = [AInt 1, AStr ''0x''], callValue = Some amount\<rparr>
      else if selfBridge \<and> \<not> nativeTokenBridge then
        \<lparr>address = L1_BRIDGE_ADDRESS, functionName = ''depositERC20'',
         args = [AStr (the (b_fromToken p)), AStr (case b_toToken p of None \<Rightarrow> [] | Some t \<Rightarrow> t),
                 AInt amount, AInt 1, AStr ''0x''],
         callValue = None\<rparr>
      else if \<not> selfBridge \<and> nativeTokenBridge then
        \<lparr>address = L1_BRIDGE_ADDRESS, functionName = ''depositETHTo'',
         args = [AStr (the (b_toAddress p)), AInt 1, AStr ''0x''], callValue = Some amount\<rparr>
      else
        \<lparr>address = L1_BRIDGE_ADDRESS, functionName = ''depositERC20To'',
         args = [AStr (the (b_fromToken p)), AStr (case b_toToken p of None \<Rightarrow> [] | Some t \<Rightarrow> t),
                 AStr (the (b_toAddress p)), AInt amount, AInt 1, AStr ''0x''],
         callValue = None\<rparr>)"

definition bridge_l1 :: "world \<Rightarrow> BridgeParams \<Rightarrow> bool \<Rightarrow> bool \<Rightarrow> int \<Rightarrow> string io" where
  "bridge_l1 w p selfBridge nativeTokenBridge amount =
     io_bind (if \<not> nativeTokenBridge then
                ensure_allowance w (b_fromChain p) (the (b_fromToken p)) (walletAddress (wallet w))
                  L1_BRIDGE_ADDRESS amount
              else io_return ())
       (\<lambda>_. simulate_then_write w (l1_deposit_call p selfBridge nativeTokenBridge amount))"

text \<open>The two withdraw calls on the L2 bridge (opBNB to BSC), with the delegation fee.\<close>

definition l2_withdraw_call :: "BridgeParams \<Rightarrow> bool \<Rightarrow> int \<Rightarrow> int \<Rightarrow> contract_call" where
  "l2_withdraw_call p nativeTokenBridge amount fee =
     (if nativeTokenBridge then
        \<lparr>address = L2_BRIDGE_ADDRESS, functionName = ''withdraw'',
         args = [AStr LEGACY_ERC20_ETH, AInt amount, AInt 1, AStr ''0x''],
         callValue = Some (amount + fee)\<rparr>
      else
        \<lparr>address = L2_BRIDGE_ADDRESS, functionName = ''withdraw'',
         args = [AStr (the (b_fromToken p)), AInt amount, AInt 1, AStr ''0x''],
         callValue = Some fee\<rparr>)"

definition delegationFee_call :: contract_call where
  "delegationFee_call =
     \<lparr>address = L2_BRIDGE_ADDRESS, functionName = ''delegationFee'', args = [], callValue = None\<rparr>"

definition bridge_l2 :: "world \<Rightarrow> BridgeParams \<Rightarrow> bool \<Rightarrow> int \<Rightarrow> string io" where
  "bridge_l2 w p nativeTokenBridge amount =
     io_bind (io_call (ReadContract delegationFee_call) (delegationFee (client w)))
       (\<lambda>fee.
          io_bind (if \<not> nativeTokenBridge then
                     ensure_allowance w (b_fromChain p) (the (b_fromToken p)) (walletAddress (wallet w))
                       L2_BRIDGE_ADDRESS amount
                   else io_return ())
            (\<lambda>_. simulate_then_write w (l2_withdraw_call p nativeTokenBridge amount fee)))"

text \<open>
  \<^verbatim>\<open>BridgeAction.bridge\<close>. Validation runs before the \<^verbatim>\<open>try\<close> block; the chain is switched
  and every chain call is made inside it.
\<close>

definition nativeTokenBridge_of :: "BridgeParams \<Rightarrow> bool" where
  "nativeTokenBridge_of p = (b_fromToken p = None \<or> is_BNB (b_fromToken p))"

definition bridge_response :: "world \<Rightarrow> BridgeParams \<Rightarrow> BridgeResponse" where
  "bridge_response w p =
     \<lparr>br_fromChain = b_fromChain p, br_toChain = b_toChain p,
      br_fromToken = (if nativeTokenBridge_of p then ''BNB''
                      else (case b_fromToken p of None \<Rightarrow> [] | Some t \<Rightarrow> t)),
      br_toToken = (if nativeTokenBridge_of p then ''BNB''
                    else (case b_toToken p of None \<Rightarrow> [] | Some t \<Rightarrow> t)),
      br_amount = b_amount p,
      br_txHash = ''0x'',
      br_recipient = (if truthy_str (b_toAddress p) then the (b_toAddress p)
                      else walletAddress (wallet w))\<rparr>"

definition bridge :: "world \<Rightarrow> BridgeParams \<Rightarrow> BridgeResponse io" where
  "bridge w p0 =
     io_bind (io_lift (bridge_validateAndNormalizeParams w p0))
       (\<lambda>p. let nativeTokenBridge = nativeTokenBridge_of p;
                selfBridge = (b_toAddress p = None);
                resp = bridge_response w p
            in io_catch
                 (io_bind (io_call (SwitchChain (b_fromChain p)) (Inr ()))
                    (\<lambda>_. io_bind (bridge_amount w p nativeTokenBridge)
                      (\<lambda>amount.
                         if b_fromChain p = ''bsc'' \<and> b_toChain p = ''opBNB'' then
                           io_bind (bridge_l1 w p selfBridge nativeTokenBridge amount)
                             (\<lambda>txHash. io_return (resp\<lparr>br_txHash := txHash\<rparr>))
                         else if b_fromChain p = ''opBNB'' \<and> b_toChain p = ''bsc'' then
                           io_bind (bridge_l2 w p nativeTokenBridge amount)
                             (\<lambda>txHash. io_return (resp\<lparr>br_txHash := txHash\<rparr>))
                         else io_return resp)))
                 (bridge_rethrow p resp))"

text \<open>
  Projections of a trace: the approvals submitted, and the approvals, receipt waits and
  contract simulations and writes in their order.
\<close>

fun is_approval :: "call \<Rightarrow> bool" where
  "is_approval (ApproveERC20 chain token spender amount) = True"
| "is_approval c = False"

fun is_transaction_step :: "call \<Rightarrow> bool" where
  "is_transaction_step (ApproveERC20 chain token spender amount) = True"
| "is_transaction_step (WaitForTransactionReceipt h) = True"
| "is_transaction_step (SimulateContract c) = True"
| "is_transaction_step (WriteContract c) = True"
| "is_transaction_step c = False"

section \<open>Transfers\<close>

text \<open>
  \<^verbatim>\<open>TransferParams\<close>. An absent token (\<^verbatim>\<open>null\<close>), amount or recipient is the empty string:
  the code tests each with \<^verbatim>\<open>!x\<close>, which the empty string and \<^verbatim>\<open>null\<close> both satisfy.
\<close>

record TransferParams =
  t_chain :: string
  t_token :: string
  t_amount :: string
  t_toAddress :: string
  t_data :: "string option"

record TransferResponse =
  tr_chain :: string
  tr_txHash :: string
  tr_recipient :: string
  tr_amount :: string
  tr_token :: string

definition TRANSFER_GAS :: int where
  "TRANSFER_GAS = 21000"

definition DEFAULT_GAS_PRICE :: int where
  "DEFAULT_GAS_PRICE = 3000000000"

fun join :: "string \<Rightarrow> string list \<Rightarrow> string" where
  "join sep [] = []"
| "join sep [x] = x"
| "join sep (x # y # ys) = x @ sep @ join sep (y # ys)"

text \<open>\<^verbatim>\<open>TransferAction.validateAndNormalizeParams\<close>: the recipient and the data field.\<close>

definition normalize_data :: "string option \<Rightarrow> string option" where
  "normalize_data d =
     (case d of
        None \<Rightarrow> Some ''0x''
      | Some v \<Rightarrow> if v = ''null'' then Some ''0x''
                  else if v \<noteq> ''0x'' \<and> \<not> startsWith v ''0x'' then Some (''0x'' @ v)
                  else Some v)"

definition transfer_validateAndNormalizeParams :: "world \<Rightarrow> TransferParams \<Rightarrow> TransferParams io" where
  "transfer_validateAndNormalizeParams w p =
     (if t_toAddress p = [] then io_throw ''To address is required''
      else
        io_bind
          (io_catch (io_call (FormatAddress (t_toAddress p)) (formatAddress (wallet w) (t_toAddress p)))
             (\<lambda>e. io_throw (''Invalid address format: '' @ t_toAddress p)))
          (\<lambda>a. io_return (p\<lparr>t_toAddress := a, t_data := normalize_data (t_data p)\<rparr>)))"

text \<open>
  The native transfer, which the source contains twice (for a token equal to the chain's
  native symbol, and for \<^verbatim>\<open>BNB\<close>/\<^verbatim>\<open>bnb\<close> on a chain whose native symbol differs): with no
  amount the value is the balance minus \<^verbatim>\<open>DEFAULT_GAS_PRICE * 21000n\<close> and the gas options
  are set; otherwise the amount is parsed. The result is \<^verbatim>\<open>resp.amount\<close> and the hash.
\<close>

definition native_transfer :: "world \<Rightarrow> TransferParams \<Rightarrow> string option \<Rightarrow> (string \<times> string) io" where
  "native_transfer w p dataParam =
     io_bind
       (if t_amount p = [] then
          io_bind (io_call (GetBalance (t_chain p) (walletAddress (wallet w)))
                     (getBalance (client w) 1 (t_chain p) (walletAddress (wallet w))))
            (\<lambda>balance. io_return
               (balance - DEFAULT_GAS_PRICE * 21000,
                \<lparr>gas = Some TRANSFER_GAS, gasPrice = Some DEFAULT_GAS_PRICE, data = dataParam\<rparr>))
        else
          (case parseEther w (t_amount p) of
             Inl e \<Rightarrow> io_throw (''Invalid amount format: '' @ t_amount p @ ''. Please provide a valid number.'')
           | Inr v \<Rightarrow> io_return (v, \<lparr>gas = None, gasPrice = None, data = dataParam\<rparr>)))
       (\<lambda>(v, options).
          io_bind (io_call (Transfer (t_chain p) (t_toAddress p) v options)
                     (providerTransfer (wallet w) (t_chain p) (t_toAddress p) v options))
            (\<lambda>txHash. io_return (formatEther v, txHash)))"

text \<open>The ERC20 transfer: symbol resolution, decimals, value, \<^verbatim>\<open>transferERC20\<close>.\<close>

definition resolve_transfer_token :: "world \<Rightarrow> TransferParams \<Rightarrow> string io" where
  "resolve_transfer_token w p =
     (if \<not> startsWith (t_token p) ''0x'' then
        io_catch
          (io_bind (io_call (ConfigureLiFiSdk (t_chain p)) (configureLiFiSdk (wallet w) (t_chain p)))
             (\<lambda>_. io_bind (io_call (GetTokenAddress (t_chain p) (t_token p))
                              (getTokenAddress (wallet w) (t_chain p) (t_token p)))
               (\<lambda>tokenAddress.
                  if tokenAddress = [] \<or> \<not> startsWith tokenAddress ''0x'' then
                    io_throw (''Could not resolve token symbol '' @ t_token p @ '' to a valid address'')
                  else io_return tokenAddress)))
          (\<lambda>e. io_throw (''Could not find token '' @ t_token p @ '' on chain '' @ t_chain p
                          @ ''. Please check the token symbol or use the contract address.''))
      else io_return (t_token p))"

definition erc20_transfer :: "world \<Rightarrow> TransferParams \<Rightarrow> (string \<times> string) io" where
  "erc20_transfer w p =
     io_bind (resolve_transfer_token w p)
       (\<lambda>tokenAddress.
          io_bind
            (io_catch (io_call (ReadContract (decimals_call tokenAddress)) (decimals (client w) tokenAddress))
               (\<lambda>e. io_throw (''Failed to get decimals for token at address '' @ tokenAddress
                               @ ''. The contract might not be an ERC20 token.'')))
            (\<lambda>d. io_bind
               (if t_amount p = [] then
                  io_catch (io_call (ReadContract (balanceOf_call tokenAddress (walletAddress (wallet w))))
                              (balanceOf (client w) 0 tokenAddress (walletAddress (wallet w))))
                    (\<lambda>e. io_throw (''Failed to get balance for token at address '' @ tokenAddress
                                    @ ''. The contract might not be an ERC20 token.''))
                else
                  (case parseUnits (js w) (t_amount p) d of
                     Inl e \<Rightarrow> io_throw (''Invalid amount format: '' @ t_amount p
                                         @ ''. Please provide a valid number.'')
                   | Inr v \<Rightarrow> io_return v))
               (\<lambda>v. io_bind (io_call (TransferERC20 (t_chain p) tokenAddress (t_toAddress p) v)
                                (transferERC20 (wallet w) (t_chain p) tokenAddress (t_toAddress p) v))
                  (\<lambda>txHash. io_return (formatUnits v d, txHash)))))"

text \<open>
  The end of \<^verbatim>\<open>transfer\<close>: an empty hash is an error; the wait for the receipt is inside
  a \<^verbatim>\<open>try\<close> whose \<^verbatim>\<open>catch\<close> only logs, and the response is returned either way.
\<close>

definition confirm_transfer :: "world \<Rightarrow> TransferResponse \<Rightarrow> TransferResponse io" where
  "confirm_transfer w resp =
     (if tr_txHash resp = [] \<or> tr_txHash resp = ''0x'' then io_throw ''Get transaction hash failed''
      else
        io_bind (io_catch (io_call (WaitForTransactionReceipt (tr_txHash resp))
                             (waitForTransactionReceipt (client w) (tr_txHash resp)))
                   (\<lambda>e. io_return ()))
          (\<lambda>_. io_return resp))"

text \<open>
  \<^verbatim>\<open>walletProvider.chains\<close> lists the configured chains with their native currency symbol
  (empty when the configuration names none).
\<close>

definition nativeToken_of :: "string \<Rightarrow> string" where
  "nativeToken_of nativeSymbol = (if nativeSymbol = [] then ''BNB'' else nativeSymbol)"

definition transfer_token :: "string \<Rightarrow> string \<Rightarrow> string" where
  "transfer_token nativeToken token =
     (if token = [] then nativeToken
      else if toLowerCase token = toLowerCase nativeToken then nativeToken
      else token)"

text \<open>The data passed on: \<^verbatim>\<open>params.data\<close> when it is a non-empty string starting with \<^verbatim>\<open>0x\<close>.\<close>

definition dataParam_of :: "TransferParams \<Rightarrow> string option" where
  "dataParam_of p0 =
     (case t_data p0 of
        None \<Rightarrow> None
      | Some d \<Rightarrow> if d \<noteq> [] \<and> startsWith d ''0x'' then Some d else None)"

text \<open>The balance read that \<^verbatim>\<open>transfer\<close> only logs; its failure is caught and logged.\<close>

definition balance_probe :: "world \<Rightarrow> string \<Rightarrow> unit io" where
  "balance_probe w chain =
     io_catch
       (io_bind (io_call (GetBalance chain (walletAddress (wallet w)))
                   (getBalance (client w) 0 chain (walletAddress (wallet w))))
          (\<lambda>balance. io_return ()))
       (\<lambda>e. io_return ())"

text \<open>
  The three branches of \<^verbatim>\<open>transfer\<close> on the normalised token: the native transfer, the
  native transfer for \<^verbatim>\<open>BNB\<close>/\<^verbatim>\<open>bnb\<close> reached in the ERC20 branch (which returns at once,
  without the hash check and the wait), and the ERC20 transfer.
\<close>

definition transfer_dispatch :: "world \<Rightarrow> string option \<Rightarrow> string \<Rightarrow> TransferParams \<Rightarrow> TransferResponse io" where
  "transfer_dispatch w dataParam nativeToken p =
     (let resp = \<lparr>tr_chain = t_chain p, tr_txHash = ''0x'', tr_recipient = t_toAddress p,
                 tr_amount = [], tr_token = t_token p\<rparr>
      in if t_token p = [] \<or> t_token p = ''null'' \<or> t_token p = nativeToken then
           io_bind (native_transfer w p dataParam)
             (\<lambda>(amount, txHash). confirm_transfer w (resp\<lparr>tr_amount := amount, tr_txHash := txHash\<rparr>))
         else if t_token p = ''BNB'' \<or> t_token p = ''bnb'' then
           io_bind (native_transfer w p dataParam)
             (\<lambda>(amount, txHash).
                io_return (resp\<lparr>tr_token := nativeToken, tr_amount := amount, tr_txHash := txHash\<rparr>))
         else
           io_bind (erc20_transfer w p)
             (\<lambda>(amount, txHash). confirm_transfer w (resp\<lparr>tr_amount := amount, tr_txHash := txHash\<rparr>)))"

text \<open>
  \<^verbatim>\<open>TransferAction.transfer\<close>: the chain check, the validation, the chain switch, the
  normalisation of the token against the chain's native symbol, and the dispatch.
\<close>

definition transfer :: "world \<Rightarrow> TransferParams \<Rightarrow> TransferResponse io" where
  "transfer w p0 =
     (case map_of (chains (wallet w)) (t_chain p0) of
        None \<Rightarrow>
          io_throw (''Chain '' @ [CHR 0x27] @ t_chain p0 @ [CHR 0x27] @ '' is not supported. Please use one of: ''
                    @ join '', '' (map fst (chains (wallet w))))
      | Some nativeSymbol \<Rightarrow>
          io_bind (transfer_validateAndNormalizeParams w p0)
            (\<lambda>p1. io_bind (io_call (SwitchChain (t_chain p1)) (Inr ()))
              (\<lambda>_. let nativeToken = nativeToken_of nativeSymbol;
                       p = p1\<lparr>t_token := transfer_token nativeToken (t_token p1)\<rparr>
                   in io_bind (balance_probe w (t_chain p))
                        (\<lambda>_. transfer_dispatch w (dataParam_of p0) nativeToken p))))"

text \<open>
  \<^verbatim>\<open>transfer\<close> writes into the parameter object it is given: \<^verbatim>\<open>validateAndNormalizeParams\<close>
  the formatted recipient and the data, \<^verbatim>\<open>transfer\<close> itself the normalised token. The chain
  check and the validation throw before anything is written. This is the object as the
  caller finds it afterwards, whether \<^verbatim>\<open>transfer\<close> returned or threw.
\<close>

definition transfer_params_after :: "world \<Rightarrow> TransferParams \<Rightarrow> TransferParams" where
  "transfer_params_after w p0 =
     (case map_of (chains (wallet w)) (t_chain p0) of
        None \<Rightarrow> p0
      | Some nativeSymbol \<Rightarrow>
          (case snd (transfer_validateAndNormalizeParams w p0) of
             Inl e \<Rightarrow> p0
           | Inr p1 \<Rightarrow> p1\<lparr>t_token := transfer_token (nativeToken_of nativeSymbol) (t_token p1)\<rparr>))"

section \<open>Swaps\<close>

text \<open>\<^verbatim>\<open>SwapParams\<close>; the slippage is a number or absent.\<close>

record SwapParams =
  s_chain :: string
  s_fromToken :: string
  s_toToken :: string
  s_amount :: string
  s_slippage :: "rat option"

record SwapResponse =
  sr_chain :: string
  sr_txHash :: string
  sr_fromToken :: string
  sr_toToken :: string
  sr_amount :: string

definition NATIVE_SENTINEL :: string where
  "NATIVE_SENTINEL = ''0xEeeeeEeeeEeEeeEeEeEeeEEEeeeeEeeeeeeeEEeE''"

definition invalid_swap_amount :: "string \<Rightarrow> string" where
  "invalid_swap_amount a = ''Invalid swap amount: '' @ a @ ''. Please provide a valid number.''"

definition swap_validateAndNormalizeParams :: "world \<Rightarrow> SwapParams \<Rightarrow> err + SwapParams" where
  "swap_validateAndNormalizeParams w p0 =
     (if s_chain p0 \<noteq> [] \<and> s_chain p0 \<noteq> ''bsc'' then Inl ''Only BSC mainnet is supported for swaps''
      else
        (let p = p0\<lparr>s_chain := ''bsc''\<rparr> in
         if s_fromToken p = [] then Inl ''From token is required for swap''
         else if s_toToken p = [] then Inl ''To token is required for swap''
         else if s_fromToken p = s_toToken p then
           Inl (''Cannot swap from and to the same token: '' @ s_fromToken p)
         else if s_amount p = [] then Inl ''Amount is required for swap''
         else
           (case parseEther w (s_amount p) of
              Inl e \<Rightarrow> Inl (invalid_swap_amount (s_amount p))
            | Inr amountBigInt \<Rightarrow>
                if amountBigInt \<le> 0 then Inl (invalid_swap_amount (s_amount p))
                else
                  (case s_slippage p of
                     None \<Rightarrow> Inr (p\<lparr>s_slippage := Some (1 / 20)\<rparr>)
                   | Some s \<Rightarrow>
                       if s \<le> 0 \<or> 1 < s then Inl ''Slippage must be between 0 and 1 (e.g., 0.05 for 5%)''
                       else Inr p))))"

text \<open>
  The resolution of one token of a swap (the source has the block once for the from token
  and once for the to token): a symbol is looked up with \<^verbatim>\<open>getTokenAddress\<close>, and the answer
  is then replaced by the native sentinel when the symbol is \<^verbatim>\<open>BNB\<close>.
\<close>

definition resolve_swap_token :: "world \<Rightarrow> string \<Rightarrow> string \<Rightarrow> string io" where
  "resolve_swap_token w chain token =
     (if \<not> startsWith token ''0x'' then
        io_catch
          (io_bind (io_call (GetTokenAddress chain token) (getTokenAddress (wallet w) chain token))
             (\<lambda>tokenAddress.
                if toUpperCase token = ''BNB'' then io_return NATIVE_SENTINEL
                else io_return tokenAddress))
          (\<lambda>e. io_throw (''Could not find token '' @ token @ '' on chain '' @ chain
                          @ ''. Please check the token symbol.''))
      else io_return token)"

definition swap_rethrow :: "SwapParams \<Rightarrow> err \<Rightarrow> 'a io" where
  "swap_rethrow p e =
     (let errorMessage = (if e = [] then ''Error'' else e) in
      if str_includes errorMessage ''insufficient funds'' then
        io_throw (''Insufficient funds for swapping '' @ s_amount p @ '' '' @ s_fromToken p
                  @ ''. Please check your balance.'')
      else if str_includes errorMessage ''Cannot read properties'' then
        io_throw ''Error processing swap response. This might be due to rate limits or invalid token parameters.''
      else io_throw e)"

definition swap :: "world \<Rightarrow> SwapParams \<Rightarrow> SwapResponse io" where
  "swap w p0 =
     io_bind (io_lift (swap_validateAndNormalizeParams w p0))
       (\<lambda>p. io_bind (io_call (ConfigureLiFiSdk (s_chain p)) (configureLiFiSdk (wallet w) (s_chain p)))
         (\<lambda>_. io_bind (resolve_swap_token w (s_chain p) (s_fromToken p))
           (\<lambda>fromTokenAddr. io_bind (resolve_swap_token w (s_chain p) (s_toToken p))
             (\<lambda>toTokenAddr.
                let resp = \<lparr>sr_chain = s_chain p, sr_txHash = ''0x'', sr_fromToken = s_fromToken p,
                            sr_toToken = s_toToken p, sr_amount = s_amount p\<rparr>;
                    slip = (case s_slippage p of None \<Rightarrow> 1 / 20 | Some s \<Rightarrow> if s = 0 then 1 / 20 else s)
                in io_catch
                     (io_bind (io_lift (parseEther w (s_amount p)))
                        (\<lambda>amt.
                           let req = \<lparr>fromTokenAddress = fromTokenAddr, toTokenAddress = toTokenAddr,
                                      fromAmount = amt, fromAddress = walletAddress (wallet w),
                                      slippage = slip\<rparr>
                           in io_bind (io_call (GetRoutes req) (getRoutes (lifi w) req))
                                (\<lambda>routes.
                                   case routes of
                                     [] \<Rightarrow> io_throw (''No routes found from '' @ s_fromToken p @ '' to ''
                                                      @ s_toToken p @ '' with amount '' @ s_amount p)
                                   | r # rs \<Rightarrow>
                                       io_bind (io_call (ExecuteRoute r) (executeRoute (lifi w) r))
                                         (\<lambda>process.
                                            case process of
                                              None \<Rightarrow> io_throw ''Transaction failed: unknown error''
                                            | Some (status, txHash) \<Rightarrow>
                                                if status = [] then io_throw ''Transaction failed: unknown error''
                                                else if status = ''FAILED'' then io_throw ''Transaction failed: FAILED''
                                                else io_return (resp\<lparr>sr_txHash := txHash\<rparr>)))))
                     (swap_rethrow p)))))"

fun is_token_lookup :: "call \<Rightarrow> bool" where
  "is_token_lookup (GetTokenAddress chain symbol) = True"
| "is_token_lookup c = False"

text \<open>A property that every call of an execution has.\<close>

definition all_calls :: "(call \<Rightarrow> bool) \<Rightarrow> 'a io \<Rightarrow> bool" where
  "all_calls P m = list_all P (fst m)"

fun is_wait :: "call \<Rightarrow> bool" where
  "is_wait (WaitForTransactionReceipt h) = True"
| "is_wait c = False"

text \<open>
  The tokens that \<^verbatim>\<open>transfer\<close> sends through a native branch, after its normalisation of
  the token: \<^verbatim>\<open>null\<close>, the chain's native symbol, \<^verbatim>\<open>BNB\<close> and \<^verbatim>\<open>bnb\<close>.
\<close>

definition takes_native_branch :: "string \<Rightarrow> string \<Rightarrow> bool" where
  "takes_native_branch nativeSymbol token =
     (let nativeToken = nativeToken_of nativeSymbol; tk = transfer_token nativeToken token
      in tk = [] \<or> tk = ''null'' \<or> tk = nativeToken \<or> tk = ''BNB'' \<or> tk = ''bnb'')"

section \<open>The testnet faucet\<close>

record FaucetParams =
  f_token :: string
  f_toAddress :: string

record FaucetResponse =
  fr_token :: string
  fr_recipient :: string
  fr_txHash :: string

definition SUPPORTED_TOKENS :: "string list" where
  "SUPPORTED_TOKENS = [''BNB'', ''BTC'', ''BUSD'', ''DAI'', ''ETH'', ''USDC'']"

definition FAUCET_URL :: string where
  "FAUCET_URL = ''wss://testnet.bnbchain.org/faucet-smart/api''"

text \<open>
  \<^verbatim>\<open>FaucetAction.validateAndNormalizeParams\<close>: an absent token becomes \<^verbatim>\<open>BNB\<close>, an
  unsupported one is an error; an absent recipient, or one that cannot be formatted, becomes
  the wallet's own address.
\<close>

definition faucet_validateAndNormalizeParams :: "world \<Rightarrow> FaucetParams \<Rightarrow> FaucetParams io" where
  "faucet_validateAndNormalizeParams w p0 =
     (let p = (if f_token p0 = [] then p0\<lparr>f_token := ''BNB''\<rparr> else p0) in
      if f_token p \<notin> set SUPPORTED_TOKENS then
        io_throw (''Unsupported token: '' @ f_token p @ ''. Supported tokens are: ''
                  @ join '', '' SUPPORTED_TOKENS)
      else if f_toAddress p = [] then io_return (p\<lparr>f_toAddress := walletAddress (wallet w)\<rparr>)
      else if startsWith (f_toAddress p) ''0x'' \<and> length (f_toAddress p) = 42 then io_return p
      else
        io_catch
          (io_bind (io_call (FormatAddress (f_toAddress p)) (formatAddress (wallet w) (f_toAddress p)))
             (\<lambda>a. io_return (p\<lparr>f_toAddress := a\<rparr>)))
          (\<lambda>e. io_return (p\<lparr>f_toAddress := walletAddress (wallet w)\<rparr>)))"

text \<open>
  What the socket and the timer deliver, in the order in which the event loop runs the
  listeners. A message is the parsed response: its \<^verbatim>\<open>success\<close> flag, the hash of its first
  request when it has requests, and its \<^verbatim>\<open>error\<close> (empty when absent).
\<close>

record faucet_message =
  m_success :: bool
  m_hash :: "string option"
  m_error :: string

datatype ws_event = WsOpen | WsError string | WsMessage faucet_message | TimerFired

datatype 'a settled = Unsettled | Resolved 'a | Rejected err

text \<open>
  The first promise: \<^verbatim>\<open>ws.once("open", resolve)\<close>, \<^verbatim>\<open>ws.once("error", reject)\<close>. No message
  listener and no timer exist yet. The result is the settlement and the events left.
\<close>

fun await_open :: "ws_event list \<Rightarrow> unit settled \<times> ws_event list" where
  "await_open [] = (Unsettled, [])"
| "await_open (WsOpen # es) = (Resolved (), es)"
| "await_open (WsError e # es) = (Rejected e, es)"
| "await_open (ev # es) = await_open es"

text \<open>
  The second promise, with its 15 second timer. The timer's callback closes the socket and
  rejects. A message with \<^verbatim>\<open>success\<close> is the acknowledgement; a message with a hash clears
  the timer and resolves; a message with an error clears the timer and rejects; the error
  listener clears the timer and rejects. The calls made by the listeners are collected.
\<close>

definition format_hash :: "string \<Rightarrow> string" where
  "format_hash h = (if startsWith h ''0x'' then h else ''0x'' @ h)"

fun await_hash :: "ws_event list \<Rightarrow> call list \<times> string settled" where
  "await_hash [] = ([], Unsettled)"
| "await_hash (TimerFired # es) = ([WsClose], Rejected ''Faucet request timeout'')"
| "await_hash (WsMessage m # es) =
     (if m_success m then await_hash es
      else if truthy_str (m_hash m) then ([], Resolved (format_hash (the (m_hash m))))
      else if m_error m \<noteq> [] then ([], Rejected (m_error m))
      else await_hash es)"
| "await_hash (WsError e # es) = ([], Rejected (''WebSocket error occurred: '' @ e))"
| "await_hash (WsOpen # es) = await_hash es"

text \<open>
  \<^verbatim>\<open>FaucetAction.faucet\<close>: the outcome is a response, a thrown error, or still pending when
  the events end before either promise settles. The \<^verbatim>\<open>finally\<close> block closes the socket
  whenever the inner \<^verbatim>\<open>try\<close> block is left.
\<close>

datatype faucet_outcome = Pending | Threw err | Returned FaucetResponse

definition faucet :: "world \<Rightarrow> ws_event list \<Rightarrow> FaucetParams \<Rightarrow> call list \<times> faucet_outcome" where
  "faucet w events p0 =
     (case faucet_validateAndNormalizeParams w p0 of
        (t, Inl e) \<Rightarrow> (t, Threw e)
      | (t, Inr p) \<Rightarrow>
          (case await_open events of
             (Unsettled, es) \<Rightarrow> (t @ [WsConnect FAUCET_URL], Pending)
           | (Rejected e, es) \<Rightarrow> (t @ [WsConnect FAUCET_URL, WsClose], Threw e)
           | (Resolved u, es) \<Rightarrow>
               (case await_hash es of
                  (c, Unsettled) \<Rightarrow>
                    (t @ [WsConnect FAUCET_URL, WsSend (f_toAddress p) (f_token p)] @ c, Pending)
                | (c, Rejected e) \<Rightarrow>
                    (t @ [WsConnect FAUCET_URL, WsSend (f_toAddress p) (f_token p)] @ c @ [WsClose], Threw e)
                | (c, Resolved txHash) \<Rightarrow>
                    (t @ [WsConnect FAUCET_URL, WsSend (f_toAddress p) (f_token p)] @ c @ [WsClose],
                     Returned \<lparr>fr_token = f_token p, fr_recipient = f_toAddress p, fr_txHash = txHash\<rparr>))))"

text \<open>A message that leaves the second promise unsettled.\<close>

definition unsettling :: "faucet_message \<Rightarrow> bool" where
  "unsettling m = (m_success m \<or> (\<not> truthy_str (m_hash m) \<and> m_error m = []))"

fun is_close :: "call \<Rightarrow> bool" where
  "is_close WsClose = True"
| "is_close c = False"

definition faucet_params :: FaucetParams where
  "faucet_params = \<lparr>f_token = ''USDC'', f_toAddress = []\<rparr>"

definition faucet_ack :: faucet_message where
  "faucet_ack = \<lparr>m_success = True, m_hash = None, m_error = []\<rparr>"

section \<open>Action handlers: shared parts\<close>

text \<open>
  The message a handler receives: \<^verbatim>\<open>message.content.text\<close> (of unknown type) and
  \<^verbatim>\<open>message.content.source\<close> (empty when absent).
\<close>

record message =
  msg_text :: jsval
  msg_source :: string

definition is_space :: "char \<Rightarrow> bool" where
  "is_space c = (c = CHR '' '' \<or> c = CHR 0x09 \<or> c = CHR 0x0A \<or> c = CHR 0x0B \<or> c = CHR 0x0C \<or> c = CHR 0x0D)"

definition trim :: "string \<Rightarrow> string" where
  "trim s = rev (dropWhile is_space (rev (dropWhile is_space s)))"

definition promptText_of :: "message \<Rightarrow> string" where
  "promptText_of m = (case msg_text m of JStr s \<Rightarrow> trim s | _ \<Rightarrow> [])"

text \<open>
  \<^verbatim>\<open>match?.[i]\<close>: the \<open>i\<close>-th element of a match array, \<^verbatim>\<open>undefined\<close> for a group that did
  not take part, for an index past the end, and for no match at all.
\<close>

definition grp :: "regex_match option \<Rightarrow> nat \<Rightarrow> string option" where
  "grp m i = (case m of None \<Rightarrow> None | Some gs \<Rightarrow> if i < length gs then gs ! i else None)"

text \<open>\<^verbatim>\<open>x || d\<close> on an optional string.\<close>

definition or_else :: "string option \<Rightarrow> string \<Rightarrow> string" where
  "or_else x d = (if truthy_str x then the x else d)"

text \<open>\<^verbatim>\<open>String(v)\<close> for the strings and numbers the handlers apply it to.\<close>

definition js_to_string :: "world \<Rightarrow> jsval \<Rightarrow> string" where
  "js_to_string w v = (case v of JStr s \<Rightarrow> s | JNum n \<Rightarrow> numberToString (js w) n | _ \<Rightarrow> [])"

text \<open>
  An amount taken from the model's JSON: \<^verbatim>\<open>content.amount && (typeof content.amount ===
  'string' || typeof content.amount === 'number')\<close>.
\<close>

definition usable_amount :: "jsval \<Rightarrow> bool" where
  "usable_amount v = (truthy v \<and> (is_string v \<or> is_number v))"

text \<open>A token taken from the model's JSON: \<^verbatim>\<open>v && typeof v === 'string'\<close>.\<close>

definition usable_string :: "jsval \<Rightarrow> bool" where
  "usable_string v = (truthy v \<and> is_string v)"

definition str_of :: "jsval \<Rightarrow> string" where
  "str_of v = (case v of JStr s \<Rightarrow> s | _ \<Rightarrow> [])"

text \<open>
  \<^verbatim>\<open>typeof mlOutput === 'string' ? JSON.parse(mlOutput) : mlOutput\<close> inside a \<^verbatim>\<open>try\<close> whose
  \<^verbatim>\<open>catch\<close> leaves \<^verbatim>\<open>content = {}\<close> (swap and bridge handlers). A parsed \<^verbatim>\<open>null\<close> and a
  \<^verbatim>\<open>null\<close> output are assigned as they are.
\<close>

definition empty_object :: jsobject where
  "empty_object = (\<lambda>k. JUndefined)"

definition parse_content :: "world \<Rightarrow> model_output \<Rightarrow> parsed" where
  "parse_content w out =
     (case out of
        MObject obj \<Rightarrow> PObject obj
      | MNull \<Rightarrow> PNull
      | MString s \<Rightarrow> (case jsonParse (js w) s of Some v \<Rightarrow> v | None \<Rightarrow> PObject empty_object))"

text \<open>
  The first read of a property of the content, which every handler makes outside its
  \<^verbatim>\<open>try\<close> blocks: reading a property of \<^verbatim>\<open>null\<close> is a \<^verbatim>\<open>TypeError\<close>; otherwise the
  content is an object for the rest of the handler.
\<close>

definition cannot_read :: "string \<Rightarrow> err" where
  "cannot_read k = ''Cannot read properties of null (reading '' @ [CHR 0x27] @ k @ [CHR 0x27] @ '')''"

definition read_content :: "parsed \<Rightarrow> string \<Rightarrow> err + jsobject" where
  "read_content c k = (case c of PObject obj \<Rightarrow> Inr obj | PNull \<Rightarrow> Inl (cannot_read k))"

text \<open>\<^verbatim>\<open>EXPLORERS.KEY.url\<close> for the keys the handlers name.\<close>

definition explorer_url :: "world \<Rightarrow> string \<Rightarrow> string" where
  "explorer_url w k = (case EXPLORERS (runtime w) k of Some u \<Rightarrow> u | None \<Rightarrow> [])"

definition chain_explorer :: "world \<Rightarrow> string \<Rightarrow> string" where
  "chain_explorer w chain =
     explorer_url w (if chain = ''bsctestnet'' then ''BSC_TESTNET''
                     else if chain = ''opbnb'' then ''OPBNB'' else ''BSC'')"

text \<open>
  The state: \<^verbatim>\<open>state ? state : await runtime.composeState(message)\<close>, outside any
  \<^verbatim>\<open>try\<close>.
\<close>

definition current_state :: "world \<Rightarrow> bool \<Rightarrow> unit io" where
  "current_state w state_given =
     (if state_given then io_return () else io_call ComposeState (composeState (runtime w)))"

text \<open>
  \<^verbatim>\<open>callback?.(response)\<close>, for a handler that is given a callback (without one the call is
  skipped).
\<close>

definition callback :: "response \<Rightarrow> unit io" where
  "callback r = io_call (Callback r) (Inr ())"

definition error_message :: "err \<Rightarrow> string" where
  "error_message e = (if e = [] then ''Error'' else e)"

section \<open>The transfer handler\<close>

definition directTokenMatch :: "regex_match option \<Rightarrow> string option" where
  "directTokenMatch m =
     (case m of
        None \<Rightarrow> None
      | Some gs \<Rightarrow> if 3 \<le> length gs \<and> truthy_str (grp m 2) then Some (toUpperCase (the (grp m 2)))
                   else None)"

text \<open>The content set from the prompt's match when the model output cannot be parsed.\<close>

definition fallback_content :: "regex_match option \<Rightarrow> jsobject" where
  "fallback_content m =
     (case m of
        None \<Rightarrow> empty_object
      | Some gs \<Rightarrow>
          (\<lambda>k. if k = ''amount'' then JStr (or_else (grp m 1) [])
               else if k = ''token'' then JStr (or_else (grp m 2) ''BNB'')
               else if k = ''toAddress'' then JStr (or_else (grp m 3) [])
               else JUndefined))"

definition transfer_content :: "world \<Rightarrow> regex_match option \<Rightarrow> model_output \<Rightarrow> parsed" where
  "transfer_content w m out =
     (case out of
        MObject obj \<Rightarrow> PObject obj
      | MNull \<Rightarrow> PNull
      | MString s \<Rightarrow>
          (let fenced = regexMatch (js w) MarkdownJsonRegex s;
               jsonStr = (if truthy_str (grp fenced 1) then the (grp fenced 1) else s)
           in case jsonParse (js w) jsonStr of Some v \<Rightarrow> v | None \<Rightarrow> PObject (fallback_content m)))"

text \<open>
  The parameters the transfer handler passes to \<^verbatim>\<open>transfer\<close>. The token comes first from
  the prompt's match, then from the content; the recipient and the amount come first from
  the content, then from the prompt's match.
\<close>

definition transfer_handler_token :: "regex_match option \<Rightarrow> jsobject \<Rightarrow> string" where
  "transfer_handler_token m content =
     (let token = (case directTokenMatch m of
                     Some t \<Rightarrow> t
                   | None \<Rightarrow> if usable_string (content ''token'') then str_of (content ''token'')
                             else ''BNB'')
      in if token = [] then ''BNB'' else token)"

definition transfer_handler_toAddress :: "regex_match option \<Rightarrow> jsobject \<Rightarrow> string" where
  "transfer_handler_toAddress m content =
     (if is_string (content ''toAddress'') then str_of (content ''toAddress'')
      else if truthy_str (grp m 3) then the (grp m 3)
      else [])"

definition transfer_handler_amount :: "world \<Rightarrow> regex_match option \<Rightarrow> jsobject \<Rightarrow> string" where
  "transfer_handler_amount w m content =
     (if usable_amount (content ''amount'') then js_to_string w (content ''amount'')
      else if truthy_str (grp m 1) then the (grp m 1)
      else [])"

definition transfer_handler_params :: "world \<Rightarrow> regex_match option \<Rightarrow> jsobject \<Rightarrow> TransferParams" where
  "transfer_handler_params w m content =
     \<lparr>t_chain = (if is_string (content ''chain'') then toLowerCase (str_of (content ''chain'')) else ''bsc''),
      t_token = transfer_handler_token m content,
      t_amount = transfer_handler_amount w m content,
      t_toAddress = transfer_handler_toAddress m content,
      t_data = (if usable_string (content ''data'') \<and> startsWith (str_of (content ''data'')) ''0x''
                   \<and> str_of (content ''data'') \<noteq> ''0x''
                then Some (str_of (content ''data'')) else None)\<rparr>"

definition transfer_success :: "world \<Rightarrow> string \<Rightarrow> TransferResponse \<Rightarrow> response" where
  "transfer_success w chain r =
     (let blockExplorerUrl = chain_explorer w chain @ ''/tx/'' @ tr_txHash r;
          walletExplorerUrl = chain_explorer w chain @ ''/address/'' @ tr_recipient r
      in \<lparr>resp_text = ''Successfully transferred '' @ tr_amount r @ '' '' @ tr_token r @ '' to ''
                        @ tr_recipient r @ [CHR 0x0A] @ ''Transaction Hash: '' @ tr_txHash r @ [CHR 0x0A]
                        @ ''Check on block explorer: '' @ blockExplorerUrl @ [CHR 0x0A]
                        @ ''Check the wallet: '' @ walletExplorerUrl,
          resp_content = [(''chain'', JStr (tr_chain r)), (''txHash'', JStr (tr_txHash r)),
                          (''recipient'', JStr (tr_recipient r)), (''amount'', JStr (tr_amount r)),
                          (''token'', JStr (tr_token r)),
                          (''blockExplorerUrl'', JStr blockExplorerUrl),
                          (''walletExplorerUrl'', JStr walletExplorerUrl)]\<rparr>)"

text \<open>
  The message of the transfer handler's \<^verbatim>\<open>catch\<close> block: the LI.FI diagnoses, then the
  common errors. The token named is the one the handler passed.
\<close>

definition transfer_error_text :: "world \<Rightarrow> TransferParams \<Rightarrow> err \<Rightarrow> string" where
  "transfer_error_text w p e =
     (let m0 = error_message e;
          m1 = (if str_includes m0 ''LI.FI SDK'' then
                  (if str_includes m0 ''Request failed with status code 404''
                      \<and> str_includes m0 ''Could not find token'' then
                     (let found = regexMatch (js w) TokenNotFoundRegex m0;
                          tokenValue = (case found of None \<Rightarrow> t_token p
                                        | Some gs \<Rightarrow> (case grp found 1 of None \<Rightarrow> [] | Some t \<Rightarrow> t))
                      in ''Could not find the token '' @ [CHR 0x27] @ tokenValue @ [CHR 0x27] @ '' on ''
                         @ t_chain p @ ''. '' @ [CHR 0x0A]
                         @ ''          Please check the token symbol or address and try again.''
                         @ (if tokenValue = ''null'' \<or> tokenValue = ''undefined'' \<or> tokenValue = [] then
                              '' For BNB transfers, please explicitly specify 'BNB' as the token.''
                            else []))
                   else if str_includes m0 ''400 Bad Request'' \<and> str_includes m0 ''chain must be'' then
                     ''Chain validation error: '' @ [CHR 0x27] @ t_chain p @ [CHR 0x27]
                     @ '' is not a valid chain for the LI.FI SDK. '' @ [CHR 0x0A]
                     @ ''          Please use 'bsc' for BSC mainnet.''
                   else m0)
                else m0)
      in if str_includes m1 ''insufficient funds'' then
           ''Insufficient funds for the transaction. Please check your balance and try again with a smaller amount.''
         else if str_includes m1 ''transaction underpriced'' then
           ''Transaction underpriced. Please try again with a higher gas price.''
         else m1)"

definition transfer_failure :: "world \<Rightarrow> TransferParams \<Rightarrow> err \<Rightarrow> response" where
  "transfer_failure w p e =
     (let errorMessage = transfer_error_text w p e;
          walletExplorerUrl = chain_explorer w (t_chain p) @ ''/address/'' @ walletAddress (wallet w)
      in \<lparr>resp_text = ''Transfer failed: '' @ errorMessage @ [CHR 0x0A]
                        @ ''You can check your wallet balance at: '' @ walletExplorerUrl,
          resp_content = [(''error'', JStr errorMessage), (''walletExplorerUrl'', JStr walletExplorerUrl)]\<rparr>)"

text \<open>
  The \<^verbatim>\<open>try\<close>/\<^verbatim>\<open>catch\<close> every handler ends with: run the action; on its value report success
  and return \<^verbatim>\<open>true\<close>; on its error report the failure and return \<^verbatim>\<open>false\<close>.
\<close>

definition run_action :: "'a io \<Rightarrow> ('a \<Rightarrow> response) \<Rightarrow> (err \<Rightarrow> response) \<Rightarrow> bool io" where
  "run_action act success failure =
     io_catch
       (io_bind act (\<lambda>r. io_bind (callback (success r)) (\<lambda>_. io_return True)))
       (\<lambda>e. io_bind (callback (failure e)) (\<lambda>_. io_return False))"

text \<open>
  \<^verbatim>\<open>transferAction.handler\<close>. The source check comes first. The state, the model call, the
  first read of the content (\<^verbatim>\<open>content.chain\<close>) and the wallet provider's construction are
  outside any \<^verbatim>\<open>try\<close>; the wallet info is read inside a \<^verbatim>\<open>try\<close> whose \<^verbatim>\<open>catch\<close> only logs.
  The \<^verbatim>\<open>catch\<close> of the last \<^verbatim>\<open>try\<close> reads \<^verbatim>\<open>paramOptions\<close> as \<^verbatim>\<open>transfer\<close> left it. The reads
  \<^verbatim>\<open>runtime.getSetting\<close> and \<^verbatim>\<open>walletProvider.getAddress\<close>, whose values only reach the log
  and the explorer links, are taken to return.
\<close>

definition transferAction_handler :: "world \<Rightarrow> message \<Rightarrow> bool \<Rightarrow> bool io" where
  "transferAction_handler w msg state_given =
     (let m = regexMatch (js w) TransferRegex (promptText_of msg) in
      if \<not> (msg_source msg = ''direct'' \<or> msg_source msg = ''client_chat:user'') then
        io_bind (callback \<lparr>resp_text = ''I can't do that for you.'',
                          resp_content = [(''error'', JStr ''Transfer not allowed'')]\<rparr>)
          (\<lambda>_. io_return False)
      else
        io_bind (current_state w state_given)
          (\<lambda>_. io_bind (if state_given
                        then io_catch (io_call WalletInfo (walletInfo (runtime w))) (\<lambda>e. io_return ())
                        else io_return ())
            (\<lambda>_. io_bind (io_call UseModel (useModel (runtime w)))
              (\<lambda>mlOutput. io_bind (io_lift (read_content (transfer_content w m mlOutput) ''chain''))
                (\<lambda>content.
                   let paramOptions = transfer_handler_params w m content
                   in io_bind (io_call InitWalletProvider (initWalletProvider (runtime w)))
                        (\<lambda>_. run_action (transfer w paramOptions)
                               (transfer_success w (t_chain paramOptions))
                               (transfer_failure w (transfer_params_after w paramOptions))))))))"

section \<open>The swap handler\<close>

text \<open>\<^verbatim>\<open>promptText.match(basicSwapRegex) || promptText.match(advancedSwapRegex)\<close>.\<close>

definition swap_match :: "world \<Rightarrow> string \<Rightarrow> regex_match option" where
  "swap_match w promptText =
     (case regexMatch (js w) BasicSwapRegex promptText of
        Some gs \<Rightarrow> Some gs
      | None \<Rightarrow> regexMatch (js w) AdvancedSwapRegex promptText)"

text \<open>The values taken from the prompt when the match has its three groups.\<close>

definition swap_direct :: "regex_match option \<Rightarrow> nat \<Rightarrow> string option" where
  "swap_direct m i =
     (case m of
        None \<Rightarrow> None
      | Some gs \<Rightarrow> if 4 \<le> length gs \<and> truthy_str (grp m i) then grp m i else None)"

definition tokenMentions :: "world \<Rightarrow> string \<Rightarrow> string \<Rightarrow> bool" where
  "tokenMentions w promptText token = (regexMatch (js w) (TokenMention token) promptText \<noteq> None)"

definition swap_handler_fromToken :: "regex_match option \<Rightarrow> jsobject \<Rightarrow> string" where
  "swap_handler_fromToken m content =
     (case swap_direct m 2 of
        Some t \<Rightarrow> toUpperCase t
      | None \<Rightarrow> if usable_string (content ''inputToken'') then str_of (content ''inputToken'')
                else ''BNB'')"

definition swap_handler_toToken :: "world \<Rightarrow> string \<Rightarrow> regex_match option \<Rightarrow> jsobject \<Rightarrow> string" where
  "swap_handler_toToken w promptText m content =
     (let fromToken = swap_handler_fromToken m content in
      case swap_direct m 3 of
        Some t \<Rightarrow> toUpperCase t
      | None \<Rightarrow>
          if usable_string (content ''outputToken'') then str_of (content ''outputToken'')
          else
            (case filter (\<lambda>token. token \<noteq> fromToken \<and> tokenMentions w promptText token)
                         [''USDC'', ''USDT'', ''BUSD''] of
               token # rest \<Rightarrow> token
             | [] \<Rightarrow> if fromToken = ''BNB'' then ''USDC'' else ''BNB''))"

definition swap_handler_amount :: "world \<Rightarrow> regex_match option \<Rightarrow> jsobject \<Rightarrow> string" where
  "swap_handler_amount w m content =
     (case swap_direct m 1 of
        Some a \<Rightarrow> a
      | None \<Rightarrow> if usable_amount (content ''amount'') then js_to_string w (content ''amount'')
                else ''0.001'')"

definition swap_handler_params :: "world \<Rightarrow> string \<Rightarrow> jsobject \<Rightarrow> SwapParams" where
  "swap_handler_params w promptText content =
     (let m = swap_match w promptText in
      \<lparr>s_chain = (if is_string (content ''chain'') then toLowerCase (str_of (content ''chain'')) else ''bsc''),
       s_fromToken = swap_handler_fromToken m content,
       s_toToken = swap_handler_toToken w promptText m content,
       s_amount = swap_handler_amount w m content,
       s_slippage = (case content ''slippage'' of
                       JNum s \<Rightarrow> if s \<le> 0 \<or> 1 < s then Some (1 / 20) else Some s
                     | _ \<Rightarrow> Some (1 / 20))\<rparr>)"

definition swap_success :: "world \<Rightarrow> SwapParams \<Rightarrow> SwapResponse \<Rightarrow> response" where
  "swap_success w p r =
     (let txExplorerUrl = chain_explorer w (s_chain p) @ ''/tx/'' @ sr_txHash r;
          walletExplorerUrl = chain_explorer w (s_chain p) @ ''/address/'' @ walletAddress (wallet w)
      in \<lparr>resp_text = ''Successfully swapped '' @ sr_amount r @ '' '' @ sr_fromToken r @ '' to ''
                        @ sr_toToken r @ [CHR 0x0A] @ ''Transaction Hash: '' @ sr_txHash r @ [CHR 0x0A]
                        @ ''View transaction: '' @ txExplorerUrl @ [CHR 0x0A]
                        @ ''View wallet: '' @ walletExplorerUrl @ [CHR 0x0A, CHR 0x0A],
          resp_content = [(''chain'', JStr (sr_chain r)), (''txHash'', JStr (sr_txHash r)),
                          (''fromToken'', JStr (sr_fromToken r)), (''toToken'', JStr (sr_toToken r)),
                          (''amount'', JStr (sr_amount r)),
                          (''txExplorerUrl'', JStr txExplorerUrl),
                          (''walletExplorerUrl'', JStr walletExplorerUrl),
                          (''gasDetails'', JObject)]\<rparr>)"

definition swap_error_text :: "SwapParams \<Rightarrow> err \<Rightarrow> string" where
  "swap_error_text p e =
     (let m0 = error_message e in
      if str_includes m0 ''No routes found'' then
        ''No swap route found from '' @ s_fromToken p @ '' to '' @ s_toToken p
        @ ''. Please check that both tokens exist and have liquidity.''
      else if str_includes m0 ''insufficient funds'' then
        ''Insufficient funds for the swap. Please check your balance and try with a smaller amount.''
      else if str_includes m0 ''high slippage'' then
        ''Swap failed due to high price impact. Try reducing the amount or using a different token pair.''
      else m0)"

definition swap_failure :: "SwapParams \<Rightarrow> err \<Rightarrow> response" where
  "swap_failure p e =
     \<lparr>resp_text = ''Swap failed: '' @ swap_error_text p e,
      resp_content = [(''error'', JStr (swap_error_text p e)), (''fromToken'', JStr (s_fromToken p)),
                      (''toToken'', JStr (s_toToken p))]\<rparr>"

text \<open>
  \<^verbatim>\<open>swapAction.handler\<close>: as the transfer handler, without the source check; the first read
  of the content is \<^verbatim>\<open>content.chain\<close>.
\<close>

definition swapAction_handler :: "world \<Rightarrow> message \<Rightarrow> bool \<Rightarrow> bool io" where
  "swapAction_handler w msg state_given =
     io_bind (current_state w state_given)
       (\<lambda>_. io_bind (if state_given
                     then io_catch (io_call WalletInfo (walletInfo (runtime w))) (\<lambda>e. io_return ())
                     else io_return ())
         (\<lambda>_. io_bind (io_call UseModel (useModel (runtime w)))
           (\<lambda>mlOutput. io_bind (io_lift (read_content (parse_content w mlOutput) ''chain''))
             (\<lambda>content.
                let swapOptions = swap_handler_params w (promptText_of msg) content
                in io_bind (io_call InitWalletProvider (initWalletProvider (runtime w)))
                     (\<lambda>_. run_action (swap w swapOptions) (swap_success w swapOptions)
                            (swap_failure swapOptions))))))"

section \<open>The bridge handler\<close>

text \<open>
  \<^verbatim>\<open>convertNullStringToUndefined\<close>: \<^verbatim>\<open>null\<close> and the empty string become \<^verbatim>\<open>undefined\<close>; every
  other value is returned as it is, whatever its type.
\<close>

definition convertNullStringToUndefined :: "jsval \<Rightarrow> jsval" where
  "convertNullStringToUndefined v = (if v = JNull \<or> v = JStr [] then JUndefined else v)"

text \<open>
  \<^verbatim>\<open>v?.startsWith("0x")\<close> on a value the code has cast to a string: \<^verbatim>\<open>undefined\<close> (and
  \<^verbatim>\<open>null\<close>) give a falsy result, a string is tested, and any other value has no such
  method, which is a \<^verbatim>\<open>TypeError\<close>.
\<close>

definition js_startsWith_0x :: "jsval \<Rightarrow> err + bool" where
  "js_startsWith_0x v =
     (case v of
        JUndefined \<Rightarrow> Inr False
      | JNull \<Rightarrow> Inr False
      | JStr s \<Rightarrow> Inr (startsWith s ''0x'')
      | _ \<Rightarrow> Inl ''TypeError: startsWith is not a function'')"

text \<open>The direction named by keywords of the lower-cased prompt.\<close>

definition direct_chains :: "string \<Rightarrow> (string \<times> string) option" where
  "direct_chains promptLower =
     (if str_includes promptLower ''bsc to opbnb'' \<or> str_includes promptLower ''binance to opbnb''
         \<or> str_includes promptLower ''l1 to l2'' then Some (''bsc'', ''opBNB'')
      else if str_includes promptLower ''opbnb to bsc'' \<or> str_includes promptLower ''opbnb to binance''
         \<or> str_includes promptLower ''l2 to l1'' then Some (''opBNB'', ''bsc'')
      else None)"

text \<open>
  What the bridge handler determines from the prompt and the content, field by field, in
  the order of the source. The recipient is determined after the check for a missing
  destination token, and determining it can raise a \<^verbatim>\<open>TypeError\<close>.
\<close>

record bridge_resolved =
  r_fromChain :: string
  r_toChain :: string
  r_fromToken :: jsval
  r_toToken :: jsval
  r_toAddress :: "err + string option"
  r_amount :: string

definition bridge_handler_fromChain :: "string \<Rightarrow> jsobject \<Rightarrow> string" where
  "bridge_handler_fromChain promptText content =
     (case direct_chains (toLowerCase promptText) of
        Some (f, t) \<Rightarrow> f
      | None \<Rightarrow> if usable_string (content ''fromChain'') then str_of (content ''fromChain'') else ''bsc'')"

definition bridge_handler_toChain :: "string \<Rightarrow> jsobject \<Rightarrow> string" where
  "bridge_handler_toChain promptText content =
     (case direct_chains (toLowerCase promptText) of
        Some (f, t) \<Rightarrow> t
      | None \<Rightarrow> if usable_string (content ''toChain'') then str_of (content ''toChain'')
                else if bridge_handler_fromChain promptText content = ''bsc'' then ''opBNB'' else ''bsc'')"

definition bridge_handler_fromToken :: "regex_match option \<Rightarrow> jsobject \<Rightarrow> jsval" where
  "bridge_handler_fromToken m content =
     (if truthy_str (grp m 2) then JStr (toUpperCase (the (grp m 2)))
      else if truthy (content ''fromToken'') then convertNullStringToUndefined (content ''fromToken'')
      else JUndefined)"

definition bridge_handler_toToken :: "jsobject \<Rightarrow> jsval" where
  "bridge_handler_toToken content =
     (if truthy (content ''toToken'') then convertNullStringToUndefined (content ''toToken'')
      else JUndefined)"

definition bridge_handler_toAddress :: "regex_match option \<Rightarrow> jsobject \<Rightarrow> err + string option" where
  "bridge_handler_toAddress m content =
     (if truthy_str (grp m 3) \<and> startsWith (the (grp m 3)) ''0x'' then Inr (grp m 3)
      else if truthy (content ''toAddress'') then
        (case js_startsWith_0x (convertNullStringToUndefined (content ''toAddress'')) of
           Inl e \<Rightarrow> Inl e
         | Inr b \<Rightarrow> if b then Inr (Some (str_of (content ''toAddress''))) else Inr None)
      else Inr None)"

definition bridge_handler_amount :: "world \<Rightarrow> regex_match option \<Rightarrow> jsobject \<Rightarrow> string" where
  "bridge_handler_amount w m content =
     (if truthy_str (grp m 1) then the (grp m 1)
      else if usable_amount (content ''amount'') then js_to_string w (content ''amount'')
      else ''0.001'')"

definition bridge_resolve :: "world \<Rightarrow> string \<Rightarrow> jsobject \<Rightarrow> bridge_resolved" where
  "bridge_resolve w promptText content =
     (let m = regexMatch (js w) BridgeRegex promptText in
      \<lparr>r_fromChain = bridge_handler_fromChain promptText content,
       r_toChain = bridge_handler_toChain promptText content,
       r_fromToken = bridge_handler_fromToken m content,
       r_toToken = bridge_handler_toToken content,
       r_toAddress = bridge_handler_toAddress m content,
       r_amount = bridge_handler_amount w m content\<rparr>)"

text \<open>
  The handler's own check:
  \<^verbatim>\<open>fromChain === "bsc" && fromToken && fromToken !== "BNB" && !toToken\<close>.
\<close>

definition missing_destination_token :: "bridge_resolved \<Rightarrow> bool" where
  "missing_destination_token r =
     (r_fromChain r = ''bsc'' \<and> truthy (r_fromToken r) \<and> r_fromToken r \<noteq> JStr ''BNB''
      \<and> \<not> truthy (r_toToken r))"

text \<open>
  \<^verbatim>\<open>fromTokenAddress\<close> and \<^verbatim>\<open>toTokenAddress\<close>: a token is passed on only when it starts with
  \<^verbatim>\<open>0x\<close>; any other token becomes \<^verbatim>\<open>undefined\<close>.
\<close>

definition token_address :: "jsval \<Rightarrow> err + string option" where
  "token_address v =
     (case js_startsWith_0x v of
        Inl e \<Rightarrow> Inl e
      | Inr b \<Rightarrow> if b then Inr (Some (str_of v)) else Inr None)"

definition bridge_handler_params :: "bridge_resolved \<Rightarrow> string option \<Rightarrow> err + BridgeParams" where
  "bridge_handler_params r toAddress =
     (case token_address (r_fromToken r) of
        Inl e \<Rightarrow> Inl e
      | Inr fromTokenAddr \<Rightarrow>
          (case token_address (r_toToken r) of
             Inl e \<Rightarrow> Inl e
           | Inr toTokenAddr \<Rightarrow>
               Inr \<lparr>b_fromChain = r_fromChain r, b_toChain = r_toChain r,
                    b_fromToken = fromTokenAddr, b_toToken = toTokenAddr,
                    b_amount = r_amount r, b_toAddress = toAddress\<rparr>))"

definition bridge_success :: "world \<Rightarrow> BridgeResponse \<Rightarrow> response" where
  "bridge_success w r =
     (let explorer = EXPLORERS (runtime w) (toUpperCase (br_fromChain r));
          txExplorerUrl = (case explorer of
                             Some u \<Rightarrow> if br_txHash r \<noteq> [] then Some (u @ ''/tx/'' @ br_txHash r) else None
                           | None \<Rightarrow> None);
          walletExplorerUrl = (case explorer of
                                 Some u \<Rightarrow> if br_recipient r \<noteq> []
                                           then Some (u @ ''/address/'' @ br_recipient r) else None
                               | None \<Rightarrow> None)
      in \<lparr>resp_text = ''Successfully bridged '' @ br_amount r @ '' '' @ br_fromToken r @ '' from ''
                        @ br_fromChain r @ '' to '' @ br_toChain r @ [CHR 0x0A]
                        @ ''Transaction Hash: '' @ br_txHash r
                        @ (case txExplorerUrl of
                             Some u \<Rightarrow> [CHR 0x0A, CHR 0x0A] @ ''View transaction: '' @ u | None \<Rightarrow> [])
                        @ (case walletExplorerUrl of
                             Some u \<Rightarrow> [CHR 0x0A] @ ''View wallet: '' @ u | None \<Rightarrow> [])
                        @ [CHR 0x0A, CHR 0x0A]
                        @ ''Note: Bridge transactions may take 10-20 minutes to complete.'',
          resp_content = [(''fromChain'', JStr (br_fromChain r)), (''toChain'', JStr (br_toChain r)),
                          (''fromToken'', JStr (br_fromToken r)), (''toToken'', JStr (br_toToken r)),
                          (''amount'', JStr (br_amount r)), (''txHash'', JStr (br_txHash r)),
                          (''recipient'', JStr (br_recipient r)),
                          (''txExplorerUrl'', (case txExplorerUrl of Some u \<Rightarrow> JStr u | None \<Rightarrow> JNull)),
                          (''walletExplorerUrl'',
                             (case walletExplorerUrl of Some u \<Rightarrow> JStr u | None \<Rightarrow> JNull))]\<rparr>)"

definition bridge_error_text :: "err \<Rightarrow> string" where
  "bridge_error_text e =
     (let m0 = error_message e in
      if str_includes m0 ''insufficient funds'' then
        ''Insufficient funds for the bridge operation. Please check your balance and try with a smaller amount.''
      else if str_includes m0 ''user rejected'' then
        ''Transaction was rejected. Please try again if you want to proceed with the bridge operation.''
      else if str_includes m0 ''token address on opBNB is required'' then
        ''When bridging ERC20 tokens from BSC to opBNB, you must specify the token address on opBNB.''
      else if str_includes m0 ''Unsupported bridge direction'' then
        ''Only bridges between BSC and opBNB are supported. Valid directions are BSC''
        @ [CHR 0xE2, CHR 0x86, CHR 0x92] @ ''opBNB and opBNB'' @ [CHR 0xE2, CHR 0x86, CHR 0x92] @ ''BSC.''
      else m0)"

definition bridge_failure :: "err \<Rightarrow> response" where
  "bridge_failure e =
     \<lparr>resp_text = ''Bridge failed: '' @ bridge_error_text e,
      resp_content = [(''error'', JStr (bridge_error_text e))]\<rparr>"

definition missing_destination_response :: response where
  "missing_destination_response =
     \<lparr>resp_text = ''Cannot bridge ERC20 token from BSC to opBNB without destination token address. Please provide the token address on opBNB.'',
      resp_content = [(''error'', JStr ''Missing destination token address'')]\<rparr>"

text \<open>
  The part of \<^verbatim>\<open>bridgeAction.handler\<close> after the content is parsed: the check for a missing
  destination token, the recipient, the wallet provider, the conversion of the tokens to
  addresses (outside the \<^verbatim>\<open>try\<close>), and the call of \<^verbatim>\<open>bridge\<close> inside the \<^verbatim>\<open>try\<close>.
\<close>

definition bridge_handler_body :: "world \<Rightarrow> bridge_resolved \<Rightarrow> bool io" where
  "bridge_handler_body w r =
     (if missing_destination_token r then
        io_bind (callback missing_destination_response) (\<lambda>_. io_return False)
      else
        io_bind (io_lift (r_toAddress r))
          (\<lambda>toAddress. io_bind (io_call InitWalletProvider (initWalletProvider (runtime w)))
            (\<lambda>_. io_bind (io_lift (bridge_handler_params r toAddress))
              (\<lambda>bridgeParams. run_action (bridge w bridgeParams) (bridge_success w) bridge_failure))))"

text \<open>
  The property of the content that the bridge handler reads first: \<^verbatim>\<open>fromChain\<close> when no
  keyword names the direction, else \<^verbatim>\<open>fromToken\<close> when the pattern captured no token, else
  \<^verbatim>\<open>toToken\<close>.
\<close>

definition bridge_first_read :: "world \<Rightarrow> string \<Rightarrow> string" where
  "bridge_first_read w promptText =
     (if direct_chains (toLowerCase promptText) = None then ''fromChain''
      else if \<not> truthy_str (grp (regexMatch (js w) BridgeRegex promptText) 2) then ''fromToken''
      else ''toToken'')"

text \<open>
  \<^verbatim>\<open>bridgeAction.handler\<close>. A failure to read the wallet info is reported through the
  callback; the state, the model call and the reads of the content are outside any \<^verbatim>\<open>try\<close>.
\<close>

definition wallet_failure :: "err \<Rightarrow> response" where
  "wallet_failure e =
     \<lparr>resp_text = ''Unable to access wallet: '' @ e, resp_content = [(''error'', JStr e)]\<rparr>"

definition bridgeAction_handler :: "world \<Rightarrow> message \<Rightarrow> bool \<Rightarrow> bool io" where
  "bridgeAction_handler w msg state_given =
     io_bind (current_state w state_given)
       (\<lambda>_. io_bind
              (if state_given then
                 io_catch (io_bind (io_call WalletInfo (walletInfo (runtime w))) (\<lambda>_. io_return True))
                   (\<lambda>e. io_bind (callback (wallet_failure e)) (\<lambda>_. io_return False))
               else io_return True)
         (\<lambda>wallet_ok.
            if \<not> wallet_ok then io_return False
            else
              io_bind (io_call UseModel (useModel (runtime w)))
                (\<lambda>mlOutput.
                   io_bind (io_lift (read_content (parse_content w mlOutput)
                                       (bridge_first_read w (promptText_of msg))))
                     (\<lambda>content. bridge_handler_body w (bridge_resolve w (promptText_of msg) content)))))"

section \<open>What a handler reports\<close>

text \<open>
  A response that reports a failure: a message for the user and an \<^verbatim>\<open>error\<close> entry, a
  string, in its content.
\<close>

definition error_report :: "response \<Rightarrow> bool" where
  "error_report r =
     (resp_text r \<noteq> [] \<and> (case map_of (resp_content r) ''error'' of Some (JStr m) \<Rightarrow> True | _ \<Rightarrow> False))"

text \<open>A trace whose last call is the callback, given such a response.\<close>

definition reports_failure :: "call list \<Rightarrow> bool" where
  "reports_failure t = (case rev t of Callback r # rest \<Rightarrow> error_report r | _ \<Rightarrow> False)"

text \<open>
  A handler run that ends inside the handler: it returns a boolean, and when the boolean is
  \<^verbatim>\<open>false\<close> the failure has been reported.
\<close>

definition handled :: "bool io \<Rightarrow> bool" where
  "handled m = (case snd m of Inl e \<Rightarrow> False | Inr b \<Rightarrow> b \<or> reports_failure (fst m))"

text \<open>A JSON field that is a string, or absent.\<close>

definition string_or_absent :: "jsval \<Rightarrow> bool" where
  "string_or_absent v = (case v of JUndefined \<Rightarrow> True | JNull \<Rightarrow> True | JStr s \<Rightarrow> True | _ \<Rightarrow> False)"

section \<open>The order of the sources of a parameter\<close>

text \<open>
  The rule the specification gives for a field with two sources and a default: the value of
  the first source when it has one, else the value of the second, else the default.
\<close>

definition first_available :: "'a option \<Rightarrow> 'a option \<Rightarrow> 'a \<Rightarrow> 'a" where
  "first_available first second dflt =
     (case first of Some x \<Rightarrow> x | None \<Rightarrow> (case second of Some y \<Rightarrow> y | None \<Rightarrow> dflt))"

text \<open>What a pattern captured in its \<open>i\<close>-th group: a non-empty string, or nothing.\<close>

definition captured :: "regex_match option \<Rightarrow> nat \<Rightarrow> string option" where
  "captured m i = (if truthy_str (grp m i) then grp m i else None)"

text \<open>What the JSON holds in a field: a non-empty string; an amount (a non-empty string or a
  non-zero number, as a string).\<close>

definition json_string :: "jsobject \<Rightarrow> string \<Rightarrow> string option" where
  "json_string content k = (if usable_string (content k) then Some (str_of (content k)) else None)"

definition json_amount :: "world \<Rightarrow> jsobject \<Rightarrow> string option" where
  "json_amount w content =
     (if usable_amount (content ''amount'') then Some (js_to_string w (content ''amount'')) else None)"

section \<open>Concrete collaborators\<close>

text \<open>
  A world in which every call succeeds, used to run the actions on concrete inputs. Its
  parsers know the few amounts the examples use.
\<close>

definition example_address :: string where
  "example_address = ''0x1111111111111111111111111111111111111111''"

definition example_token :: string where
  "example_token = ''0x55d398326f99059fF775485246999027B3197955''"

definition example_js :: js_runtime where
  "example_js =
     \<lparr>parseUnits = (\<lambda>s d. if s = ''1'' then Inr (10 ^ d)
                          else if s = ''2'' then Inr (2 * 10 ^ d)
                          else Inl ''InvalidDecimalNumberError''),
      parseFloat = (\<lambda>s. if s = ''1'' then Some 1 else if s = ''2'' then Some 2 else None),
      numberToString = (\<lambda>r. if r = 2 then ''2'' else ''1''),
      jsonParse = (\<lambda>s. None),
      regexMatch = (\<lambda>r s. None)\<rparr>"

definition example_wallet :: wallet_provider where
  "example_wallet =
     \<lparr>walletAddress = example_address,
      walletAccount = Some example_address,
      chains = [(''bsc'', ''BNB''), (''bscTestnet'', ''tBNB''), (''opBNB'', ''BNB''), (''opBNBTestnet'', ''tBNB'')],
      formatAddress = (\<lambda>a. Inr a),
      configureLiFiSdk = (\<lambda>c. Inr ()),
      getTokenAddress = (\<lambda>c s. Inr example_token),
      providerTransfer = (\<lambda>c t v opts. Inr ''0xaa''),
      transferERC20 = (\<lambda>c tok t v. Inr ''0xbb''),
      checkERC20Allowance = (\<lambda>c tok owner spender. Inr 0),
      approveERC20 = (\<lambda>c tok spender v. Inr ''0xcc'')\<rparr>"

definition example_client :: chain_client where
  "example_client =
     \<lparr>getBalance = (\<lambda>n c a. Inr (5 * 10 ^ 18)),
      decimals = (\<lambda>t. Inr 18),
      balanceOf = (\<lambda>n t a. Inr (3 * 10 ^ 18)),
      delegationFee = Inr (2 * 10 ^ 15),
      getUserWithdrawalRequests = Inr [11, 12, 13, 14],
      getUserRequestStatus = (\<lambda>i. case i of
          0 \<Rightarrow> Inr (True, 5) | Suc 0 \<Rightarrow> Inr (True, 7) | Suc (Suc 0) \<Rightarrow> Inr (False, 3)
        | Suc (Suc (Suc 0)) \<Rightarrow> Inr (True, 9) | _ \<Rightarrow> Inl ''execution reverted''),
      simulateContract = (\<lambda>c. Inr ()),
      writeContract = (\<lambda>c. Inr ''0xdd''),
      waitForTransactionReceipt = (\<lambda>h. Inr ())\<rparr>"

definition example_lifi :: lifi_sdk where
  "example_lifi =
     \<lparr>getRoutes = (\<lambda>r. Inr [0]),
      executeRoute = (\<lambda>r. Inr (Some (''DONE'', ''0xee'')))\<rparr>"

definition example_runtime :: agent_runtime where
  "example_runtime =
     \<lparr>composeState = Inr (),
      walletInfo = Inr (),
      useModel = Inr (MObject (\<lambda>k. JUndefined)),
      initWalletProvider = Inr (),
      EXPLORERS = (\<lambda>k. if k = ''BSC'' then Some ''https://bscscan.com''
                        else if k = ''OPBNB'' then Some ''https://opbnb.bscscan.com''
                        else if k = ''BSC_TESTNET'' then Some ''https://testnet.bscscan.com''
                        else None)\<rparr>"

definition example_world :: world where
  "example_world =
     \<lparr>js = example_js, wallet = example_wallet, client = example_client,
      lifi = example_lifi, runtime = example_runtime\<rparr>"

lemmas example_defs =
  example_world_def example_js_def example_wallet_def example_client_def example_lifi_def
  example_runtime_def example_address_def example_token_def

definition example_world_approved :: world where
  "example_world_approved =
     example_world\<lparr>wallet := example_wallet\<lparr>checkERC20Allowance := (\<lambda>c tok owner spender. Inr (2 * 10 ^ 18))\<rparr>\<rparr>"

definition bridge_erc20_params :: BridgeParams where
  "bridge_erc20_params =
     \<lparr>b_fromChain = ''bsc'', b_toChain = ''opBNB'', b_fromToken = Some example_token,
      b_toToken = Some example_token, b_amount = ''1'', b_toAddress = None\<rparr>"

definition bridge_same_chain_params :: BridgeParams where
  "bridge_same_chain_params =
     \<lparr>b_fromChain = ''bsc'', b_toChain = ''bsc'', b_fromToken = None,
      b_toToken = None, b_amount = ''1'', b_toAddress = None\<rparr>"

definition transfer_all_params :: TransferParams where
  "transfer_all_params =
     \<lparr>t_chain = ''bsc'', t_token = ''BNB'', t_amount = [], t_toAddress = example_address, t_data = None\<rparr>"

definition transfer_usdt_params :: TransferParams where
  "transfer_usdt_params =
     \<lparr>t_chain = ''bsc'', t_token = ''USDT'', t_amount = ''1'', t_toAddress = example_address, t_data = None\<rparr>"

definition swap_bnb_params :: SwapParams where
  "swap_bnb_params =
     \<lparr>s_chain = ''bsc'', s_fromToken = ''BNB'', s_toToken = ''USDC'', s_amount = ''1'', s_slippage = None\<rparr>"

definition example_world_no_receipt :: world where
  "example_world_no_receipt =
     example_world\<lparr>client := example_client\<lparr>waitForTransactionReceipt := (\<lambda>h. Inl ''timeout'')\<rparr>\<rparr>"

text \<open>
  A transfer request whose text the transfer pattern matches (amount \<^verbatim>\<open>1\<close>) while the model's
  JSON holds another amount (\<^verbatim>\<open>2\<close>).
\<close>

definition conflict_text :: string where
  "conflict_text = ''Transfer 1 BNB to 0x1111111111111111111111111111111111111111''"

definition conflict_match :: regex_match where
  "conflict_match = [Some conflict_text, Some ''1'', Some ''BNB'', Some example_address]"

definition conflict_content :: jsobject where
  "conflict_content =
     (\<lambda>k. if k = ''amount'' then JStr ''2''
          else if k = ''token'' then JStr ''BNB''
          else if k = ''toAddress'' then JStr example_address
          else if k = ''chain'' then JStr ''bsc''
          else JUndefined)"

definition conflict_world :: world where
  "conflict_world =
     example_world
       \<lparr>js := example_js\<lparr>regexMatch := (\<lambda>r s. if r = TransferRegex \<and> s = conflict_text
                                                then Some conflict_match else None)\<rparr>,
        runtime := example_runtime\<lparr>useModel := Inr (MObject conflict_content)\<rparr>\<rparr>"

definition conflict_message :: message where
  "conflict_message = \<lparr>msg_text = JStr conflict_text, msg_source = ''direct''\<rparr>"

text \<open>A runtime whose model call fails.\<close>

definition model_down_world :: world where
  "model_down_world = example_world\<lparr>runtime := example_runtime\<lparr>useModel := Inl ''model unavailable''\<rparr>\<rparr>"

text \<open>
  Bridge requests that name a token by its symbol, in both directions; the model's JSON is
  empty, or holds a destination token and a recipient.
\<close>

definition other_address :: string where
  "other_address = ''0x2222222222222222222222222222222222222222''"

definition symbol_text :: string where
  "symbol_text = ''Bridge 1 USDT from opbnb to bsc''"

definition symbol_text_bsc :: string where
  "symbol_text_bsc = ''Bridge 1 USDT from bsc to opbnb''"

definition symbol_regex :: "regex \<Rightarrow> string \<Rightarrow> regex_match option" where
  "symbol_regex r s =
     (if r = BridgeRegex \<and> s = symbol_text
      then Some [Some symbol_text, Some ''1'', Some ''USDT'', None]
      else if r = BridgeRegex \<and> s = symbol_text_bsc
      then Some [Some symbol_text_bsc, Some ''1'', Some ''USDT'', None]
      else None)"

definition symbol_content :: jsobject where
  "symbol_content =
     (\<lambda>k. if k = ''toToken'' then JStr example_token
          else if k = ''toAddress'' then JStr other_address
          else JUndefined)"

definition symbol_world :: world where
  "symbol_world =
     example_world
       \<lparr>js := example_js\<lparr>regexMatch := symbol_regex\<rparr>,
        runtime := example_runtime\<lparr>useModel := Inr (MObject empty_object)\<rparr>\<rparr>"

definition symbol_world_json :: world where
  "symbol_world_json =
     example_world
       \<lparr>js := example_js\<lparr>regexMatch := symbol_regex\<rparr>,
        runtime := example_runtime\<lparr>useModel := Inr (MObject symbol_content)\<rparr>\<rparr>"

definition symbol_message :: message where
  "symbol_message = \<lparr>msg_text = JStr symbol_text, msg_source = ''direct''\<rparr>"

definition symbol_message_bsc :: message where
  "symbol_message_bsc = \<lparr>msg_text = JStr symbol_text_bsc, msg_source = ''direct''\<rparr>"

text \<open>What the executor validates for the first request, and the calls expected.\<close>

definition symbol_passed :: BridgeParams where
  "symbol_passed =
     \<lparr>b_fromChain = ''opBNB'', b_toChain = ''bsc'', b_fromToken = None, b_toToken = None,
      b_amount = ''1'', b_toAddress = None\<rparr>"

definition symbol_passed_bsc :: BridgeParams where
  "symbol_passed_bsc =
     \<lparr>b_fromChain = ''bsc'', b_toChain = ''opBNB'', b_fromToken = None, b_toToken = Some example_token,
      b_amount = ''1'', b_toAddress = Some other_address\<rparr>"

definition symbol_withdraw :: contract_call where
  "symbol_withdraw =
     \<lparr>address = ''0x4000698e3De52120DE28181BaACda82B21568416'', functionName = ''withdraw'',
      args = [AStr ''0xDeadDeAddeAddEAddeadDEaDDEAdDeaDDeAD0000'', AInt 1000000000000000000, AInt 1,
              AStr ''0x''],
      callValue = Some 1002000000000000000\<rparr>"

definition symbol_deposit :: contract_call where
  "symbol_deposit =
     \<lparr>address = ''0xF05F0e4362859c3331Cb9395CBC201E3Fa6757Ea'', functionName = ''depositETHTo'',
      args = [AStr other_address, AInt 1, AStr ''0x''],
      callValue = Some 1000000000000000000\<rparr>"

text \<open>
  Requests whose text and JSON disagree in every field: the text of each is matched by the
  pattern of its handler, and the model answers all three with the same object.
\<close>

definition mixed_transfer_text :: string where
  "mixed_transfer_text = ''Transfer 1 BNB to 0x1111111111111111111111111111111111111111''"

definition mixed_swap_text :: string where
  "mixed_swap_text = ''Swap 1 BNB for USDC''"

definition mixed_bridge_text :: string where
  "mixed_bridge_text = ''Bridge 1 USDT from opbnb to bsc to 0x1111111111111111111111111111111111111111''"

definition mixed_swap_match :: regex_match where
  "mixed_swap_match = [Some mixed_swap_text, Some ''1'', Some ''BNB'', Some ''USDC'']"

definition mixed_regex :: "regex \<Rightarrow> string \<Rightarrow> regex_match option" where
  "mixed_regex r s =
     (if r = TransferRegex \<and> s = mixed_transfer_text
      then Some [Some mixed_transfer_text, Some ''1'', Some ''BNB'', Some example_address]
      else if (r = BasicSwapRegex \<or> r = AdvancedSwapRegex) \<and> s = mixed_swap_text
      then Some mixed_swap_match
      else if (r = TokenMention ''BNB'' \<or> r = TokenMention ''USDC'') \<and> s = mixed_swap_text
      then Some [Some (case r of TokenMention t \<Rightarrow> t | _ \<Rightarrow> [])]
      else if r = BridgeRegex \<and> s = mixed_bridge_text
      then Some [Some mixed_bridge_text, Some ''1'', Some ''USDT'', Some example_address]
      else None)"

definition mixed_content :: jsobject where
  "mixed_content =
     (\<lambda>k. if k = ''chain'' then JStr ''bsc''
          else if k = ''amount'' then JStr ''2''
          else if k = ''token'' then JStr ''USDC''
          else if k = ''toAddress'' then JStr other_address
          else if k = ''inputToken'' then JStr ''USDT''
          else if k = ''outputToken'' then JStr ''BUSD''
          else if k = ''fromToken'' then JStr example_token
          else if k = ''toToken'' then JStr example_token
          else JUndefined)"

definition mixed_world :: world where
  "mixed_world =
     example_world
       \<lparr>js := example_js\<lparr>regexMatch := mixed_regex\<rparr>,
        runtime := example_runtime\<lparr>useModel := Inr (MObject mixed_content)\<rparr>\<rparr>"

definition mixed_transfer_message :: message where
  "mixed_transfer_message = \<lparr>msg_text = JStr mixed_transfer_text, msg_source = ''direct''\<rparr>"

definition mixed_swap_message :: message where
  "mixed_swap_message = \<lparr>msg_text = JStr mixed_swap_text, msg_source = ''direct''\<rparr>"

definition mixed_bridge_message :: message where
  "mixed_bridge_message = \<lparr>msg_text = JStr mixed_bridge_text, msg_source = ''direct''\<rparr>"

definition mixed_transfer_params :: TransferParams where
  "mixed_transfer_params =
     \<lparr>t_chain = ''bsc'', t_token = ''BNB'', t_amount = ''2'', t_toAddress = other_address, t_data = None\<rparr>"

definition mixed_swap_params :: SwapParams where
  "mixed_swap_params =
     \<lparr>s_chain = ''bsc'', s_fromToken = ''BNB'', s_toToken = ''USDC'', s_amount = ''1'',
      s_slippage = Some (1 / 20)\<rparr>"

definition mixed_bridge_params :: BridgeParams where
  "mixed_bridge_params =
     \<lparr>b_fromChain = ''opBNB'', b_toChain = ''bsc'', b_fromToken = None, b_toToken = Some example_token,
      b_amount = ''1'', b_toAddress = Some example_address\<rparr>"

text \<open>The same requests when the wallet, the router and the chain refuse the transaction.\<close>

definition failing_world :: world where
  "failing_world =
     mixed_world
       \<lparr>wallet := example_wallet\<lparr>providerTransfer := (\<lambda>c t v opts. Inl ''insufficient funds for transfer'')\<rparr>,
        client := example_client\<lparr>simulateContract := (\<lambda>c. Inl ''execution reverted'')\<rparr>,
        lifi := example_lifi\<lparr>getRoutes := (\<lambda>r. Inl ''No routes found'')\<rparr>\<rparr>"

text \<open>A model that answers \<^verbatim>\<open>null\<close>.\<close>

definition null_world :: world where
  "null_world = mixed_world\<lparr>runtime := example_runtime\<lparr>useModel := Inr MNull\<rparr>\<rparr>"

section \<open>Laws of sequencing\<close>

lemma io_bind_Inr: "io_bind (t, Inr x) f = (t @ fst (f x), snd (f x))"
  by (simp add: io_bind_def split: prod.splits)

lemma io_bind_Inl: "io_bind (t, Inl e) f = (t, Inl e)"
  by (simp add: io_bind_def)

lemma io_catch_Inr: "io_catch (t, Inr x) h = (t, Inr x)"
  by (simp add: io_catch_def)

lemma io_catch_Inl: "io_catch (t, Inl e) h = (t @ fst (h e), snd (h e))"
  by (simp add: io_catch_def split: prod.splits)

lemma fst_io_catch_silent: "(\<And>e. fst (h e) = []) \<Longrightarrow> fst (io_catch m h) = fst m"
proof -
  assume h: "\<And>e. fst (h e) = []"
  obtain t r where m: "m = (t, r)" by (cases m)
  show ?thesis
  proof (cases r)
    case (Inl e)
    then show ?thesis using m h[of e] by (simp add: io_catch_Inl)
  next
    case (Inr x)
    then show ?thesis using m by (simp add: io_catch_Inr)
  qed
qed

lemma status_reads_append: "status_reads (a @ b) = status_reads a @ status_reads b"
  by (induction a rule: status_reads.induct) (auto split: list.splits arg.splits)

lemma claimed_append: "claimed (a @ b) = claimed a @ claimed b"
  by (induction a rule: claimed.induct) (auto split: list.splits arg.splits)

lemma fst_io_bind: "fst (io_bind m f) = fst m @ (case snd m of Inl e \<Rightarrow> [] | Inr x \<Rightarrow> fst (f x))"
proof -
  obtain t r where m: "m = (t, r)" by (cases m)
  show ?thesis unfolding m by (cases r) (simp_all add: io_bind_Inl io_bind_Inr)
qed

lemma snd_io_bind: "snd (io_bind m f) = (case snd m of Inl e \<Rightarrow> Inl e | Inr x \<Rightarrow> snd (f x))"
proof -
  obtain t r where m: "m = (t, r)" by (cases m)
  show ?thesis unfolding m by (cases r) (simp_all add: io_bind_Inl io_bind_Inr)
qed

lemma fst_io_catch: "fst (io_catch m h) = fst m @ (case snd m of Inl e \<Rightarrow> fst (h e) | Inr x \<Rightarrow> [])"
proof -
  obtain t r where m: "m = (t, r)" by (cases m)
  show ?thesis unfolding m by (cases r) (simp_all add: io_catch_Inl io_catch_Inr)
qed

lemma snd_io_catch: "snd (io_catch m h) = (case snd m of Inl e \<Rightarrow> snd (h e) | Inr x \<Rightarrow> Inr x)"
proof -
  obtain t r where m: "m = (t, r)" by (cases m)
  show ?thesis unfolding m by (cases r) (simp_all add: io_catch_Inl io_catch_Inr)
qed

lemma io_basic:
  "fst (io_return x) = []" "snd (io_return x) = Inr x"
  "fst (io_throw e) = []" "snd (io_throw e) = Inl e"
  "fst (io_call c r) = [c]" "snd (io_call c r) = r"
  "fst (io_lift r) = []" "snd (io_lift r) = r"
  by (simp_all add: io_return_def io_throw_def io_call_def io_lift_def)

lemma all_calls_return: "all_calls P (io_return x)"
  and all_calls_throw: "all_calls P (io_throw e)"
  and all_calls_lift: "all_calls P (io_lift r)"
  and all_calls_call: "P c \<Longrightarrow> all_calls P (io_call c r)"
  by (simp_all add: all_calls_def io_basic)

lemma all_calls_bind: "all_calls P m \<Longrightarrow> (\<And>x. all_calls P (f x)) \<Longrightarrow> all_calls P (io_bind m f)"
  by (cases "snd m") (simp_all add: all_calls_def fst_io_bind)

lemma all_calls_catch: "all_calls P m \<Longrightarrow> (\<And>e. all_calls P (h e)) \<Longrightarrow> all_calls P (io_catch m h)"
  by (cases "snd m") (simp_all add: all_calls_def fst_io_catch)

lemma all_calls_if: "(b \<Longrightarrow> all_calls P m) \<Longrightarrow> (\<not> b \<Longrightarrow> all_calls P n) \<Longrightarrow> all_calls P (if b then m else n)"
  by simp

lemma all_calls_case_sum:
  "(\<And>e. r = Inl e \<Longrightarrow> all_calls P (f e)) \<Longrightarrow> (\<And>x. r = Inr x \<Longrightarrow> all_calls P (g x)) \<Longrightarrow>
   all_calls P (case r of Inl e \<Rightarrow> f e | Inr x \<Rightarrow> g x)"
  by (cases r) simp_all

lemma all_calls_case_prod:
  "(\<And>a b. all_calls P (f a b)) \<Longrightarrow> all_calls P (case x of (a, b) \<Rightarrow> f a b)"
  by (cases x) simp

lemmas all_calls_intros =
  all_calls_return all_calls_throw all_calls_lift all_calls_call all_calls_bind all_calls_catch
  all_calls_if all_calls_case_sum all_calls_case_prod

lemma all_calls_mem: "all_calls P m \<Longrightarrow> c \<in> set (fst m) \<Longrightarrow> P c"
  by (auto simp: all_calls_def list_all_iff)

lemma in_bind_later:
  "snd m = Inr x \<Longrightarrow> c \<in> set (fst (f x)) \<Longrightarrow> c \<in> set (fst (io_bind m f))"
  by (simp add: fst_io_bind)

lemma in_bind_first: "c \<in> set (fst m) \<Longrightarrow> c \<in> set (fst (io_bind m f))"
  by (simp add: fst_io_bind)

lemma all_calls_filter: "all_calls (\<lambda>c. \<not> P c) m \<Longrightarrow> filter P (fst m) = []"
  by (simp add: all_calls_def list_all_iff filter_empty_conv)

lemma all_calls_bind_res:
  "all_calls P m \<Longrightarrow> (\<And>x. snd m = Inr x \<Longrightarrow> all_calls P (f x)) \<Longrightarrow> all_calls P (io_bind m f)"
  by (cases "snd m") (simp_all add: all_calls_def fst_io_bind)

section \<open>The structure of a transfer\<close>

lemma native_transfer_no_wait: "all_calls (\<lambda>c. \<not> is_wait c) (native_transfer w p d)"
  unfolding native_transfer_def by (intro all_calls_intros) simp_all

lemma erc20_transfer_no_wait: "all_calls (\<lambda>c. \<not> is_wait c) (erc20_transfer w p)"
  unfolding erc20_transfer_def resolve_transfer_token_def by (intro all_calls_intros) simp_all

lemma validate_no_wait: "all_calls (\<lambda>c. \<not> is_wait c) (transfer_validateAndNormalizeParams w p)"
  unfolding transfer_validateAndNormalizeParams_def by (intro all_calls_intros) simp_all

lemma balance_probe_no_wait: "all_calls (\<lambda>c. \<not> is_wait c) (balance_probe w chain)"
  unfolding balance_probe_def by (intro all_calls_intros) simp_all

lemma native_transfer_no_lookup: "all_calls (\<lambda>c. \<not> is_token_lookup c) (native_transfer w p d)"
  unfolding native_transfer_def by (intro all_calls_intros) simp_all

lemma validate_no_lookup: "all_calls (\<lambda>c. \<not> is_token_lookup c) (transfer_validateAndNormalizeParams w p)"
  unfolding transfer_validateAndNormalizeParams_def by (intro all_calls_intros) simp_all

lemma confirm_no_lookup: "all_calls (\<lambda>c. \<not> is_token_lookup c) (confirm_transfer w resp)"
  unfolding confirm_transfer_def by (intro all_calls_intros) simp_all

lemma balance_probe_no_lookup: "all_calls (\<lambda>c. \<not> is_token_lookup c) (balance_probe w chain)"
  unfolding balance_probe_def by (intro all_calls_intros) simp_all

lemma balance_probe_result: "snd (balance_probe w chain) = Inr ()"
  unfolding balance_probe_def
  by (cases "getBalance (client w) 0 chain (walletAddress (wallet w))")
     (simp_all add: snd_io_catch snd_io_bind io_basic)

lemma validate_keeps_token:
  "snd (transfer_validateAndNormalizeParams w p) = Inr p1 \<Longrightarrow> t_token p1 = t_token p"
  by (cases "t_toAddress p = []"; cases "formatAddress (wallet w) (t_toAddress p)")
     (auto simp: transfer_validateAndNormalizeParams_def snd_io_bind snd_io_catch io_basic)

lemma transfer_validate_ok:
  assumes "t_toAddress p \<noteq> []" and "formatAddress (wallet w) (t_toAddress p) = Inr a"
  shows "transfer_validateAndNormalizeParams w p =
           ([FormatAddress (t_toAddress p)], Inr (p\<lparr>t_toAddress := a, t_data := normalize_data (t_data p)\<rparr>))"
  using assms
  by (simp add: transfer_validateAndNormalizeParams_def io_call_def io_catch_Inr io_bind_Inr io_return_def)

text \<open>Once the chain is known and the recipient is formatted, a transfer is its dispatch.\<close>

lemma transfer_after_validation:
  assumes ch: "map_of (chains (wallet w)) (t_chain p) = Some nativeSymbol"
    and to: "t_toAddress p \<noteq> []"
    and fa: "formatAddress (wallet w) (t_toAddress p) = Inr a"
    and q: "q = p\<lparr>t_toAddress := a, t_data := normalize_data (t_data p),
                  t_token := transfer_token (nativeToken_of nativeSymbol) (t_token p)\<rparr>"
  shows "fst (transfer w p) =
           [FormatAddress (t_toAddress p), SwitchChain (t_chain p)] @ fst (balance_probe w (t_chain p))
           @ fst (transfer_dispatch w (dataParam_of p) (nativeToken_of nativeSymbol) q)"
    and "snd (transfer w p) = snd (transfer_dispatch w (dataParam_of p) (nativeToken_of nativeSymbol) q)"
  unfolding transfer_def ch option.case transfer_validate_ok[OF to fa] q
  by (simp_all add: Let_def io_bind_Inr io_call_def fst_io_bind snd_io_bind balance_probe_result)

lemma wait_through_bind:
  assumes nw: "all_calls (\<lambda>c. \<not> is_wait c) m"
    and w: "WaitForTransactionReceipt h \<in> set (fst (io_bind m f))"
  obtains x where "snd m = Inr x" and "WaitForTransactionReceipt h \<in> set (fst (f x))"
    and "snd (io_bind m f) = snd (f x)"
proof (cases "snd m")
  case (Inl e)
  then have "WaitForTransactionReceipt h \<in> set (fst m)" using w by (simp add: fst_io_bind)
  then have "\<not> is_wait (WaitForTransactionReceipt h)"
    using all_calls_mem[OF nw] by blast
  then show ?thesis by simp
next
  case (Inr x)
  have "WaitForTransactionReceipt h \<notin> set (fst m)"
  proof
    assume "WaitForTransactionReceipt h \<in> set (fst m)"
    then have "\<not> is_wait (WaitForTransactionReceipt h)"
      using all_calls_mem[OF nw] by blast
    then show False by simp
  qed
  then have "WaitForTransactionReceipt h \<in> set (fst (f x))" using w Inr by (simp add: fst_io_bind)
  moreover have "snd (io_bind m f) = snd (f x)" using Inr by (simp add: snd_io_bind)
  ultimately show ?thesis using that Inr by blast
qed

lemma confirm_transfer_wait:
  assumes "WaitForTransactionReceipt h \<in> set (fst (confirm_transfer w resp))"
  shows "snd (confirm_transfer w resp) = Inr resp \<and> tr_txHash resp = h"
proof (cases "tr_txHash resp = [] \<or> tr_txHash resp = ''0x''")
  case True
  then show ?thesis using assms by (simp add: confirm_transfer_def io_basic)
next
  case False
  then show ?thesis using assms
    by (cases "waitForTransactionReceipt (client w) (tr_txHash resp)")
       (simp_all add: confirm_transfer_def io_basic fst_io_bind snd_io_bind fst_io_catch snd_io_catch)
qed

lemma confirm_transfer_result:
  "snd (confirm_transfer w resp) = Inr r \<Longrightarrow> r = resp"
  by (cases "tr_txHash resp = [] \<or> tr_txHash resp = ''0x''";
      cases "waitForTransactionReceipt (client w) (tr_txHash resp)")
     (simp_all add: confirm_transfer_def io_basic snd_io_bind snd_io_catch)

lemma dispatch_wait:
  assumes w3: "WaitForTransactionReceipt h \<in> set (fst (transfer_dispatch w d nativeToken p))"
  shows "\<exists>r. snd (transfer_dispatch w d nativeToken p) = Inr r \<and> tr_txHash r = h"
proof -
  define resp where "resp = \<lparr>tr_chain = t_chain p, tr_txHash = ''0x'', tr_recipient = t_toAddress p,
                 tr_amount = [], tr_token = t_token p\<rparr>"
  show ?thesis
  proof (cases "t_token p = [] \<or> t_token p = ''null'' \<or> t_token p = nativeToken")
    case True
    then have br: "transfer_dispatch w d nativeToken p = io_bind (native_transfer w p d)
             (\<lambda>(amount, txHash). confirm_transfer w (resp\<lparr>tr_amount := amount, tr_txHash := txHash\<rparr>))"
      unfolding transfer_dispatch_def resp_def by (simp add: Let_def)
    from w3 obtain x where w4: "WaitForTransactionReceipt h \<in> set (fst (case x of (amount, txHash) \<Rightarrow>
                                        confirm_transfer w (resp\<lparr>tr_amount := amount, tr_txHash := txHash\<rparr>)))"
      and s4: "snd (transfer_dispatch w d nativeToken p) = snd (case x of (amount, txHash) \<Rightarrow>
                                        confirm_transfer w (resp\<lparr>tr_amount := amount, tr_txHash := txHash\<rparr>))"
      unfolding br by (rule wait_through_bind[OF native_transfer_no_wait])
    obtain amount txHash where x: "x = (amount, txHash)" by (cases x)
    show ?thesis using confirm_transfer_wait[of h w "resp\<lparr>tr_amount := amount, tr_txHash := txHash\<rparr>"] w4 s4 x
      by simp
  next
    case False
    show ?thesis
    proof (cases "t_token p = ''BNB'' \<or> t_token p = ''bnb''")
      case True
      have nb: "all_calls (\<lambda>c. \<not> is_wait c) (transfer_dispatch w d nativeToken p)"
        unfolding transfer_dispatch_def Let_def using False True
        by (simp add: all_calls_bind all_calls_case_prod all_calls_return native_transfer_no_wait)
      have "\<not> is_wait (WaitForTransactionReceipt h)"
        using all_calls_mem[OF nb w3] .
      then show ?thesis by simp
    next
      case F2: False
      then have br: "transfer_dispatch w d nativeToken p = io_bind (erc20_transfer w p)
             (\<lambda>(amount, txHash). confirm_transfer w (resp\<lparr>tr_amount := amount, tr_txHash := txHash\<rparr>))"
        unfolding transfer_dispatch_def resp_def using False by (simp add: Let_def)
      from w3 obtain x where w4: "WaitForTransactionReceipt h \<in> set (fst (case x of (amount, txHash) \<Rightarrow>
                                        confirm_transfer w (resp\<lparr>tr_amount := amount, tr_txHash := txHash\<rparr>)))"
        and s4: "snd (transfer_dispatch w d nativeToken p) = snd (case x of (amount, txHash) \<Rightarrow>
                                        confirm_transfer w (resp\<lparr>tr_amount := amount, tr_txHash := txHash\<rparr>))"
        unfolding br by (rule wait_through_bind[OF erc20_transfer_no_wait])
      obtain amount txHash where x: "x = (amount, txHash)" by (cases x)
      show ?thesis using confirm_transfer_wait[of h w "resp\<lparr>tr_amount := amount, tr_txHash := txHash\<rparr>"] w4 s4 x
        by simp
    qed
  qed
qed

section \<open>Approval before an ERC20 pull\<close>

lemma fst_bridge_rethrow: "fst (bridge_rethrow p resp e) = []"
  by (simp add: bridge_rethrow_def io_throw_def Let_def)

lemma fst_withdraw_rethrow: "fst (withdraw_rethrow e) = []"
  by (simp add: withdraw_rethrow_def io_throw_def)

lemma simulate_then_write_steps:
  "simulateContract (client w) c = Inr () \<Longrightarrow>
   simulate_then_write w c = ([SimulateContract c, WriteContract c], writeContract (client w) c)"
  by (simp add: simulate_then_write_def io_call_def io_bind_Inr)

lemma ensure_allowance_steps:
  assumes "checkERC20Allowance (wallet w) chain token owner spender = Inr a"
    and "a < amount \<longrightarrow> approveERC20 (wallet w) chain token spender amount = Inr h
           \<and> waitForTransactionReceipt (client w) h = Inr ()"
  shows "ensure_allowance w chain token owner spender amount =
     (CheckERC20Allowance chain token owner spender #
       (if a < amount then [ApproveERC20 chain token spender amount, WaitForTransactionReceipt h] else []),
      Inr ())"
  using assms by (simp add: ensure_allowance_def io_bind_def io_call_def io_return_def)

lemma bridge_validate_supported:
  "bridge_validateAndNormalizeParams w p0 = Inr p \<Longrightarrow> isSupported (b_fromChain p) (b_toChain p)"
  by (auto simp: bridge_validateAndNormalizeParams_def Let_def split: if_splits)

lemma bridge_trace_after_validation:
  assumes v: "bridge_validateAndNormalizeParams w p0 = Inr p"
  shows "fst (bridge w p0) =
     fst (io_bind (io_call (SwitchChain (b_fromChain p)) (Inr ()))
            (\<lambda>_. io_bind (bridge_amount w p (nativeTokenBridge_of p))
              (\<lambda>amount.
                 if b_fromChain p = ''bsc'' \<and> b_toChain p = ''opBNB'' then
                   io_bind (bridge_l1 w p (b_toAddress p = None) (nativeTokenBridge_of p) amount)
                     (\<lambda>txHash. io_return ((bridge_response w p)\<lparr>br_txHash := txHash\<rparr>))
                 else if b_fromChain p = ''opBNB'' \<and> b_toChain p = ''bsc'' then
                   io_bind (bridge_l2 w p (nativeTokenBridge_of p) amount)
                     (\<lambda>txHash. io_return ((bridge_response w p)\<lparr>br_txHash := txHash\<rparr>))
                 else io_return (bridge_response w p))))"
  unfolding bridge_def v io_lift_def io_bind_Inr
  by (simp add: Let_def fst_io_catch_silent fst_bridge_rethrow)

lemma fst_bind_return: "fst (io_bind m (\<lambda>x. io_return (f x))) = fst m"
proof -
  obtain t r where m: "m = (t, r)" by (cases m)
  show ?thesis unfolding m by (cases r) (simp_all add: io_bind_Inl io_bind_Inr io_return_def)
qed

lemma bridge_erc20_steps:
  assumes v: "bridge_validateAndNormalizeParams w p0 = Inr p"
    and erc: "\<not> nativeTokenBridge_of p"
    and dec: "decimals (client w) (the (b_fromToken p)) = Inr d"
    and amt: "parseUnits (js w) (b_amount p) d = Inr amount"
    and fee: "b_fromChain p = ''opBNB'' \<longrightarrow> delegationFee (client w) = Inr fee"
    and sp: "spender = (if b_fromChain p = ''bsc'' then L1_BRIDGE_ADDRESS else L2_BRIDGE_ADDRESS)"
    and al: "checkERC20Allowance (wallet w) (b_fromChain p) (the (b_fromToken p)) (walletAddress (wallet w))
               spender = Inr a"
    and ap: "a < amount \<longrightarrow>
               approveERC20 (wallet w) (b_fromChain p) (the (b_fromToken p)) spender amount = Inr h
               \<and> waitForTransactionReceipt (client w) h = Inr ()"
    and c: "c = (if b_fromChain p = ''bsc'' then l1_deposit_call p (b_toAddress p = None) False amount
                 else l2_withdraw_call p False amount fee)"
    and sim: "simulateContract (client w) c = Inr ()"
  shows "filter is_transaction_step (fst (bridge w p0)) =
           (if a < amount
            then [ApproveERC20 (b_fromChain p) (the (b_fromToken p)) spender amount,
                  WaitForTransactionReceipt h]
            else [])
           @ [SimulateContract c, WriteContract c]"
proof -
  note spender_def = sp
  define tok where "tok = the (b_fromToken p)"
  have sup: "isSupported (b_fromChain p) (b_toChain p)"
    using v by (rule bridge_validate_supported)
  have am: "bridge_amount w p False = ([ReadContract (decimals_call tok)], Inr amount)"
    using dec amt by (simp add: bridge_amount_def io_call_def io_bind_Inr io_lift_def tok_def)
  have ea: "ensure_allowance w (b_fromChain p) tok (walletAddress (wallet w)) spender amount
       = (CheckERC20Allowance (b_fromChain p) tok (walletAddress (wallet w)) spender #
       (if a < amount then [ApproveERC20 (b_fromChain p) tok spender amount, WaitForTransactionReceipt h] else []),
      Inr ())"
    using ensure_allowance_steps[of w "b_fromChain p" tok "walletAddress (wallet w)" spender a amount h]
        al ap by (simp add: spender_def tok_def)
  have stw: "simulate_then_write w c = ([SimulateContract c, WriteContract c], writeContract (client w) c)"
    using sim by (rule simulate_then_write_steps)
  note b = bridge_trace_after_validation[OF v]
  show ?thesis
  proof (cases "b_fromChain p = ''bsc''")
    case True
    then have to: "b_toChain p = ''opBNB''" using sup by (simp add: isSupported_def)
    have l1: "fst (bridge_l1 w p (b_toAddress p = None) False amount) =
       CheckERC20Allowance (b_fromChain p) tok (walletAddress (wallet w)) spender #
       (if a < amount then [ApproveERC20 (b_fromChain p) tok spender amount, WaitForTransactionReceipt h] else [])
       @ [SimulateContract c, WriteContract c]"
      using True c ea stw
      by (simp add: bridge_l1_def io_bind_Inr spender_def tok_def)
    have "fst (bridge w p0) = [SwitchChain (b_fromChain p), ReadContract (decimals_call tok)]
       @ fst (bridge_l1 w p (b_toAddress p = None) False amount)"
      unfolding b using erc am True to
      by (simp add: io_call_def io_bind_Inr fst_bind_return)
    then show ?thesis unfolding l1 by (simp add: spender_def tok_def)
  next
    case False
    then have fr: "b_fromChain p = ''opBNB''" and to: "b_toChain p = ''bsc''"
      using sup by (auto simp add: isSupported_def)
    have l2: "fst (bridge_l2 w p False amount) =
       ReadContract delegationFee_call # CheckERC20Allowance (b_fromChain p) tok (walletAddress (wallet w)) spender #
       (if a < amount then [ApproveERC20 (b_fromChain p) tok spender amount, WaitForTransactionReceipt h] else [])
       @ [SimulateContract c, WriteContract c]"
      using False fr c ea stw fee
      by (simp add: bridge_l2_def io_bind_Inr io_call_def spender_def tok_def)
    have "fst (bridge w p0) = [SwitchChain (b_fromChain p), ReadContract (decimals_call tok)]
       @ fst (bridge_l2 w p False amount)"
      unfolding b using erc am fr to
      by (simp add: io_call_def io_bind_Inr fst_bind_return)
    then show ?thesis unfolding l2 by (simp add: spender_def tok_def)
  qed
qed

lemma doWithdraw_steps:
  assumes acc: "walletAccount (wallet w) = Some account"
    and amt: "(if amount = [] then balanceOf (client w) 0 SLIS_BNB account else parseEther w amount) = Inr amt"
    and pos: "0 < amt"
    and al: "checkERC20Allowance (wallet w) ''bsc'' SLIS_BNB account LISTA_DAO = Inr a"
    and ap: "a < amt \<longrightarrow> approveERC20 (wallet w) ''bsc'' SLIS_BNB LISTA_DAO amt = Inr h
               \<and> waitForTransactionReceipt (client w) h = Inr ()"
    and sim: "simulateContract (client w) (requestWithdraw_call amt) = Inr ()"
    and wr: "writeContract (client w) (requestWithdraw_call amt) = Inr h2"
  shows "filter is_transaction_step (fst (doWithdraw w amount)) =
           (if a < amt then [ApproveERC20 ''bsc'' SLIS_BNB LISTA_DAO amt, WaitForTransactionReceipt h] else [])
           @ [SimulateContract (requestWithdraw_call amt), WriteContract (requestWithdraw_call amt),
              WaitForTransactionReceipt h2]"
proof -
  have ea: "ensure_allowance w ''bsc'' SLIS_BNB account LISTA_DAO amt
       = (CheckERC20Allowance ''bsc'' SLIS_BNB account LISTA_DAO #
       (if a < amt then [ApproveERC20 ''bsc'' SLIS_BNB LISTA_DAO amt, WaitForTransactionReceipt h] else []),
      Inr ())"
    using al ap by (rule ensure_allowance_steps)
  have first: "(if amount = [] then
                  io_call (ReadContract (balanceOf_call SLIS_BNB account))
                    (balanceOf (client w) 0 SLIS_BNB account)
                else io_lift (parseEther w amount))
        = ((if amount = [] then [ReadContract (balanceOf_call SLIS_BNB account)] else []), Inr amt)"
    using amt by (cases "amount = []") (simp_all add: io_call_def io_lift_def)
  have np: "\<not> amt \<le> 0" using pos by simp
  show ?thesis
  proof (cases "waitForTransactionReceipt (client w) h2")
    case (Inl e)
    show ?thesis
      unfolding doWithdraw_def acc option.case first
      using np sim wr ea Inl
      by (simp add: fst_io_catch_silent fst_withdraw_rethrow io_bind_Inr io_bind_Inl io_call_def
            balanceOf_call_def)
  next
    case (Inr u)
    show ?thesis
      unfolding doWithdraw_def acc option.case first
      using np sim wr ea Inr
      by (cases "balanceOf (client w) 1 SLIS_BNB account")
         (simp_all add: fst_io_catch_silent fst_withdraw_rethrow io_bind_Inr io_bind_Inl io_call_def
            io_return_def balanceOf_call_def)
  qed
qed

lemma approvals_of_steps:
  "filter is_transaction_step tr = (if b then [ApproveERC20 ch tok sp amt, WaitForTransactionReceipt h] else []) @ rest
   \<Longrightarrow> filter is_approval rest = []
   \<Longrightarrow> length (filter is_approval tr) = (if b then 1 else 0)"
proof -
  assume a: "filter is_transaction_step tr = (if b then [ApproveERC20 ch tok sp amt, WaitForTransactionReceipt h] else []) @ rest"
    and r: "filter is_approval rest = []"
  have sub: "filter is_approval (filter is_transaction_step tr) = filter is_approval tr"
  proof -
    have "\<And>x. is_approval x \<Longrightarrow> is_transaction_step x"
    proof -
      fix x show "is_approval x \<Longrightarrow> is_transaction_step x" by (cases x) simp_all
    qed
    then have "(\<lambda>x. is_transaction_step x \<and> is_approval x) = is_approval" by auto
    then show ?thesis by simp
  qed
  have "length (filter is_approval (filter is_transaction_step tr)) = (if b then 1 else 0)"
    unfolding a using r by simp
  then show ?thesis unfolding sub .
qed

text \<open>
  C2. An ERC20 bridge (in either direction) and a stake withdrawal of slisBNB read the live
  allowance. When the allowance read is below the amount, the transaction steps of the
  execution are one approval of the amount, the wait for its receipt, and then the
  simulation and the write of the main operation; when it is at least the amount, no
  approval is submitted and the steps are those of the main operation alone. The calls up to
  the main operation are taken to succeed.
\<close>

theorem approval_exactly_when_allowance_is_short:
  "(bridge_validateAndNormalizeParams w p0 = Inr p
      \<and> \<not> nativeTokenBridge_of p
      \<and> decimals (client w) (the (b_fromToken p)) = Inr d
      \<and> parseUnits (js w) (b_amount p) d = Inr amount
      \<and> (b_fromChain p = ''opBNB'' \<longrightarrow> delegationFee (client w) = Inr fee)
      \<and> spender = (if b_fromChain p = ''bsc'' then L1_BRIDGE_ADDRESS else L2_BRIDGE_ADDRESS)
      \<and> checkERC20Allowance (wallet w) (b_fromChain p) (the (b_fromToken p)) (walletAddress (wallet w))
           spender = Inr a
      \<and> (a < amount \<longrightarrow>
           approveERC20 (wallet w) (b_fromChain p) (the (b_fromToken p)) spender amount = Inr h
           \<and> waitForTransactionReceipt (client w) h = Inr ())
      \<and> c = (if b_fromChain p = ''bsc'' then l1_deposit_call p (b_toAddress p = None) False amount
                 else l2_withdraw_call p False amount fee)
      \<and> simulateContract (client w) c = Inr ()
    \<longrightarrow>
      filter is_transaction_step (fst (bridge w p0)) =
        (if a < amount
         then [ApproveERC20 (b_fromChain p) (the (b_fromToken p)) spender amount, WaitForTransactionReceipt h]
         else [])
        @ [SimulateContract c, WriteContract c]
      \<and> length (filter is_approval (fst (bridge w p0))) = (if a < amount then 1 else 0))
   \<and>
   (walletAccount (wallet w) = Some account
      \<and> (if wamount = [] then balanceOf (client w) 0 SLIS_BNB account else parseEther w wamount) = Inr amt
      \<and> 0 < amt
      \<and> checkERC20Allowance (wallet w) ''bsc'' SLIS_BNB account LISTA_DAO = Inr a'
      \<and> (a' < amt \<longrightarrow> approveERC20 (wallet w) ''bsc'' SLIS_BNB LISTA_DAO amt = Inr h'
               \<and> waitForTransactionReceipt (client w) h' = Inr ())
      \<and> simulateContract (client w) (requestWithdraw_call amt) = Inr ()
      \<and> writeContract (client w) (requestWithdraw_call amt) = Inr h2
    \<longrightarrow>
      filter is_transaction_step (fst (doWithdraw w wamount)) =
        (if a' < amt then [ApproveERC20 ''bsc'' SLIS_BNB LISTA_DAO amt, WaitForTransactionReceipt h'] else [])
        @ [SimulateContract (requestWithdraw_call amt), WriteContract (requestWithdraw_call amt),
           WaitForTransactionReceipt h2]
      \<and> length (filter is_approval (fst (doWithdraw w wamount))) = (if a' < amt then 1 else 0))"
proof (intro conjI impI)
  assume h: "bridge_validateAndNormalizeParams w p0 = Inr p
      \<and> \<not> nativeTokenBridge_of p
      \<and> decimals (client w) (the (b_fromToken p)) = Inr d
      \<and> parseUnits (js w) (b_amount p) d = Inr amount
      \<and> (b_fromChain p = ''opBNB'' \<longrightarrow> delegationFee (client w) = Inr fee)
      \<and> spender = (if b_fromChain p = ''bsc'' then L1_BRIDGE_ADDRESS else L2_BRIDGE_ADDRESS)
      \<and> checkERC20Allowance (wallet w) (b_fromChain p) (the (b_fromToken p)) (walletAddress (wallet w))
           spender = Inr a
      \<and> (a < amount \<longrightarrow>
           approveERC20 (wallet w) (b_fromChain p) (the (b_fromToken p)) spender amount = Inr h
           \<and> waitForTransactionReceipt (client w) h = Inr ())
      \<and> c = (if b_fromChain p = ''bsc'' then l1_deposit_call p (b_toAddress p = None) False amount
                 else l2_withdraw_call p False amount fee)
      \<and> simulateContract (client w) c = Inr ()"
  show s: "filter is_transaction_step (fst (bridge w p0)) =
        (if a < amount
         then [ApproveERC20 (b_fromChain p) (the (b_fromToken p)) spender amount, WaitForTransactionReceipt h]
         else [])
        @ [SimulateContract c, WriteContract c]"
    by (rule bridge_erc20_steps[where d = d and fee = fee and spender = spender]) (use h in blast)+
  show "length (filter is_approval (fst (bridge w p0))) = (if a < amount then 1 else 0)"
    by (rule approvals_of_steps[OF s]) simp
next
  assume h: "walletAccount (wallet w) = Some account
      \<and> (if wamount = [] then balanceOf (client w) 0 SLIS_BNB account else parseEther w wamount) = Inr amt
      \<and> 0 < amt
      \<and> checkERC20Allowance (wallet w) ''bsc'' SLIS_BNB account LISTA_DAO = Inr a'
      \<and> (a' < amt \<longrightarrow> approveERC20 (wallet w) ''bsc'' SLIS_BNB LISTA_DAO amt = Inr h'
               \<and> waitForTransactionReceipt (client w) h' = Inr ())
      \<and> simulateContract (client w) (requestWithdraw_call amt) = Inr ()
      \<and> writeContract (client w) (requestWithdraw_call amt) = Inr h2"
  show s: "filter is_transaction_step (fst (doWithdraw w wamount)) =
        (if a' < amt then [ApproveERC20 ''bsc'' SLIS_BNB LISTA_DAO amt, WaitForTransactionReceipt h'] else [])
        @ [SimulateContract (requestWithdraw_call amt), WriteContract (requestWithdraw_call amt),
           WaitForTransactionReceipt h2]"
    by (rule doWithdraw_steps[where account = account]) (use h in blast)+
  show "length (filter is_approval (fst (doWithdraw w wamount))) = (if a' < amt then 1 else 0)"
    by (rule approvals_of_steps[OF s]) simp
qed

theorem approval_exactly_when_allowance_is_short_witness:
  "(filter is_transaction_step (fst (bridge example_world bridge_erc20_params)) =
      [ApproveERC20 ''bsc'' example_token L1_BRIDGE_ADDRESS (10 ^ 18), WaitForTransactionReceipt ''0xcc'',
       SimulateContract (l1_deposit_call bridge_erc20_params True False (10 ^ 18)),
       WriteContract (l1_deposit_call bridge_erc20_params True False (10 ^ 18))]
    \<and> length (filter is_approval (fst (bridge example_world bridge_erc20_params))) = 1)
   \<and> (filter is_transaction_step (fst (doWithdraw example_world ''1'')) =
      [ApproveERC20 ''bsc'' SLIS_BNB LISTA_DAO (10 ^ 18), WaitForTransactionReceipt ''0xcc'',
       SimulateContract (requestWithdraw_call (10 ^ 18)), WriteContract (requestWithdraw_call (10 ^ 18)),
       WaitForTransactionReceipt ''0xdd'']
    \<and> length (filter is_approval (fst (doWithdraw example_world ''1''))) = 1)
   \<and> (filter is_transaction_step (fst (bridge example_world_approved bridge_erc20_params)) =
      [SimulateContract (l1_deposit_call bridge_erc20_params True False (10 ^ 18)),
       WriteContract (l1_deposit_call bridge_erc20_params True False (10 ^ 18))]
    \<and> length (filter is_approval (fst (bridge example_world_approved bridge_erc20_params))) = 0)"
proof -
  have b1: "bridge_validateAndNormalizeParams example_world bridge_erc20_params = Inr bridge_erc20_params
      \<and> \<not> nativeTokenBridge_of bridge_erc20_params
      \<and> decimals (client example_world) (the (b_fromToken bridge_erc20_params)) = Inr 18
      \<and> parseUnits (js example_world) (b_amount bridge_erc20_params) 18 = Inr (10 ^ 18)
      \<and> (b_fromChain bridge_erc20_params = ''opBNB'' \<longrightarrow> delegationFee (client example_world) = Inr 0)
      \<and> L1_BRIDGE_ADDRESS = (if b_fromChain bridge_erc20_params = ''bsc'' then L1_BRIDGE_ADDRESS else L2_BRIDGE_ADDRESS)
      \<and> checkERC20Allowance (wallet example_world) (b_fromChain bridge_erc20_params)
           (the (b_fromToken bridge_erc20_params)) (walletAddress (wallet example_world))
           L1_BRIDGE_ADDRESS = Inr 0
      \<and> ((0::int) < 10 ^ 18 \<longrightarrow>
           approveERC20 (wallet example_world) (b_fromChain bridge_erc20_params)
             (the (b_fromToken bridge_erc20_params)) L1_BRIDGE_ADDRESS (10 ^ 18) = Inr ''0xcc''
           \<and> waitForTransactionReceipt (client example_world) ''0xcc'' = Inr ())
      \<and> l1_deposit_call bridge_erc20_params True False (10 ^ 18) =
          (if b_fromChain bridge_erc20_params = ''bsc''
           then l1_deposit_call bridge_erc20_params (b_toAddress bridge_erc20_params = None) False (10 ^ 18)
           else l2_withdraw_call bridge_erc20_params False (10 ^ 18) 0)
      \<and> simulateContract (client example_world) (l1_deposit_call bridge_erc20_params True False (10 ^ 18)) = Inr ()"
    by code_simp
  have w1: "walletAccount (wallet example_world) = Some example_address
      \<and> (if ''1'' = [] then balanceOf (client example_world) 0 SLIS_BNB example_address
          else parseEther example_world ''1'') = Inr (10 ^ 18)
      \<and> (0::int) < 10 ^ 18
      \<and> checkERC20Allowance (wallet example_world) ''bsc'' SLIS_BNB example_address LISTA_DAO = Inr 0
      \<and> ((0::int) < 10 ^ 18 \<longrightarrow> approveERC20 (wallet example_world) ''bsc'' SLIS_BNB LISTA_DAO (10 ^ 18) = Inr ''0xcc''
               \<and> waitForTransactionReceipt (client example_world) ''0xcc'' = Inr ())
      \<and> simulateContract (client example_world) (requestWithdraw_call (10 ^ 18)) = Inr ()
      \<and> writeContract (client example_world) (requestWithdraw_call (10 ^ 18)) = Inr ''0xdd''"
    by code_simp
  have b2: "bridge_validateAndNormalizeParams example_world_approved bridge_erc20_params = Inr bridge_erc20_params
      \<and> \<not> nativeTokenBridge_of bridge_erc20_params
      \<and> decimals (client example_world_approved) (the (b_fromToken bridge_erc20_params)) = Inr 18
      \<and> parseUnits (js example_world_approved) (b_amount bridge_erc20_params) 18 = Inr (10 ^ 18)
      \<and> (b_fromChain bridge_erc20_params = ''opBNB'' \<longrightarrow> delegationFee (client example_world_approved) = Inr 0)
      \<and> L1_BRIDGE_ADDRESS = (if b_fromChain bridge_erc20_params = ''bsc'' then L1_BRIDGE_ADDRESS else L2_BRIDGE_ADDRESS)
      \<and> checkERC20Allowance (wallet example_world_approved) (b_fromChain bridge_erc20_params)
           (the (b_fromToken bridge_erc20_params)) (walletAddress (wallet example_world_approved))
           L1_BRIDGE_ADDRESS = Inr (2 * 10 ^ 18)
      \<and> ((2 * 10 ^ 18 :: int) < 10 ^ 18 \<longrightarrow>
           approveERC20 (wallet example_world_approved) (b_fromChain bridge_erc20_params)
             (the (b_fromToken bridge_erc20_params)) L1_BRIDGE_ADDRESS (10 ^ 18) = Inr ''0xcc''
           \<and> waitForTransactionReceipt (client example_world_approved) ''0xcc'' = Inr ())
      \<and> l1_deposit_call bridge_erc20_params True False (10 ^ 18) =
          (if b_fromChain bridge_erc20_params = ''bsc''
           then l1_deposit_call bridge_erc20_params (b_toAddress bridge_erc20_params = None) False (10 ^ 18)
           else l2_withdraw_call bridge_erc20_params False (10 ^ 18) 0)
      \<and> simulateContract (client example_world_approved) (l1_deposit_call bridge_erc20_params True False (10 ^ 18)) = Inr ()"
    by code_simp
  have tok: "the (b_fromToken bridge_erc20_params) = example_token" "b_fromChain bridge_erc20_params = ''bsc''"
    "(b_toAddress bridge_erc20_params = None) = True"
    by (simp_all add: bridge_erc20_params_def)
  note t1 = approval_exactly_when_allowance_is_short[of example_world bridge_erc20_params bridge_erc20_params
      18 "10 ^ 18" 0 L1_BRIDGE_ADDRESS 0 "''0xcc''" "l1_deposit_call bridge_erc20_params True False (10 ^ 18)"
      example_address "''1''" "10 ^ 18" 0 "''0xcc''" "''0xdd''"]
  note t2 = approval_exactly_when_allowance_is_short[of example_world_approved bridge_erc20_params bridge_erc20_params
      18 "10 ^ 18" 0 L1_BRIDGE_ADDRESS "2 * 10 ^ 18" "''0xcc''" "l1_deposit_call bridge_erc20_params True False (10 ^ 18)"]
  note B1 = mp[OF conjunct1[OF t1] b1]
  note D1 = mp[OF conjunct2[OF t1] w1]
  note B2 = mp[OF conjunct1[OF t2] b2]
  from B1 D1 B2 show ?thesis unfolding tok by simp
qed

section \<open>Symbol resolution\<close>

lemma transfer_token_BNB:
  "token = ''BNB'' \<or> token = ''bnb'' \<Longrightarrow>
   transfer_token nt token = nt \<or> transfer_token nt token = ''BNB'' \<or> transfer_token nt token = ''bnb''"
  by (auto simp: transfer_token_def)

lemma dispatch_native_no_lookup:
  assumes "t_token p = nt \<or> t_token p = ''BNB'' \<or> t_token p = ''bnb''"
  shows "all_calls (\<lambda>c. \<not> is_token_lookup c) (transfer_dispatch w d nt p)"
  unfolding transfer_dispatch_def Let_def
  by (intro all_calls_intros native_transfer_no_lookup confirm_no_lookup) (use assms in simp_all)

lemma transfer_native_no_lookup:
  assumes "t_token p = ''BNB'' \<or> t_token p = ''bnb''"
  shows "filter is_token_lookup (fst (transfer w p)) = []"
proof (rule all_calls_filter)
  show "all_calls (\<lambda>c. \<not> is_token_lookup c) (transfer w p)"
  proof (cases "map_of (chains (wallet w)) (t_chain p)")
    case None
    then show ?thesis by (simp add: transfer_def all_calls_throw)
  next
    case (Some ns)
    show ?thesis
      unfolding transfer_def Some option.case Let_def
    proof (rule all_calls_bind_res[OF validate_no_lookup])
      fix p1 assume "snd (transfer_validateAndNormalizeParams w p) = Inr p1"
      then have tk: "t_token p1 = t_token p" by (rule validate_keeps_token)
      have d: "transfer_token (nativeToken_of ns) (t_token p1) = nativeToken_of ns
          \<or> transfer_token (nativeToken_of ns) (t_token p1) = ''BNB''
          \<or> transfer_token (nativeToken_of ns) (t_token p1) = ''bnb''"
        unfolding tk using assms by (rule transfer_token_BNB)
      show "all_calls (\<lambda>c. \<not> is_token_lookup c)
          (io_bind (io_call (SwitchChain (t_chain p1)) (Inr ()))
            (\<lambda>_. io_bind (balance_probe w (t_chain (p1\<lparr>t_token := transfer_token (nativeToken_of ns) (t_token p1)\<rparr>)))
                  (\<lambda>_. transfer_dispatch w (dataParam_of p) (nativeToken_of ns)
                         (p1\<lparr>t_token := transfer_token (nativeToken_of ns) (t_token p1)\<rparr>))))"
        by (intro all_calls_intros balance_probe_no_lookup dispatch_native_no_lookup)
           (use d in simp_all)
    qed
  qed
qed

lemma transfer_symbol_lookup:
  assumes ch: "map_of (chains (wallet w)) (t_chain p) = Some nativeSymbol"
    and to: "t_toAddress p \<noteq> []"
    and fa: "formatAddress (wallet w) (t_toAddress p) = Inr a"
    and nn: "\<not> takes_native_branch nativeSymbol (t_token p)"
    and sy: "\<not> startsWith (t_token p) ''0x''"
    and cf: "configureLiFiSdk (wallet w) (t_chain p) = Inr ()"
  shows "GetTokenAddress (t_chain p) (t_token p) \<in> set (fst (transfer w p))"
proof -
  define q where "q = p\<lparr>t_toAddress := a, t_data := normalize_data (t_data p),
                  t_token := transfer_token (nativeToken_of nativeSymbol) (t_token p)\<rparr>"
  have tt: "transfer_token (nativeToken_of nativeSymbol) (t_token p) = t_token p"
    using nn by (auto simp: takes_native_branch_def Let_def transfer_token_def split: if_splits)
  have qa: "t_token q = t_token p" "t_chain q = t_chain p"
    by (simp_all add: q_def tt)
  have nb: "\<not> (t_token q = [] \<or> t_token q = ''null'' \<or> t_token q = nativeToken_of nativeSymbol)"
    "\<not> (t_token q = ''BNB'' \<or> t_token q = ''bnb'')"
    using nn by (auto simp: takes_native_branch_def Let_def qa tt)
  have r: "GetTokenAddress (t_chain p) (t_token p) \<in> set (fst (resolve_transfer_token w q))"
    unfolding resolve_transfer_token_def qa using sy cf
    by (simp add: fst_io_catch fst_io_bind snd_io_bind io_basic)
  have "GetTokenAddress (t_chain p) (t_token p) \<in> set (fst (transfer_dispatch w (dataParam_of p) (nativeToken_of nativeSymbol) q))"
    unfolding transfer_dispatch_def Let_def using nb r
    by (simp add: erc20_transfer_def fst_io_bind)
  then show ?thesis
    unfolding transfer_after_validation(1)[OF ch to fa q_def] by simp
qed

lemma resolve_swap_token_lookup:
  "\<not> startsWith token ''0x'' \<Longrightarrow> GetTokenAddress chain token \<in> set (fst (resolve_swap_token w chain token))"
  by (simp add: resolve_swap_token_def fst_io_catch fst_io_bind io_basic)

lemma resolve_swap_token_result:
  "startsWith token ''0x'' \<or> (\<exists>x. getTokenAddress (wallet w) chain token = Inr x) \<Longrightarrow>
   \<exists>y. snd (resolve_swap_token w chain token) = Inr y"
  by (auto simp add: resolve_swap_token_def snd_io_catch snd_io_bind io_basic)

lemma swap_from_lookup:
  assumes v: "swap_validateAndNormalizeParams w p0 = Inr p"
    and cf: "configureLiFiSdk (wallet w) (s_chain p) = Inr ()"
    and sy: "\<not> startsWith (s_fromToken p) ''0x''"
  shows "GetTokenAddress (s_chain p) (s_fromToken p) \<in> set (fst (swap w p0))"
  unfolding swap_def v using cf resolve_swap_token_lookup[OF sy, of "s_chain p" w]
  by (simp add: fst_io_bind snd_io_bind io_basic)

lemma swap_to_lookup:
  assumes v: "swap_validateAndNormalizeParams w p0 = Inr p"
    and cf: "configureLiFiSdk (wallet w) (s_chain p) = Inr ()"
    and fr: "startsWith (s_fromToken p) ''0x'' \<or> (\<exists>x. getTokenAddress (wallet w) (s_chain p) (s_fromToken p) = Inr x)"
    and sy: "\<not> startsWith (s_toToken p) ''0x''"
  shows "GetTokenAddress (s_chain p) (s_toToken p) \<in> set (fst (swap w p0))"
proof -
  from resolve_swap_token_result[OF fr] obtain y where y: "snd (resolve_swap_token w (s_chain p) (s_fromToken p)) = Inr y"
    by blast
  show ?thesis
    unfolding swap_def v using cf y resolve_swap_token_lookup[OF sy, of "s_chain p" w]
    by (simp add: fst_io_bind snd_io_bind io_basic)
qed

lemma resolve_swap_token_value:
  assumes "\<not> startsWith token ''0x'' \<longrightarrow> getTokenAddress (wallet w) chain token = Inr x"
  shows "snd (resolve_swap_token w chain token) =
           Inr (if startsWith token ''0x'' then token
                else if toUpperCase token = ''BNB'' then ''0xEeeeeEeeeEeEeeEeEeEeeEEEeeeeEeeeeeeeEEeE''
                else x)"
  using assms
  by (simp add: resolve_swap_token_def snd_io_catch snd_io_bind io_basic NATIVE_SENTINEL_def)

lemma swap_validate_slippage:
  assumes "swap_validateAndNormalizeParams w p0 = Inr p"
  shows "case s_slippage p of None \<Rightarrow> False | Some v \<Rightarrow> v \<noteq> 0"
proof -
  have ex: "\<exists>y::rat. y * 20 = 1" by (rule exI[of _ "1 / 20"]) simp
  show ?thesis
    using assms ex
    by (auto simp: swap_validateAndNormalizeParams_def Let_def split: if_splits sum.splits option.splits)
qed

lemma swap_route_request:
  assumes v: "swap_validateAndNormalizeParams w s0 = Inr s"
    and cf: "configureLiFiSdk (wallet w) (s_chain s) = Inr ()"
    and fr: "\<not> startsWith (s_fromToken s) ''0x'' \<longrightarrow>
               getTokenAddress (wallet w) (s_chain s) (s_fromToken s) = Inr xf"
    and to: "\<not> startsWith (s_toToken s) ''0x'' \<longrightarrow>
               getTokenAddress (wallet w) (s_chain s) (s_toToken s) = Inr xt"
    and am: "parseEther w (s_amount s) = Inr amt"
  shows "GetRoutes
           \<lparr>fromTokenAddress =
              (if startsWith (s_fromToken s) ''0x'' then s_fromToken s
               else if toUpperCase (s_fromToken s) = ''BNB'' then ''0xEeeeeEeeeEeEeeEeEeEeeEEEeeeeEeeeeeeeEEeE''
               else xf),
            toTokenAddress =
              (if startsWith (s_toToken s) ''0x'' then s_toToken s
               else if toUpperCase (s_toToken s) = ''BNB'' then ''0xEeeeeEeeeEeEeeEeEeEeeEEEeeeeEeeeeeeeEEeE''
               else xt),
            fromAmount = amt, fromAddress = walletAddress (wallet w),
            slippage = the (s_slippage s)\<rparr>
         \<in> set (fst (swap w s0))"
proof -
  obtain sl where sl: "s_slippage s = Some sl" "sl \<noteq> 0"
    using swap_validate_slippage[OF v] by (cases "s_slippage s") auto
  note rf = resolve_swap_token_value[of "s_fromToken s" w "s_chain s" xf, OF fr]
  note rt = resolve_swap_token_value[of "s_toToken s" w "s_chain s" xt, OF to]
  show ?thesis
    unfolding swap_def v io_lift_def io_bind_Inr
    using cf rf rt am sl
    by (simp add: fst_io_bind snd_io_bind fst_io_catch snd_io_catch io_basic io_lift_def Let_def)
qed

text \<open>
  Claim C3, as amended. A transfer that names \<^verbatim>\<open>BNB\<close> (or \<^verbatim>\<open>bnb\<close>) issues no
  \<^verbatim>\<open>getTokenAddress\<close> call, whatever the collaborators answer. A transfer that names
  another symbol, one that does not start with \<^verbatim>\<open>0x\<close> and is not sent through a native
  branch, issues \<^verbatim>\<open>getTokenAddress\<close> for it once the chain is known, the recipient is
  formatted and the LI.FI SDK is configured. A swap issues \<^verbatim>\<open>getTokenAddress\<close> for every
  token that does not start with \<^verbatim>\<open>0x\<close>, \<^verbatim>\<open>BNB\<close> included, once its parameters are valid
  and the LI.FI SDK is configured (for the to token: once the from token is resolved). When
  these lookups answer and the amount parses, the route request of the swap carries, for
  each token, the token itself when it starts with \<^verbatim>\<open>0x\<close>, the native sentinel address
  \<^verbatim>\<open>0xEeeeeEeeeEeEeeEeEeEeeEEEeeeeEeeeeeeeEEeE\<close> in place of the answer when the symbol is
  \<^verbatim>\<open>BNB\<close> in any case, and the answer of the lookup otherwise.
\<close>

theorem token_lookup_of_transfer_and_swap:
  "((t_token pn = ''BNB'' \<or> t_token pn = ''bnb'') \<longrightarrow>
      filter is_token_lookup (fst (transfer w pn)) = [])
   \<and> (map_of (chains (wallet w)) (t_chain pe) = Some nativeSymbol
       \<and> t_toAddress pe \<noteq> []
       \<and> formatAddress (wallet w) (t_toAddress pe) = Inr a
       \<and> \<not> takes_native_branch nativeSymbol (t_token pe)
       \<and> \<not> startsWith (t_token pe) ''0x''
       \<and> configureLiFiSdk (wallet w) (t_chain pe) = Inr ()
      \<longrightarrow> GetTokenAddress (t_chain pe) (t_token pe) \<in> set (fst (transfer w pe)))
   \<and> (swap_validateAndNormalizeParams w s0 = Inr s
       \<and> configureLiFiSdk (wallet w) (s_chain s) = Inr ()
       \<and> \<not> startsWith (s_fromToken s) ''0x''
      \<longrightarrow> GetTokenAddress (s_chain s) (s_fromToken s) \<in> set (fst (swap w s0)))
   \<and> (swap_validateAndNormalizeParams w s0 = Inr s
       \<and> configureLiFiSdk (wallet w) (s_chain s) = Inr ()
       \<and> (startsWith (s_fromToken s) ''0x''
            \<or> (\<exists>x. getTokenAddress (wallet w) (s_chain s) (s_fromToken s) = Inr x))
       \<and> \<not> startsWith (s_toToken s) ''0x''
      \<longrightarrow> GetTokenAddress (s_chain s) (s_toToken s) \<in> set (fst (swap w s0)))
   \<and> (swap_validateAndNormalizeParams w s0 = Inr s
       \<and> configureLiFiSdk (wallet w) (s_chain s) = Inr ()
       \<and> (\<not> startsWith (s_fromToken s) ''0x'' \<longrightarrow>
             getTokenAddress (wallet w) (s_chain s) (s_fromToken s) = Inr xf)
       \<and> (\<not> startsWith (s_toToken s) ''0x'' \<longrightarrow>
             getTokenAddress (wallet w) (s_chain s) (s_toToken s) = Inr xt)
       \<and> parseEther w (s_amount s) = Inr amt
      \<longrightarrow> GetRoutes
            \<lparr>fromTokenAddress =
               (if startsWith (s_fromToken s) ''0x'' then s_fromToken s
                else if toUpperCase (s_fromToken s) = ''BNB''
                     then ''0xEeeeeEeeeEeEeeEeEeEeeEEEeeeeEeeeeeeeEEeE''
                else xf),
             toTokenAddress =
               (if startsWith (s_toToken s) ''0x'' then s_toToken s
                else if toUpperCase (s_toToken s) = ''BNB''
                     then ''0xEeeeeEeeeEeEeeEeEeEeeEEEeeeeEeeeeeeeEEeE''
                else xt),
             fromAmount = amt, fromAddress = walletAddress (wallet w),
             slippage = the (s_slippage s)\<rparr>
          \<in> set (fst (swap w s0)))"
proof (intro conjI impI)
  assume "t_token pn = ''BNB'' \<or> t_token pn = ''bnb''"
  then show "filter is_token_lookup (fst (transfer w pn)) = []"
    by (rule transfer_native_no_lookup)
next
  assume h: "map_of (chains (wallet w)) (t_chain pe) = Some nativeSymbol
       \<and> t_toAddress pe \<noteq> []
       \<and> formatAddress (wallet w) (t_toAddress pe) = Inr a
       \<and> \<not> takes_native_branch nativeSymbol (t_token pe)
       \<and> \<not> startsWith (t_token pe) ''0x''
       \<and> configureLiFiSdk (wallet w) (t_chain pe) = Inr ()"
  show "GetTokenAddress (t_chain pe) (t_token pe) \<in> set (fst (transfer w pe))"
    by (rule transfer_symbol_lookup[where nativeSymbol = nativeSymbol and a = a]) (use h in blast)+
next
  assume h: "swap_validateAndNormalizeParams w s0 = Inr s
       \<and> configureLiFiSdk (wallet w) (s_chain s) = Inr ()
       \<and> \<not> startsWith (s_fromToken s) ''0x''"
  show "GetTokenAddress (s_chain s) (s_fromToken s) \<in> set (fst (swap w s0))"
    by (rule swap_from_lookup) (use h in blast)+
next
  assume h: "swap_validateAndNormalizeParams w s0 = Inr s
       \<and> configureLiFiSdk (wallet w) (s_chain s) = Inr ()
       \<and> (startsWith (s_fromToken s) ''0x''
            \<or> (\<exists>x. getTokenAddress (wallet w) (s_chain s) (s_fromToken s) = Inr x))
       \<and> \<not> startsWith (s_toToken s) ''0x''"
  show "GetTokenAddress (s_chain s) (s_toToken s) \<in> set (fst (swap w s0))"
    by (rule swap_to_lookup) (use h in blast)+
next
  assume h: "swap_validateAndNormalizeParams w s0 = Inr s
       \<and> configureLiFiSdk (wallet w) (s_chain s) = Inr ()
       \<and> (\<not> startsWith (s_fromToken s) ''0x'' \<longrightarrow>
             getTokenAddress (wallet w) (s_chain s) (s_fromToken s) = Inr xf)
       \<and> (\<not> startsWith (s_toToken s) ''0x'' \<longrightarrow>
             getTokenAddress (wallet w) (s_chain s) (s_toToken s) = Inr xt)
       \<and> parseEther w (s_amount s) = Inr amt"
  show "GetRoutes
            \<lparr>fromTokenAddress =
               (if startsWith (s_fromToken s) ''0x'' then s_fromToken s
                else if toUpperCase (s_fromToken s) = ''BNB''
                     then ''0xEeeeeEeeeEeEeeEeEeEeeEEEeeeeEeeeeeeeEEeE''
                else xf),
             toTokenAddress =
               (if startsWith (s_toToken s) ''0x'' then s_toToken s
                else if toUpperCase (s_toToken s) = ''BNB''
                     then ''0xEeeeeEeeeEeEeeEeEeEeeEEEeeeeEeeeeeeeEEeE''
                else xt),
             fromAmount = amt, fromAddress = walletAddress (wallet w),
             slippage = the (s_slippage s)\<rparr>
          \<in> set (fst (swap w s0))"
    by (rule swap_route_request) (use h in blast)+
qed

text \<open>
  The theorem at a transfer of all BNB, a transfer of USDT and a swap of 1 BNB for USDC: the
  swap looks both symbols up and asks for a route from the sentinel address.
\<close>

theorem token_lookup_of_transfer_and_swap_witness:
  "filter is_token_lookup (fst (transfer example_world transfer_all_params)) = []
   \<and> GetTokenAddress ''bsc'' ''USDT'' \<in> set (fst (transfer example_world transfer_usdt_params))
   \<and> GetTokenAddress ''bsc'' ''BNB'' \<in> set (fst (swap example_world swap_bnb_params))
   \<and> GetTokenAddress ''bsc'' ''USDC'' \<in> set (fst (swap example_world swap_bnb_params))
   \<and> getTokenAddress (wallet example_world) ''bsc'' ''BNB'' = Inr example_token
   \<and> GetRoutes \<lparr>fromTokenAddress = ''0xEeeeeEeeeEeEeeEeEeEeeEEEeeeeEeeeeeeeEEeE'',
                   toTokenAddress = example_token, fromAmount = 1000000000000000000,
                   fromAddress = example_address, slippage = 1 / 20\<rparr>
       \<in> set (fst (swap example_world swap_bnb_params))"
proof -
  define s where "s = swap_bnb_params\<lparr>s_slippage := Some (1 / 20)\<rparr>"
  have h1: "t_token transfer_all_params = ''BNB'' \<or> t_token transfer_all_params = ''bnb''"
    by code_simp
  have h2: "map_of (chains (wallet example_world)) (t_chain transfer_usdt_params) = Some ''BNB''
       \<and> t_toAddress transfer_usdt_params \<noteq> []
       \<and> formatAddress (wallet example_world) (t_toAddress transfer_usdt_params) = Inr example_address
       \<and> \<not> takes_native_branch ''BNB'' (t_token transfer_usdt_params)
       \<and> \<not> startsWith (t_token transfer_usdt_params) ''0x''
       \<and> configureLiFiSdk (wallet example_world) (t_chain transfer_usdt_params) = Inr ()"
    by code_simp
  have h3: "swap_validateAndNormalizeParams example_world swap_bnb_params = Inr s
       \<and> configureLiFiSdk (wallet example_world) (s_chain s) = Inr ()
       \<and> \<not> startsWith (s_fromToken s) ''0x''"
    unfolding s_def by code_simp
  have g: "getTokenAddress (wallet example_world) (s_chain s) (s_fromToken s) = Inr example_token"
    unfolding s_def by code_simp
  have g': "getTokenAddress (wallet example_world) (s_chain s) (s_toToken s) = Inr example_token"
    unfolding s_def by code_simp
  have g0: "getTokenAddress (wallet example_world) ''bsc'' ''BNB'' = Inr example_token"
    by code_simp
  have h4: "swap_validateAndNormalizeParams example_world swap_bnb_params = Inr s
       \<and> configureLiFiSdk (wallet example_world) (s_chain s) = Inr ()
       \<and> (startsWith (s_fromToken s) ''0x''
            \<or> (\<exists>x. getTokenAddress (wallet example_world) (s_chain s) (s_fromToken s) = Inr x))
       \<and> \<not> startsWith (s_toToken s) ''0x''"
    using h3 g by (simp add: s_def swap_bnb_params_def startsWith_def)
  have am: "parseEther example_world (s_amount s) = Inr 1000000000000000000"
    unfolding s_def by code_simp
  have h5: "swap_validateAndNormalizeParams example_world swap_bnb_params = Inr s
       \<and> configureLiFiSdk (wallet example_world) (s_chain s) = Inr ()
       \<and> (\<not> startsWith (s_fromToken s) ''0x'' \<longrightarrow>
             getTokenAddress (wallet example_world) (s_chain s) (s_fromToken s) = Inr example_token)
       \<and> (\<not> startsWith (s_toToken s) ''0x'' \<longrightarrow>
             getTokenAddress (wallet example_world) (s_chain s) (s_toToken s) = Inr example_token)
       \<and> parseEther example_world (s_amount s) = Inr 1000000000000000000"
    using h3 g g' am by simp
  have e: "t_chain transfer_usdt_params = ''bsc''" "t_token transfer_usdt_params = ''USDT''"
    "s_chain s = ''bsc''" "s_fromToken s = ''BNB''" "s_toToken s = ''USDC''"
    by (simp_all add: transfer_usdt_params_def s_def swap_bnb_params_def)
  have r: "\<lparr>fromTokenAddress =
               (if startsWith (s_fromToken s) ''0x'' then s_fromToken s
                else if toUpperCase (s_fromToken s) = ''BNB''
                     then ''0xEeeeeEeeeEeEeeEeEeEeeEEEeeeeEeeeeeeeEEeE''
                else example_token),
             toTokenAddress =
               (if startsWith (s_toToken s) ''0x'' then s_toToken s
                else if toUpperCase (s_toToken s) = ''BNB''
                     then ''0xEeeeeEeeeEeEeeEeEeEeeEEEeeeeEeeeeeeeEEeE''
                else example_token),
             fromAmount = 1000000000000000000, fromAddress = walletAddress (wallet example_world),
             slippage = the (s_slippage s)\<rparr>
          = \<lparr>fromTokenAddress = ''0xEeeeeEeeeEeEeeEeEeEeeEEEeeeeEeeeeeeeEEeE'',
                   toTokenAddress = example_token, fromAmount = 1000000000000000000,
                   fromAddress = example_address, slippage = 1 / 20\<rparr>"
    unfolding s_def by code_simp
  note t = token_lookup_of_transfer_and_swap[of transfer_all_params example_world transfer_usdt_params
      "''BNB''" example_address swap_bnb_params s example_token example_token 1000000000000000000]
  note c1 = mp[OF conjunct1[OF t] h1]
  note c2 = mp[OF conjunct1[OF conjunct2[OF t]] h2]
  note c3 = mp[OF conjunct1[OF conjunct2[OF conjunct2[OF t]]] h3]
  note c4 = mp[OF conjunct1[OF conjunct2[OF conjunct2[OF conjunct2[OF t]]]] h4]
  note c5 = mp[OF conjunct2[OF conjunct2[OF conjunct2[OF conjunct2[OF t]]]] h5]
  from c1 c2 c3 c4 c5[unfolded r] g0 show ?thesis unfolding e by simp
qed

text \<open>
  The claim as written fails for swaps: a swap from \<^verbatim>\<open>BNB\<close> asks the token directory for
  \<^verbatim>\<open>BNB\<close> before it substitutes the sentinel address.
\<close>

theorem swap_of_BNB_looks_BNB_up:
  "s_fromToken swap_bnb_params = ''BNB''
   \<and> GetTokenAddress ''bsc'' ''BNB'' \<in> set (fst (swap example_world swap_bnb_params))"
  by code_simp

section \<open>Transferring the whole balance\<close>

lemma native_transfer_all:
  assumes "t_amount p = []"
    and "getBalance (client w) 1 (t_chain p) (walletAddress (wallet w)) = Inr balance"
  shows "native_transfer w p d =
     ([GetBalance (t_chain p) (walletAddress (wallet w)),
       Transfer (t_chain p) (t_toAddress p) (balance - 63000000000000)
         \<lparr>gas = Some 21000, gasPrice = Some 3000000000, data = d\<rparr>],
      (case providerTransfer (wallet w) (t_chain p) (t_toAddress p) (balance - 63000000000000)
              \<lparr>gas = Some 21000, gasPrice = Some 3000000000, data = d\<rparr> of
         Inl e \<Rightarrow> Inl e
       | Inr txHash \<Rightarrow> Inr (formatEther (balance - 63000000000000), txHash)))"
  using assms
  by (cases "providerTransfer (wallet w) (t_chain p) (t_toAddress p) (balance - 63000000000000)
              \<lparr>gas = Some 21000, gasPrice = Some 3000000000, data = d\<rparr>")
     (simp_all add: native_transfer_def io_call_def io_bind_Inr io_bind_Inl io_return_def
        DEFAULT_GAS_PRICE_def TRANSFER_GAS_def)

text \<open>
  C4. A transfer of the native asset with the amount omitted submits the balance read for
  the transfer minus the gas reserve of 21000 gas at 3 gwei (63000000000000 wei, 0.000063
  native units), with these gas options, and the amount of a returned response is that
  value formatted in native units. For a balance of 5 native units the amount is 4.999937.
\<close>

theorem transfer_all_is_balance_minus_gas_reserve:
  assumes ch: "map_of (chains (wallet w)) (t_chain p) = Some nativeSymbol"
    and to: "t_toAddress p \<noteq> []"
    and fa: "formatAddress (wallet w) (t_toAddress p) = Inr a"
    and nat: "takes_native_branch nativeSymbol (t_token p)"
    and am: "t_amount p = []"
    and bal: "getBalance (client w) 1 (t_chain p) (walletAddress (wallet w)) = Inr balance"
  shows "Transfer (t_chain p) a (balance - 21000 * 3000000000)
            \<lparr>gas = Some 21000, gasPrice = Some 3000000000, data = dataParam_of p\<rparr>
           \<in> set (fst (transfer w p))
         \<and> (\<forall>resp. snd (transfer w p) = Inr resp \<longrightarrow> tr_amount resp = formatEther (balance - 63000000000000))
         \<and> formatEther (5 * 10 ^ 18 - 63000000000000) = ''4.999937''"
proof -
  define token where "token = transfer_token (nativeToken_of nativeSymbol) (t_token p)"
  define q where "q = p\<lparr>t_toAddress := a, t_data := normalize_data (t_data p), t_token := token\<rparr>"
  define resp where "resp = \<lparr>tr_chain = t_chain q, tr_txHash = ''0x'', tr_recipient = t_toAddress q,
                                   tr_amount = [], tr_token = t_token q\<rparr>"
  define branch where "branch = transfer_dispatch w (dataParam_of p) (nativeToken_of nativeSymbol) q"
  have nat': "token = [] \<or> token = ''null'' \<or> token = nativeToken_of nativeSymbol \<or> token = ''BNB'' \<or> token = ''bnb''"
    using nat by (simp add: takes_native_branch_def Let_def token_def)
  have fst_t: "fst (transfer w p) = [FormatAddress (t_toAddress p), SwitchChain (t_chain p)]
        @ fst (balance_probe w (t_chain p)) @ fst branch"
    and snd_t: "snd (transfer w p) = snd branch"
    unfolding branch_def
    by (rule transfer_after_validation[OF ch to fa]; simp add: q_def token_def)+
  have qa: "t_amount q = []" "t_chain q = t_chain p" "t_toAddress q = a" "t_token q = token"
    by (simp_all add: q_def am)
  have nt: "native_transfer w q (dataParam_of p) =
     ([GetBalance (t_chain p) (walletAddress (wallet w)),
       Transfer (t_chain p) a (balance - 63000000000000)
         \<lparr>gas = Some 21000, gasPrice = Some 3000000000, data = dataParam_of p\<rparr>],
      (case providerTransfer (wallet w) (t_chain p) a (balance - 63000000000000)
              \<lparr>gas = Some 21000, gasPrice = Some 3000000000, data = dataParam_of p\<rparr> of
         Inl e \<Rightarrow> Inl e
       | Inr txHash \<Rightarrow> Inr (formatEther (balance - 63000000000000), txHash)))"
    using native_transfer_all[of q w balance "dataParam_of p"] qa bal by simp
  define r where "r = providerTransfer (wallet w) (t_chain p) a (balance - 63000000000000)
              \<lparr>gas = Some 21000, gasPrice = Some 3000000000, data = dataParam_of p\<rparr>"
  have br: "branch =
      (if token = [] \<or> token = ''null'' \<or> token = nativeToken_of nativeSymbol then
           io_bind (native_transfer w q (dataParam_of p))
             (\<lambda>(amount, txHash). confirm_transfer w (resp\<lparr>tr_amount := amount, tr_txHash := txHash\<rparr>))
       else io_bind (native_transfer w q (dataParam_of p))
             (\<lambda>(amount, txHash).
                io_return (resp\<lparr>tr_token := nativeToken_of nativeSymbol, tr_amount := amount, tr_txHash := txHash\<rparr>)))"
    unfolding branch_def transfer_dispatch_def resp_def Let_def qa using nat' by auto
  have in_branch: "Transfer (t_chain p) a (balance - 63000000000000)
         \<lparr>gas = Some 21000, gasPrice = Some 3000000000, data = dataParam_of p\<rparr> \<in> set (fst branch)"
    unfolding br by (simp add: nt fst_io_bind)
  have res: "\<And>x. snd branch = Inr x \<Longrightarrow> tr_amount x = formatEther (balance - 63000000000000)"
  proof -
    fix x assume x: "snd branch = Inr x"
    show "tr_amount x = formatEther (balance - 63000000000000)"
    proof (cases r)
      case (Inl e)
      then have "snd branch = Inl e"
        unfolding br by (simp add: nt snd_io_bind r_def[symmetric])
      then show ?thesis using x by simp
    next
      case (Inr h)
      show ?thesis
      proof (cases "token = [] \<or> token = ''null'' \<or> token = nativeToken_of nativeSymbol")
        case True
        then have "snd branch = snd (confirm_transfer w (resp\<lparr>tr_amount := formatEther (balance - 63000000000000), tr_txHash := h\<rparr>))"
          unfolding br using Inr by (simp add: nt snd_io_bind r_def[symmetric])
        then show ?thesis using x confirm_transfer_result[of w _ x] by auto
      next
        case False
        then have "snd branch = Inr (resp\<lparr>tr_token := nativeToken_of nativeSymbol, tr_amount := formatEther (balance - 63000000000000),
                                                        tr_txHash := h\<rparr>)"
          unfolding br using Inr by (simp add: nt snd_io_bind r_def[symmetric] io_basic)
        then show ?thesis using x by auto
      qed
    qed
  qed
  have f: "formatEther (5 * 10 ^ 18 - 63000000000000) = ''4.999937''"
    by code_simp
  show ?thesis using in_branch res f unfolding fst_t snd_t by simp
qed

theorem transfer_all_is_balance_minus_gas_reserve_witness:
  "\<exists>resp. snd (transfer example_world transfer_all_params) = Inr resp \<and> tr_amount resp = ''4.999937''"
proof -
  have ch: "map_of (chains (wallet example_world)) (t_chain transfer_all_params) = Some ''BNB''"
    by code_simp
  have to: "t_toAddress transfer_all_params \<noteq> []"
    by code_simp
  have fa: "formatAddress (wallet example_world) (t_toAddress transfer_all_params) = Inr example_address"
    by code_simp
  have nat: "takes_native_branch ''BNB'' (t_token transfer_all_params)"
    by code_simp
  have am: "t_amount transfer_all_params = []"
    by code_simp
  have bal: "getBalance (client example_world) 1 (t_chain transfer_all_params) (walletAddress (wallet example_world))
               = Inr (5 * 10 ^ 18)"
    by code_simp
  have ret: "snd (transfer example_world transfer_all_params) =
      Inr \<lparr>tr_chain = ''bsc'', tr_txHash = ''0xaa'', tr_recipient = example_address,
           tr_amount = ''4.999937'', tr_token = ''BNB''\<rparr>"
    by code_simp
  note t = transfer_all_is_balance_minus_gas_reserve[OF ch to fa nat am bal]
  from t have "\<forall>resp. snd (transfer example_world transfer_all_params) = Inr resp \<longrightarrow>
      tr_amount resp = ''4.999937''" by simp
  then show ?thesis using ret by simp
qed

section \<open>Claiming stops at the first request that is not claimable\<close>

lemma claim_loop_trace:
  assumes sts: "\<forall>i < length sts. getUserRequestStatus (client w) i = Inr (sts ! i)"
    and sim: "\<forall>c. simulateContract (client w) c = Inr ()"
    and wr: "\<forall>c. \<exists>h. writeContract (client w) c = Inr h"
    and wt: "\<forall>h. waitForTransactionReceipt (client w) h = Inr ()"
  shows "idx \<le> length sts \<Longrightarrow>
    (\<exists>r. snd (claim_loop w account (length sts) idx acc) = Inr r) \<and>
    claimed (fst (claim_loop w account (length sts) idx acc))
       = map int [idx ..< idx + length (takeWhile fst (drop idx sts))] \<and>
    status_reads (fst (claim_loop w account (length sts) idx acc))
       = map int [idx ..< min (Suc (idx + length (takeWhile fst (drop idx sts)))) (length sts)]"
proof (induction "length sts - idx" arbitrary: idx acc)
  case 0
  then show ?case by (cases acc) (simp add: claim_loop.simps io_return_def)
next
  case (Suc d)
  then have lt: "idx < length sts" by simp
  have dr: "drop idx sts = sts ! idx # drop (Suc idx) sts"
    using lt by (simp add: Cons_nth_drop_Suc)
  obtain b a where st: "sts ! idx = (b, a)" by (cases "sts ! idx")
  have rd: "getUserRequestStatus (client w) idx = Inr (b, a)" using sts lt st by simp
  show ?case
  proof (cases b)
    case False
    then show ?thesis using lt rd dr st
      by (cases acc) (simp add: claim_loop.simps io_bind_def io_call_def io_return_def status_call_def)
  next
    case True
    obtain h where h: "writeContract (client w) (claim_call idx) = Inr h" using wr by blast
    obtain t c l where acc: "acc = (t, c, l)" by (cases acc)
    have d: "d = length sts - Suc idx" using Suc(2) by simp
    have le: "Suc idx \<le> length sts" using lt by simp
    note IH = Suc(1)[OF d le, of "(t + a, Suc c, h)"]
    from IH obtain r where r: "snd (claim_loop w account (length sts) (Suc idx) (t + a, Suc c, h)) = Inr r" by blast
    obtain tr where tr: "claim_loop w account (length sts) (Suc idx) (t + a, Suc c, h) = (tr, Inr r)"
      using r by (cases "claim_loop w account (length sts) (Suc idx) (t + a, Suc c, h)") simp
    have unf: "claim_loop w account (length sts) idx acc =
       ([ReadContract (status_call account idx), SimulateContract (claim_call idx),
         WriteContract (claim_call idx), WaitForTransactionReceipt h] @ tr, Inr r)"
      using lt rd True h sim wt acc tr
      by (subst claim_loop.simps) (simp add: io_bind_def io_call_def)
    define m where "m = length (takeWhile fst (drop (Suc idx) sts))"
    have tw: "length (takeWhile fst (drop idx sts)) = Suc m"
      using True st dr by (simp add: m_def)
    have c1: "claimed (fst (claim_loop w account (length sts) idx acc)) = int idx # map int [Suc idx..<Suc idx + m]"
      using IH unfolding unf tr m_def by (simp add: claim_call_def status_call_def)
    have s1: "status_reads (fst (claim_loop w account (length sts) idx acc))
        = int idx # map int [Suc idx..<min (Suc (Suc idx + m)) (length sts)]"
      using IH unfolding unf tr m_def by (simp add: claim_call_def status_call_def)
    have u1: "[idx..<idx + Suc m] = idx # [Suc idx..<Suc idx + m]"
      by (simp add: upt_conv_Cons)
    have u2: "[idx..<min (Suc (idx + Suc m)) (length sts)] = idx # [Suc idx..<min (Suc (Suc idx + m)) (length sts)]"
      using lt by (simp add: upt_conv_Cons)
    have r1: "\<exists>r'. snd (claim_loop w account (length sts) idx acc) = Inr r'"
      unfolding unf by (rule exI[of _ r]) simp
    show ?thesis unfolding tw c1 s1 u1 u2 using r1 by simp
  qed
qed


lemma doClaim_trace:
  assumes acc: "walletAccount (wallet w) = Some account"
    and reqs: "getUserWithdrawalRequests (client w) = Inr requests"
    and len: "length requests = length sts"
    and sts: "\<forall>i < length sts. getUserRequestStatus (client w) i = Inr (sts ! i)"
    and sim: "\<forall>c. simulateContract (client w) c = Inr ()"
    and wr: "\<forall>c. \<exists>h. writeContract (client w) c = Inr h"
    and wt: "\<forall>h. waitForTransactionReceipt (client w) h = Inr ()"
  shows "claimed (fst (doClaim w)) = map int [0 ..< length (takeWhile fst sts)] \<and>
         status_reads (fst (doClaim w)) = map int [0 ..< min (Suc (length (takeWhile fst sts))) (length sts)] \<and>
         (\<exists>msg. snd (doClaim w) = Inr msg)"
proof (cases "length sts = 0")
  case True
  then show ?thesis using acc reqs len
    by (simp add: doClaim_def io_bind_def io_call_def io_catch_def io_return_def)
next
  case False
  have L: "(\<exists>r. snd (claim_loop w account (length sts) 0 (0, 0, [])) = Inr r) \<and>
    claimed (fst (claim_loop w account (length sts) 0 (0, 0, [])))
       = map int [0 ..< 0 + length (takeWhile fst (drop 0 sts))] \<and>
    status_reads (fst (claim_loop w account (length sts) 0 (0, 0, [])))
       = map int [0 ..< min (Suc (0 + length (takeWhile fst (drop 0 sts)))) (length sts)]"
    by (rule claim_loop_trace[OF sts sim wr wt]) simp
  then obtain tr r where tr: "claim_loop w account (length sts) 0 (0, 0, []) = (tr, Inr r)"
    by (cases "claim_loop w account (length sts) 0 (0, 0, [])") auto
  obtain t c l where r: "r = (t, c, l)" by (cases r)
  have "fst (doClaim w) = ReadContract \<lparr>address = LISTA_DAO, functionName = ''getUserWithdrawalRequests'',
                                 args = [AStr account], callValue = None\<rparr> # tr \<and> (\<exists>msg. snd (doClaim w) = Inr msg)"
    using acc reqs len False tr r
    by (cases requests) (simp_all add: doClaim_def io_bind_def io_call_def io_catch_def io_return_def)
  then show ?thesis using L tr by simp
qed

text \<open>
  C5. When the statuses of the pending withdrawal requests are claimable up to index \<open>k\<close>
  and the request at index \<open>k\<close> is the first that is not claimable, and the chain calls
  succeed, \<^verbatim>\<open>doClaim\<close> claims exactly the requests \<open>0, ..., k - 1\<close>, in this order, and
  reads the claimability of the requests \<open>0, ..., k\<close> only: no request after index \<open>k\<close>
  is looked at.
\<close>

theorem doClaim_stops_at_first_non_claimable:
  assumes "walletAccount (wallet w) = Some account"
    and "getUserWithdrawalRequests (client w) = Inr requests"
    and "length requests = length sts"
    and "\<forall>i < length sts. getUserRequestStatus (client w) i = Inr (sts ! i)"
    and "\<forall>c. simulateContract (client w) c = Inr ()"
    and "\<forall>c. \<exists>h. writeContract (client w) c = Inr h"
    and "\<forall>h. waitForTransactionReceipt (client w) h = Inr ()"
    and k: "k < length sts" "\<not> fst (sts ! k)" "\<forall>i < k. fst (sts ! i)"
  shows "claimed (fst (doClaim w)) = map int [0 ..< k] \<and>
         status_reads (fst (doClaim w)) = map int [0 ..< Suc k] \<and>
         (\<forall>i \<in> set (status_reads (fst (doClaim w))). i \<le> int k)"
proof -
  have "takeWhile fst sts = take k sts"
    using k by (metis (no_types, lifting) takeWhile_eq_take_P_nth)
  then have tk: "length (takeWhile fst sts) = k" using k by simp
  have "claimed (fst (doClaim w)) = map int [0 ..< k] \<and>
         status_reads (fst (doClaim w)) = map int [0 ..< Suc k]"
    using doClaim_trace[OF assms(1-7)] tk k(1) by (simp add: min_def)
  then show ?thesis by auto
qed

theorem doClaim_stops_at_first_non_claimable_witness:
  "claimed (fst (doClaim example_world)) = [0, 1] \<and>
   status_reads (fst (doClaim example_world)) = [0, 1, 2]"
proof -
  have s: "\<forall>i < length [(True, 5), (True, 7), (False, 3), (True, 9::int)].
     getUserRequestStatus (client example_world) i = Inr ([(True, 5), (True, 7), (False, 3), (True, 9)] ! i)"
    by (auto simp: example_defs less_Suc_eq numeral_eq_Suc)
  have k: "\<forall>i < (2::nat). fst ([(True, 5), (True, 7), (False, 3), (True, 9::int)] ! i)"
    by (auto simp: less_Suc_eq numeral_eq_Suc)
  show ?thesis
    using doClaim_stops_at_first_non_claimable[of example_world example_address "[11, 12, 13, 14]"
        "[(True, 5), (True, 7), (False, 3), (True, 9)]" 2, OF _ _ _ s _ _ _ _ _ k]
    by (simp add: example_defs upt_conv_Cons numeral_eq_Suc)
qed

section \<open>Unsupported bridge directions\<close>

lemma bridge_validate_unsupported:
  assumes "b_toChain p \<noteq> []"
    and "\<not> isSupported (if b_fromChain p = [] then ''bsc'' else b_fromChain p) (b_toChain p)"
  shows "bridge_validateAndNormalizeParams w p = Inl unsupported_direction"
proof (cases "b_fromChain p = []")
  case True
  then show ?thesis using assms by (simp add: bridge_validateAndNormalizeParams_def)
next
  case False
  then show ?thesis using assms by (simp add: bridge_validateAndNormalizeParams_def)
qed

text \<open>
  C6. A bridge request names a destination chain (\<^verbatim>\<open>toChain: SupportedChain\<close>); its source
  chain is the one given, or \<^verbatim>\<open>bsc\<close> when none is given. When source and destination are not
  one of the two supported directions (so also when they are equal), \<^verbatim>\<open>bridge\<close> throws the
  error whose message starts with \<^verbatim>\<open>Unsupported bridge direction\<close>, and the execution contains
  no call at all: no chain switch, read, simulation or write.
\<close>

theorem bridge_unsupported_direction_fails_before_any_call:
  assumes "b_toChain p \<noteq> []"
    and "\<not> isSupported (if b_fromChain p = [] then ''bsc'' else b_fromChain p) (b_toChain p)"
  shows "bridge w p = ([], Inl unsupported_direction)
         \<and> startsWith unsupported_direction ''Unsupported bridge direction''"
proof -
  have "bridge w p = ([], Inl unsupported_direction)"
    unfolding bridge_def bridge_validate_unsupported[OF assms]
    by (simp add: io_bind_def io_lift_def)
  moreover have "startsWith unsupported_direction ''Unsupported bridge direction''"
    by (simp add: startsWith_def unsupported_direction_def)
  ultimately show ?thesis by simp
qed

theorem bridge_unsupported_direction_fails_before_any_call_witness:
  "bridge example_world bridge_same_chain_params = ([], Inl unsupported_direction)"
proof -
  have h1: "b_toChain bridge_same_chain_params \<noteq> []"
    by (simp add: bridge_same_chain_params_def)
  have h2: "\<not> isSupported (if b_fromChain bridge_same_chain_params = [] then ''bsc''
                             else b_fromChain bridge_same_chain_params) (b_toChain bridge_same_chain_params)"
    by (simp add: bridge_same_chain_params_def isSupported_def)
  show ?thesis
    using bridge_unsupported_direction_fails_before_any_call[OF h1 h2, of example_world] by simp
qed

section \<open>A failed wait for the receipt keeps the hash\<close>

text \<open>
  C7. When an execution of \<^verbatim>\<open>transfer\<close> reaches the wait for the receipt of the submitted
  hash and that wait fails, \<^verbatim>\<open>transfer\<close> still returns the response, and the response
  carries the hash: the error of the wait is not raised and the hash is not lost.
\<close>

theorem transfer_returns_hash_when_wait_fails:
  assumes wt: "WaitForTransactionReceipt h \<in> set (fst (transfer w p0))"
    and fail: "waitForTransactionReceipt (client w) h = Inl e"
  shows "\<exists>resp. snd (transfer w p0) = Inr resp \<and> tr_txHash resp = h"
proof (cases "map_of (chains (wallet w)) (t_chain p0)")
  case None
  then show ?thesis using wt by (simp add: transfer_def io_basic)
next
  case (Some nativeSymbol)
  define body where "body = (\<lambda>p1. io_bind (io_call (SwitchChain (t_chain p1)) (Inr ()))
              (\<lambda>_. let nativeToken = nativeToken_of nativeSymbol;
                       p = p1\<lparr>t_token := transfer_token nativeToken (t_token p1)\<rparr>
                   in io_bind (balance_probe w (t_chain p))
                        (\<lambda>_. transfer_dispatch w (dataParam_of p0) nativeToken p)))"
  have t: "transfer w p0 = io_bind (transfer_validateAndNormalizeParams w p0) body"
    unfolding transfer_def Some body_def by simp
  from wt obtain p1 where w1: "WaitForTransactionReceipt h \<in> set (fst (body p1))"
    and s1: "snd (transfer w p0) = snd (body p1)"
    unfolding t by (rule wait_through_bind[OF validate_no_wait])
  define p where "p = p1\<lparr>t_token := transfer_token (nativeToken_of nativeSymbol) (t_token p1)\<rparr>"
  define branch where "branch = transfer_dispatch w (dataParam_of p0) (nativeToken_of nativeSymbol) p"
  have b: "body p1 = io_bind (io_call (SwitchChain (t_chain p1)) (Inr ()))
      (\<lambda>_. io_bind (balance_probe w (t_chain p)) (\<lambda>_. branch))"
    unfolding body_def branch_def p_def by (simp add: Let_def)
  have sw: "all_calls (\<lambda>c. \<not> is_wait c) (io_call (SwitchChain (t_chain p1)) (Inr ()) :: unit io)"
    by (intro all_calls_intros) simp
  from w1 obtain u where w2: "WaitForTransactionReceipt h \<in> set (fst (io_bind (balance_probe w (t_chain p)) (\<lambda>_. branch)))"
    and s2: "snd (body p1) = snd (io_bind (balance_probe w (t_chain p)) (\<lambda>_. branch))"
    unfolding b by (rule wait_through_bind[OF sw])
  from w2 obtain u' where w3: "WaitForTransactionReceipt h \<in> set (fst branch)"
    and s3: "snd (io_bind (balance_probe w (t_chain p)) (\<lambda>_. branch)) = snd branch"
    by (rule wait_through_bind[OF balance_probe_no_wait])
  have "\<exists>r. snd branch = Inr r \<and> tr_txHash r = h"
    using w3 unfolding branch_def by (rule dispatch_wait)
  then show ?thesis using s1 s2 s3 by simp
qed

theorem transfer_returns_hash_when_wait_fails_witness:
  "\<exists>resp. snd (transfer example_world_no_receipt transfer_usdt_params) = Inr resp \<and> tr_txHash resp = ''0xbb''"
proof -
  have h1: "WaitForTransactionReceipt ''0xbb'' \<in> set (fst (transfer example_world_no_receipt transfer_usdt_params))"
    by code_simp
  have h2: "waitForTransactionReceipt (client example_world_no_receipt) ''0xbb'' = Inl ''timeout''"
    by code_simp
  show ?thesis by (rule transfer_returns_hash_when_wait_fails[OF h1 h2])
qed

section \<open>The faucet's timeout\<close>

lemma await_hash_timeout:
  "list_all unsettling ms \<Longrightarrow>
   await_hash (map WsMessage ms @ TimerFired # rest) = ([WsClose], Rejected ''Faucet request timeout'')"
  by (induction ms) (auto simp: unsettling_def)

text \<open>
  C8, as the code has it. When the parameters are valid, the socket opens, and every
  message delivered before the timer fires leaves the promise unsettled (no hash, no
  error), the faucet request is rejected with \<^verbatim>\<open>Faucet request timeout\<close>, and \<^verbatim>\<open>ws.close()\<close>
  is invoked twice: once by the timer's callback and once by the \<^verbatim>\<open>finally\<close> block.
\<close>

theorem faucet_timeout_rejects_and_closes_twice:
  assumes v: "snd (faucet_validateAndNormalizeParams w p0) = Inr p"
    and q: "list_all unsettling ms"
  shows "snd (faucet w (WsOpen # map WsMessage ms @ TimerFired # rest) p0) = Threw ''Faucet request timeout''
         \<and> length (filter is_close (fst (faucet w (WsOpen # map WsMessage ms @ TimerFired # rest) p0))) = 2"
proof -
  obtain t where t: "faucet_validateAndNormalizeParams w p0 = (t, Inr p)"
    using v by (cases "faucet_validateAndNormalizeParams w p0") simp
  have nc: "filter is_close t = []"
  proof -
    have "all_calls (\<lambda>c. \<not> is_close c) (faucet_validateAndNormalizeParams w p0)"
      unfolding faucet_validateAndNormalizeParams_def Let_def
      by (intro all_calls_intros) simp_all
    then show ?thesis using t all_calls_filter[of is_close "faucet_validateAndNormalizeParams w p0"] by simp
  qed
  show ?thesis
    unfolding faucet_def t using nc await_hash_timeout[OF q, of rest]
    by simp
qed

theorem faucet_timeout_rejects_and_closes_twice_witness:
  "snd (faucet example_world [WsOpen, WsMessage faucet_ack, TimerFired] faucet_params)
     = Threw ''Faucet request timeout''
   \<and> length (filter is_close (fst (faucet example_world [WsOpen, WsMessage faucet_ack, TimerFired] faucet_params))) = 2"
proof -
  have v: "snd (faucet_validateAndNormalizeParams example_world faucet_params)
             = Inr (faucet_params\<lparr>f_toAddress := example_address\<rparr>)"
    by code_simp
  have q: "list_all unsettling [faucet_ack]"
    by code_simp
  show ?thesis
    using faucet_timeout_rejects_and_closes_twice[OF v q, of "[]"] by simp
qed

text \<open>
  The claim as written fails: already without any message, the timeout leaves two
  invocations of \<^verbatim>\<open>ws.close()\<close> in the execution, not one.
\<close>

theorem faucet_timeout_closes_twice_not_once:
  "snd (faucet example_world [WsOpen, TimerFired] faucet_params) = Threw ''Faucet request timeout''
   \<and> length (filter is_close (fst (faucet example_world [WsOpen, TimerFired] faucet_params))) \<noteq> 1"
  by code_simp

section \<open>The handlers up to the call of the action\<close>

lemma run_action_eq:
  "run_action act success failure =
     (fst act @ [Callback (case snd act of Inl e \<Rightarrow> failure e | Inr x \<Rightarrow> success x)],
      Inr (case snd act of Inl e \<Rightarrow> False | Inr x \<Rightarrow> True))"
proof -
  obtain t r where a: "act = (t, r)" by (cases act)
  show ?thesis
    unfolding a run_action_def
    by (cases r)
       (simp_all add: io_bind_Inl io_bind_Inr io_catch_Inl io_catch_Inr callback_def io_call_def
          io_return_def)
qed

lemma current_state_eq:
  "state_given \<or> composeState (runtime w) = Inr () \<Longrightarrow>
   current_state w state_given = (if state_given then [] else [ComposeState], Inr ())"
  by (auto simp: current_state_def io_return_def io_call_def)

lemma wallet_info_eq:
  "(if state_given then io_catch (io_call WalletInfo (walletInfo (runtime w))) (\<lambda>e. io_return ())
    else io_return ())
   = (if state_given then [WalletInfo] else [], Inr ())"
  by (cases "walletInfo (runtime w)") (simp_all add: io_call_def io_catch_Inl io_catch_Inr io_return_def)

lemma wallet_info_checked_eq:
  "state_given \<longrightarrow> walletInfo (runtime w) = Inr () \<Longrightarrow>
   (if state_given then
      io_catch (io_bind (io_call WalletInfo (walletInfo (runtime w))) (\<lambda>_. io_return True))
        (\<lambda>e. io_bind (callback (wallet_failure e)) (\<lambda>_. io_return False))
    else io_return True)
   = (if state_given then [WalletInfo] else [], Inr True)"
  by (simp add: io_call_def io_bind_Inr io_catch_Inr io_return_def)

lemma transfer_handler_runs:
  assumes src: "msg_source msg = ''direct'' \<or> msg_source msg = ''client_chat:user''"
    and st: "state_given \<or> composeState (runtime w) = Inr ()"
    and um: "useModel (runtime w) = Inr out"
    and ct: "transfer_content w (regexMatch (js w) TransferRegex (promptText_of msg)) out = PObject c"
    and iw: "initWalletProvider (runtime w) = Inr ()"
    and P: "P = transfer_handler_params w (regexMatch (js w) TransferRegex (promptText_of msg)) c"
    and R: "R = run_action (transfer w P) (transfer_success w (t_chain P))
                  (transfer_failure w (transfer_params_after w P))"
  shows "transferAction_handler w msg state_given =
           ([if state_given then WalletInfo else ComposeState, UseModel, InitWalletProvider] @ fst R,
            snd R)"
  unfolding transferAction_handler_def Let_def current_state_eq[OF st] wallet_info_eq R P
  using src
  by (cases state_given)
     (simp_all add: io_bind_Inr io_call_def io_lift_def read_content_def um iw ct)

lemma transfer_handler_model_throws:
  assumes src: "msg_source msg = ''direct'' \<or> msg_source msg = ''client_chat:user''"
    and st: "state_given \<or> composeState (runtime w) = Inr ()"
    and um: "useModel (runtime w) = Inl e"
  shows "transferAction_handler w msg state_given =
           ([if state_given then WalletInfo else ComposeState, UseModel], Inl e)"
  unfolding transferAction_handler_def Let_def current_state_eq[OF st] wallet_info_eq
  using src
  by (cases state_given) (simp_all add: io_bind_Inr io_bind_Inl io_call_def um)

lemma transfer_handler_null_throws:
  assumes src: "msg_source msg = ''direct'' \<or> msg_source msg = ''client_chat:user''"
    and st: "state_given \<or> composeState (runtime w) = Inr ()"
    and um: "useModel (runtime w) = Inr out"
    and ct: "transfer_content w (regexMatch (js w) TransferRegex (promptText_of msg)) out = PNull"
  shows "transferAction_handler w msg state_given =
           ([if state_given then WalletInfo else ComposeState, UseModel], Inl (cannot_read ''chain''))"
  unfolding transferAction_handler_def Let_def current_state_eq[OF st] wallet_info_eq
  using src
  by (cases state_given)
     (simp_all add: io_bind_Inr io_bind_Inl io_call_def io_lift_def read_content_def um ct)

lemma swap_handler_runs:
  assumes st: "state_given \<or> composeState (runtime w) = Inr ()"
    and um: "useModel (runtime w) = Inr out"
    and ct: "parse_content w out = PObject c"
    and iw: "initWalletProvider (runtime w) = Inr ()"
    and P: "P = swap_handler_params w (promptText_of msg) c"
    and R: "R = run_action (swap w P) (swap_success w P) (swap_failure P)"
  shows "swapAction_handler w msg state_given =
           ([if state_given then WalletInfo else ComposeState, UseModel, InitWalletProvider] @ fst R,
            snd R)"
  unfolding swapAction_handler_def Let_def current_state_eq[OF st] wallet_info_eq R P
  by (cases state_given)
     (simp_all add: io_bind_Inr io_call_def io_lift_def read_content_def um iw ct)

lemma swap_handler_model_throws:
  assumes st: "state_given \<or> composeState (runtime w) = Inr ()"
    and um: "useModel (runtime w) = Inl e"
  shows "swapAction_handler w msg state_given =
           ([if state_given then WalletInfo else ComposeState, UseModel], Inl e)"
  unfolding swapAction_handler_def Let_def current_state_eq[OF st] wallet_info_eq
  by (cases state_given) (simp_all add: io_bind_Inr io_bind_Inl io_call_def um)

lemma swap_handler_null_throws:
  assumes st: "state_given \<or> composeState (runtime w) = Inr ()"
    and um: "useModel (runtime w) = Inr out"
    and ct: "parse_content w out = PNull"
  shows "swapAction_handler w msg state_given =
           ([if state_given then WalletInfo else ComposeState, UseModel], Inl (cannot_read ''chain''))"
  unfolding swapAction_handler_def Let_def current_state_eq[OF st] wallet_info_eq
  by (cases state_given)
     (simp_all add: io_bind_Inr io_bind_Inl io_call_def io_lift_def read_content_def um ct)

lemma bridge_handler_enters_body:
  assumes st: "state_given \<or> composeState (runtime w) = Inr ()"
    and wi: "state_given \<longrightarrow> walletInfo (runtime w) = Inr ()"
    and um: "useModel (runtime w) = Inr out"
    and ct: "parse_content w out = PObject c"
    and B: "B = bridge_handler_body w (bridge_resolve w (promptText_of msg) c)"
  shows "bridgeAction_handler w msg state_given =
           ([if state_given then WalletInfo else ComposeState, UseModel] @ fst B, snd B)"
  unfolding bridgeAction_handler_def current_state_eq[OF st] wallet_info_checked_eq[OF wi] B
  by (cases state_given)
     (simp_all add: io_bind_Inr io_call_def io_lift_def read_content_def um ct)

lemma bridge_handler_model_throws:
  assumes st: "state_given \<or> composeState (runtime w) = Inr ()"
    and wi: "state_given \<longrightarrow> walletInfo (runtime w) = Inr ()"
    and um: "useModel (runtime w) = Inl e"
  shows "bridgeAction_handler w msg state_given =
           ([if state_given then WalletInfo else ComposeState, UseModel], Inl e)"
  unfolding bridgeAction_handler_def current_state_eq[OF st] wallet_info_checked_eq[OF wi]
  by (cases state_given) (simp_all add: io_bind_Inr io_bind_Inl io_call_def um)

lemma bridge_handler_null_throws:
  assumes st: "state_given \<or> composeState (runtime w) = Inr ()"
    and wi: "state_given \<longrightarrow> walletInfo (runtime w) = Inr ()"
    and um: "useModel (runtime w) = Inr out"
    and ct: "parse_content w out = PNull"
  shows "bridgeAction_handler w msg state_given =
           ([if state_given then WalletInfo else ComposeState, UseModel],
            Inl (cannot_read (bridge_first_read w (promptText_of msg))))"
  unfolding bridgeAction_handler_def current_state_eq[OF st] wallet_info_checked_eq[OF wi]
  by (cases state_given)
     (simp_all add: io_bind_Inr io_bind_Inl io_call_def io_lift_def read_content_def um ct)

lemma bridge_handler_wallet_failure:
  assumes "state_given" and "walletInfo (runtime w) = Inl e"
  shows "bridgeAction_handler w msg state_given = ([WalletInfo, Callback (wallet_failure e)], Inr False)"
  unfolding bridgeAction_handler_def current_state_def
  using assms
  by (simp add: io_return_def io_call_def io_bind_Inr io_bind_Inl io_catch_Inl callback_def)

lemma transfer_params_after_token:
  assumes "map_of (chains (wallet w)) (t_chain p) = Some nativeSymbol"
    and "snd (transfer_validateAndNormalizeParams w p) = Inr p1"
  shows "t_token (transfer_params_after w p) = transfer_token (nativeToken_of nativeSymbol) (t_token p)"
proof -
  have "t_token p1 = t_token p" using assms(2) by (rule validate_keeps_token)
  then show ?thesis by (simp add: transfer_params_after_def assms)
qed

lemma transfer_params_after_untouched:
  "map_of (chains (wallet w)) (t_chain p) = None \<or> (\<exists>e. snd (transfer_validateAndNormalizeParams w p) = Inl e)
   \<Longrightarrow> transfer_params_after w p = p"
  by (auto simp: transfer_params_after_def split: option.splits)

section \<open>The sources of the handlers' parameters\<close>

lemma toUpperCase_Nil: "(toUpperCase s = []) = (s = [])"
  by (simp add: toUpperCase_def)

lemma truthy_str_Some: "truthy_str x \<Longrightarrow> \<exists>s. x = Some s"
  by (cases x) simp_all

lemma directTokenMatch_captured: "directTokenMatch m = map_option toUpperCase (captured m 2)"
proof (cases m)
  case None
  then show ?thesis by (simp add: directTokenMatch_def captured_def grp_def)
next
  case (Some gs)
  show ?thesis
  proof (cases "truthy_str (grp m 2)")
    case True
    then obtain s where s: "grp m 2 = Some s" using truthy_str_Some by blast
    have "2 < length gs" using True Some by (auto simp: grp_def split: if_splits)
    then show ?thesis using True s Some by (simp add: directTokenMatch_def captured_def)
  next
    case False
    then show ?thesis using Some by (simp add: directTokenMatch_def captured_def)
  qed
qed

lemma usable_string_nonempty: "usable_string v \<Longrightarrow> str_of v \<noteq> []"
  by (cases v) (simp_all add: usable_string_def str_of_def)

lemma transfer_token_source:
  "transfer_handler_token m c = first_available (map_option toUpperCase (captured m 2)) (json_string c ''token'') ''BNB''"
proof (cases "captured m 2")
  case None
  then show ?thesis
    by (simp add: transfer_handler_token_def directTokenMatch_captured first_available_def
          json_string_def usable_string_nonempty Let_def)
next
  case (Some t)
  then have "t \<noteq> []"
    by (auto simp: captured_def split: if_splits option.splits)
  then show ?thesis using Some
    by (simp add: transfer_handler_token_def directTokenMatch_captured first_available_def
          toUpperCase_Nil Let_def)
qed

lemma transfer_amount_source:
  "transfer_handler_amount w m c = first_available (json_amount w c) (captured m 1) []"
  by (auto simp: transfer_handler_amount_def first_available_def json_amount_def captured_def split: option.splits)

lemma transfer_toAddress_source:
  "transfer_handler_toAddress m c =
     first_available (if is_string (c ''toAddress'') then Some (str_of (c ''toAddress'')) else None)
       (captured m 3) []"
  by (auto simp: transfer_handler_toAddress_def first_available_def captured_def split: option.splits)

lemma swap_amount_source:
  "swap_handler_amount w m c = first_available (swap_direct m 1) (json_amount w c) ''0.001''"
  by (simp add: swap_handler_amount_def first_available_def json_amount_def split: option.splits)

lemma swap_fromToken_source:
  "swap_handler_fromToken m c =
     first_available (map_option toUpperCase (swap_direct m 2)) (json_string c ''inputToken'') ''BNB''"
  by (simp add: swap_handler_fromToken_def first_available_def json_string_def split: option.splits)

lemma swap_toToken_source:
  "swap_handler_toToken w promptText m c =
     first_available (map_option toUpperCase (swap_direct m 3)) (json_string c ''outputToken'')
       (case filter (\<lambda>token. token \<noteq> swap_handler_fromToken m c \<and> tokenMentions w promptText token)
                    [''USDC'', ''USDT'', ''BUSD''] of
          token # rest \<Rightarrow> token
        | [] \<Rightarrow> if swap_handler_fromToken m c = ''BNB'' then ''USDC'' else ''BNB'')"
  by (simp add: swap_handler_toToken_def first_available_def json_string_def Let_def
        split: option.splits)

lemma bridge_amount_source:
  "bridge_handler_amount w m c = first_available (captured m 1) (json_amount w c) ''0.001''"
  by (auto simp: bridge_handler_amount_def first_available_def json_amount_def captured_def split: option.splits)

lemma bridge_fromToken_source:
  "bridge_handler_fromToken m c =
     first_available (map_option (\<lambda>t. JStr (toUpperCase t)) (captured m 2))
       (if truthy (c ''fromToken'') then Some (convertNullStringToUndefined (c ''fromToken'')) else None)
       JUndefined"
  by (auto simp: bridge_handler_fromToken_def first_available_def captured_def split: option.splits)

lemma bridge_toAddress_source:
  assumes "string_or_absent (c ''toAddress'')"
  shows "bridge_handler_toAddress m c =
     Inr (first_available
            (if truthy_str (grp m 3) \<and> startsWith (the (grp m 3)) ''0x'' then Some (grp m 3) else None)
            (if usable_string (c ''toAddress'') \<and> startsWith (str_of (c ''toAddress'')) ''0x''
             then Some (Some (str_of (c ''toAddress''))) else None)
            None)"
  using assms
  by (cases "c ''toAddress''")
     (simp_all add: bridge_handler_toAddress_def first_available_def string_or_absent_def
        js_startsWith_0x_def convertNullStringToUndefined_def usable_string_def
        str_of_def)

lemma swap_direct_captured:
  "swap_direct m i = (case m of None \<Rightarrow> None | Some gs \<Rightarrow> if 4 \<le> length gs then captured m i else None)"
  by (cases m) (simp_all add: swap_direct_def captured_def grp_def)

lemma token_address_string_value:
  "string_or_absent v \<Longrightarrow>
   token_address v = Inr (case v of JStr s \<Rightarrow> if startsWith s ''0x'' then Some s else None | _ \<Rightarrow> None)"
  by (cases v) (simp_all add: string_or_absent_def token_address_def js_startsWith_0x_def str_of_def)

lemma bridge_fromToken_string:
  "string_or_absent (c ''fromToken'') \<Longrightarrow> string_or_absent (bridge_handler_fromToken m c)"
  by (cases "c ''fromToken''")
     (simp_all add: bridge_handler_fromToken_def convertNullStringToUndefined_def string_or_absent_def)

lemma bridge_toToken_address:
  "string_or_absent (c ''toToken'') \<Longrightarrow>
   token_address (bridge_handler_toToken c) =
     Inr (case c ''toToken'' of JStr s \<Rightarrow> if startsWith s ''0x'' then Some s else None | _ \<Rightarrow> None)"
  by (cases "c ''toToken''")
     (auto simp: bridge_handler_toToken_def convertNullStringToUndefined_def string_or_absent_def
        token_address_def js_startsWith_0x_def str_of_def startsWith_def)

text \<open>
  Claim C1, as amended. Take a handler that reaches the call of its action: the state, the
  model and the wallet provider answer, the model output parses to an object, the source of
  a transfer is allowed; for a bridge, the wallet info is read, the JSON fields
  \<^verbatim>\<open>fromToken\<close>, \<^verbatim>\<open>toToken\<close> and \<^verbatim>\<open>toAddress\<close> are strings or absent, and the request is not
  rejected for a missing destination token. Then the handler calls its action on parameters
  resolved field by field from two sources and a default, the first source that has a value
  winning. For the token of a transfer, for the tokens and the amount of a swap, and for
  the token, the amount and the recipient of a bridge, the first source is what the
  handler's pattern captured from the user's text and the second is the JSON field; the
  defaults are \<^verbatim>\<open>BNB\<close>, \<^verbatim>\<open>0.001\<close>, no token and no recipient, and for the target token of a
  swap a stable coin the text mentions, else \<^verbatim>\<open>USDC\<close> or \<^verbatim>\<open>BNB\<close>. For the amount and the
  recipient of a transfer the order is the other one: the JSON field is the first source
  (a non-empty string or non-zero number as amount, any string as recipient) and what the
  pattern captured is the second; the default is the empty string. The bridge handler takes
  a recipient only when it starts with \<^verbatim>\<open>0x\<close> and passes a token on only when it starts with
  \<^verbatim>\<open>0x\<close>. The groups of a swap pattern count when the match has its four entries.
\<close>

theorem handlers_resolve_parameters:
  assumes st: "state_given \<or> composeState (runtime w) = Inr ()"
    and um: "useModel (runtime w) = Inr out"
    and iw: "initWalletProvider (runtime w) = Inr ()"
    and pt: "promptText = (case msg_text msg of JStr s \<Rightarrow> trim s | _ \<Rightarrow> [])"
    and tm: "tm = regexMatch (js w) TransferRegex promptText"
    and sm: "sm = (case regexMatch (js w) BasicSwapRegex promptText of
                 Some gs \<Rightarrow> Some gs | None \<Rightarrow> regexMatch (js w) AdvancedSwapRegex promptText)"
    and sc: "sc = (\<lambda>i. case sm of None \<Rightarrow> None
                        | Some gs \<Rightarrow> if 4 \<le> length gs then captured sm i else None)"
    and bm: "bm = regexMatch (js w) BridgeRegex promptText"
    and ch: "chain = (if is_string (c ''chain'') then toLowerCase (str_of (c ''chain'')) else ''bsc'')"
    and tp: "tp = \<lparr>t_chain = chain,
               t_token = first_available (map_option toUpperCase (captured tm 2)) (json_string c ''token'') ''BNB'',
               t_amount = first_available (json_amount w c) (captured tm 1) [],
               t_toAddress = first_available
                   (if is_string (c ''toAddress'') then Some (str_of (c ''toAddress'')) else None)
                   (captured tm 3) [],
               t_data = t_data (transfer_handler_params w tm c)\<rparr>"
    and ft: "fromToken = first_available (map_option toUpperCase (sc 2)) (json_string c ''inputToken'') ''BNB''"
    and sp: "sp = \<lparr>s_chain = chain,
               s_fromToken = fromToken,
               s_toToken = first_available (map_option toUpperCase (sc 3)) (json_string c ''outputToken'')
                   (case filter (\<lambda>token. token \<noteq> fromToken
                                   \<and> regexMatch (js w) (TokenMention token) promptText \<noteq> None)
                                [''USDC'', ''USDT'', ''BUSD''] of
                      token # rest \<Rightarrow> token
                    | [] \<Rightarrow> if fromToken = ''BNB'' then ''USDC'' else ''BNB''),
               s_amount = first_available (sc 1) (json_amount w c) ''0.001'',
               s_slippage = s_slippage (swap_handler_params w promptText c)\<rparr>"
    and bt: "bridgeToken = first_available (map_option (\<lambda>t. JStr (toUpperCase t)) (captured bm 2))
                         (if truthy (c ''fromToken'') then Some (c ''fromToken'') else None) JUndefined"
    and bp: "bp = \<lparr>b_fromChain = bridge_handler_fromChain promptText c,
               b_toChain = bridge_handler_toChain promptText c,
               b_fromToken = (case bridgeToken of
                                JStr s \<Rightarrow> if startsWith s ''0x'' then Some s else None | _ \<Rightarrow> None),
               b_toToken = (case c ''toToken'' of
                              JStr s \<Rightarrow> if startsWith s ''0x'' then Some s else None | _ \<Rightarrow> None),
               b_amount = first_available (captured bm 1) (json_amount w c) ''0.001'',
               b_toAddress = first_available
                   (case captured bm 3 of
                      Some a \<Rightarrow> if startsWith a ''0x'' then Some (Some a) else None | None \<Rightarrow> None)
                   (case json_string c ''toAddress'' of
                      Some a \<Rightarrow> if startsWith a ''0x'' then Some (Some a) else None | None \<Rightarrow> None)
                   None\<rparr>"
    and pre: "pre = [if state_given then WalletInfo else ComposeState, UseModel, InitWalletProvider]"
  shows "((msg_source msg = ''direct'' \<or> msg_source msg = ''client_chat:user'')
            \<and> transfer_content w tm out = PObject c
          \<longrightarrow> transferAction_handler w msg state_given =
                (pre @ fst (run_action (transfer w tp) (transfer_success w chain)
                              (transfer_failure w (transfer_params_after w tp))),
                 snd (run_action (transfer w tp) (transfer_success w chain)
                              (transfer_failure w (transfer_params_after w tp)))))
       \<and> (parse_content w out = PObject c
          \<longrightarrow> swapAction_handler w msg state_given =
                (pre @ fst (run_action (swap w sp) (swap_success w sp) (swap_failure sp)),
                 snd (run_action (swap w sp) (swap_success w sp) (swap_failure sp))))
       \<and> (parse_content w out = PObject c
            \<and> (state_given \<longrightarrow> walletInfo (runtime w) = Inr ())
            \<and> string_or_absent (c ''fromToken'') \<and> string_or_absent (c ''toToken'')
            \<and> string_or_absent (c ''toAddress'')
            \<and> \<not> (b_fromChain bp = ''bsc'' \<and> truthy bridgeToken \<and> bridgeToken \<noteq> JStr ''BNB''
                   \<and> \<not> truthy (c ''toToken''))
          \<longrightarrow> bridgeAction_handler w msg state_given =
                (pre @ fst (run_action (bridge w bp) (bridge_success w) bridge_failure),
                 snd (run_action (bridge w bp) (bridge_success w) bridge_failure)))"
proof (intro conjI impI)
  have pt': "promptText_of msg = promptText"
    by (simp add: promptText_of_def pt)
  {
    assume h: "(msg_source msg = ''direct'' \<or> msg_source msg = ''client_chat:user'')
            \<and> transfer_content w tm out = PObject c"
    have P: "tp = transfer_handler_params w tm c"
      unfolding tp ch
      by (simp add: transfer_handler_params_def transfer_token_source transfer_amount_source
            transfer_toAddress_source)
    have c': "t_chain tp = chain" by (simp add: tp)
    have "transferAction_handler w msg state_given =
           ([if state_given then WalletInfo else ComposeState, UseModel, InitWalletProvider]
              @ fst (run_action (transfer w tp) (transfer_success w (t_chain tp))
                       (transfer_failure w (transfer_params_after w tp))),
            snd (run_action (transfer w tp) (transfer_success w (t_chain tp))
                       (transfer_failure w (transfer_params_after w tp))))"
      by (rule transfer_handler_runs[where out = out and c = c, OF _ st um _ iw _ refl])
         (use h P in \<open>simp_all add: pt' tm\<close>)
    then show "transferAction_handler w msg state_given =
                (pre @ fst (run_action (transfer w tp) (transfer_success w chain)
                              (transfer_failure w (transfer_params_after w tp))),
                 snd (run_action (transfer w tp) (transfer_success w chain)
                              (transfer_failure w (transfer_params_after w tp))))"
      unfolding c' pre .
  }
  {
    assume h: "parse_content w out = PObject c"
    have sm': "swap_match w promptText = sm"
      by (simp add: swap_match_def sm)
    have d: "swap_direct sm i = sc i" for i
      unfolding sc by (rule swap_direct_captured)
    have f: "swap_handler_fromToken sm c = fromToken"
      unfolding ft by (simp add: swap_fromToken_source d)
    have P: "sp = swap_handler_params w promptText c"
      unfolding sp ch
      by (simp add: swap_handler_params_def Let_def sm' f swap_toToken_source swap_amount_source
            d tokenMentions_def)
    have "swapAction_handler w msg state_given =
           ([if state_given then WalletInfo else ComposeState, UseModel, InitWalletProvider]
              @ fst (run_action (swap w sp) (swap_success w sp) (swap_failure sp)),
            snd (run_action (swap w sp) (swap_success w sp) (swap_failure sp)))"
      by (rule swap_handler_runs[where out = out and c = c, OF st um _ iw _ refl])
         (use h P in \<open>simp_all add: pt'\<close>)
    then show "swapAction_handler w msg state_given =
                (pre @ fst (run_action (swap w sp) (swap_success w sp) (swap_failure sp)),
                 snd (run_action (swap w sp) (swap_success w sp) (swap_failure sp)))"
      unfolding pre .
  }
  {
    assume h: "parse_content w out = PObject c
            \<and> (state_given \<longrightarrow> walletInfo (runtime w) = Inr ())
            \<and> string_or_absent (c ''fromToken'') \<and> string_or_absent (c ''toToken'')
            \<and> string_or_absent (c ''toAddress'')
            \<and> \<not> (b_fromChain bp = ''bsc'' \<and> truthy bridgeToken \<and> bridgeToken \<noteq> JStr ''BNB''
                   \<and> \<not> truthy (c ''toToken''))"
    define r where "r = bridge_resolve w promptText c"
    have sf: "string_or_absent (c ''fromToken'')" and stt: "string_or_absent (c ''toToken'')"
      and sa: "string_or_absent (c ''toAddress'')" using h by simp_all
    have rf: "r_fromToken r = bridgeToken"
    proof (cases "c ''fromToken''")
      case (JStr x)
      then show ?thesis
        unfolding r_def bt
        by (simp add: bridge_resolve_def Let_def bm bridge_fromToken_source
              convertNullStringToUndefined_def)
    qed (use sf in \<open>simp_all add: r_def bt bridge_resolve_def Let_def bm bridge_fromToken_source
              convertNullStringToUndefined_def string_or_absent_def\<close>)
    have rt: "truthy (r_toToken r) = truthy (c ''toToken'')"
      by (cases "c ''toToken''")
         (simp_all add: r_def bridge_resolve_def Let_def bridge_handler_toToken_def
            convertNullStringToUndefined_def)
    have rc: "r_fromChain r = b_fromChain bp"
      by (simp add: r_def bridge_resolve_def Let_def bp)
    have nm: "\<not> missing_destination_token r"
      using h by (simp add: missing_destination_token_def rf rt rc)
    have ta: "r_toAddress r = Inr (b_toAddress bp)"
    proof -
      have "r_toAddress r = bridge_handler_toAddress bm c"
        by (simp add: r_def bridge_resolve_def Let_def bm)
      also have "\<dots> = Inr (b_toAddress bp)"
        unfolding bridge_toAddress_source[where c = c, OF sa] bp
        by (cases "grp bm 3")
           (auto simp: captured_def json_string_def first_available_def split: option.splits)
      finally show ?thesis .
    qed
    have fa: "token_address (r_fromToken r) = Inr (b_fromToken bp)"
    proof -
      have "string_or_absent (r_fromToken r)"
        unfolding r_def by (simp add: bridge_resolve_def Let_def bridge_fromToken_string[where c = c, OF sf])
      from token_address_string_value[OF this] show ?thesis
        by (simp add: rf bp)
    qed
    have tt: "token_address (r_toToken r) = Inr (b_toToken bp)"
      using bridge_toToken_address[where c = c, OF stt]
      by (simp add: r_def bridge_resolve_def Let_def bp)
    have pp: "bridge_handler_params r (b_toAddress bp) = Inr bp"
      unfolding bridge_handler_params_def fa tt
      by (simp add: r_def bridge_resolve_def Let_def bp bm bridge_amount_source)
    have body: "bridge_handler_body w r =
                  io_bind (io_call InitWalletProvider (Inr ()))
                    (\<lambda>_. run_action (bridge w bp) (bridge_success w) bridge_failure)"
      using nm ta iw pp
      by (simp add: bridge_handler_body_def io_lift_def io_bind_Inr)
    have "bridgeAction_handler w msg state_given =
            ([if state_given then WalletInfo else ComposeState, UseModel] @ fst (bridge_handler_body w r),
             snd (bridge_handler_body w r))"
      by (rule bridge_handler_enters_body[where out = out and c = c, OF st _ um])
         (use h in \<open>simp_all add: pt' r_def\<close>)
    then show "bridgeAction_handler w msg state_given =
                (pre @ fst (run_action (bridge w bp) (bridge_success w) bridge_failure),
                 snd (run_action (bridge w bp) (bridge_success w) bridge_failure))"
      unfolding body pre by (simp add: io_call_def io_bind_Inr)
  }
qed

text \<open>
  The theorem at three requests whose text and JSON disagree. The transfer takes the token
  of the text (\<^verbatim>\<open>BNB\<close>, not \<^verbatim>\<open>USDC\<close>) and the amount and the recipient of the JSON (\<^verbatim>\<open>2\<close>, not
  \<^verbatim>\<open>1\<close>); the swap and the bridge take every field from the text.
\<close>

theorem handlers_resolve_parameters_witness:
  "captured (regexMatch (js mixed_world) TransferRegex mixed_transfer_text) 1 = Some ''1''
   \<and> captured (regexMatch (js mixed_world) TransferRegex mixed_transfer_text) 2 = Some ''BNB''
   \<and> json_amount mixed_world mixed_content = Some ''2''
   \<and> json_string mixed_content ''token'' = Some ''USDC''
   \<and> transferAction_handler mixed_world mixed_transfer_message True =
       ([WalletInfo, UseModel, InitWalletProvider]
          @ fst (run_action (transfer mixed_world mixed_transfer_params) (transfer_success mixed_world ''bsc'')
                   (transfer_failure mixed_world (transfer_params_after mixed_world mixed_transfer_params))),
        snd (run_action (transfer mixed_world mixed_transfer_params) (transfer_success mixed_world ''bsc'')
                   (transfer_failure mixed_world (transfer_params_after mixed_world mixed_transfer_params))))
   \<and> captured (Some mixed_swap_match) 1 = Some ''1''
   \<and> json_string mixed_content ''inputToken'' = Some ''USDT''
   \<and> json_string mixed_content ''outputToken'' = Some ''BUSD''
   \<and> swapAction_handler mixed_world mixed_swap_message True =
       ([WalletInfo, UseModel, InitWalletProvider]
          @ fst (run_action (swap mixed_world mixed_swap_params) (swap_success mixed_world mixed_swap_params)
                   (swap_failure mixed_swap_params)),
        snd (run_action (swap mixed_world mixed_swap_params) (swap_success mixed_world mixed_swap_params)
                   (swap_failure mixed_swap_params)))
   \<and> captured (regexMatch (js mixed_world) BridgeRegex mixed_bridge_text) 3 = Some example_address
   \<and> json_string mixed_content ''toAddress'' = Some other_address
   \<and> bridgeAction_handler mixed_world mixed_bridge_message True =
       ([WalletInfo, UseModel, InitWalletProvider]
          @ fst (run_action (bridge mixed_world mixed_bridge_params) (bridge_success mixed_world) bridge_failure),
        snd (run_action (bridge mixed_world mixed_bridge_params) (bridge_success mixed_world) bridge_failure))"
proof -
  have st: "True \<or> composeState (runtime mixed_world) = Inr ()" by simp
  have um: "useModel (runtime mixed_world) = Inr (MObject mixed_content)"
    by (simp add: mixed_world_def)
  have iw: "initWalletProvider (runtime mixed_world) = Inr ()" by code_simp
  have wi: "True \<longrightarrow> walletInfo (runtime mixed_world) = Inr ()" by code_simp
  have pre: "[WalletInfo, UseModel, InitWalletProvider]
               = [if True then WalletInfo else ComposeState, UseModel, InitWalletProvider]"
    by simp
  have ch: "''bsc'' = (if is_string (mixed_content ''chain'') then toLowerCase (str_of (mixed_content ''chain''))
                       else ''bsc'')"
    by code_simp
  have pc: "parse_content mixed_world (MObject mixed_content) = PObject mixed_content"
    by (simp add: parse_content_def)
  have f1: "captured (regexMatch (js mixed_world) TransferRegex mixed_transfer_text) 1 = Some ''1''"
    "captured (regexMatch (js mixed_world) TransferRegex mixed_transfer_text) 2 = Some ''BNB''"
    "json_amount mixed_world mixed_content = Some ''2''"
    "json_string mixed_content ''token'' = Some ''USDC''"
    by code_simp+
  have f2: "captured (Some mixed_swap_match) 1 = Some ''1''"
    "json_string mixed_content ''inputToken'' = Some ''USDT''"
    "json_string mixed_content ''outputToken'' = Some ''BUSD''"
    by code_simp+
  have f3: "captured (regexMatch (js mixed_world) BridgeRegex mixed_bridge_text) 3 = Some example_address"
    "json_string mixed_content ''toAddress'' = Some other_address"
    by code_simp+

  have t_pt: "mixed_transfer_text = (case msg_text mixed_transfer_message of JStr s \<Rightarrow> trim s | _ \<Rightarrow> [])"
    by code_simp
  have t_tp: "mixed_transfer_params =
      \<lparr>t_chain = ''bsc'',
       t_token = first_available
           (map_option toUpperCase (captured (regexMatch (js mixed_world) TransferRegex mixed_transfer_text) 2))
           (json_string mixed_content ''token'') ''BNB'',
       t_amount = first_available (json_amount mixed_world mixed_content)
           (captured (regexMatch (js mixed_world) TransferRegex mixed_transfer_text) 1) [],
       t_toAddress = first_available
           (if is_string (mixed_content ''toAddress'') then Some (str_of (mixed_content ''toAddress'')) else None)
           (captured (regexMatch (js mixed_world) TransferRegex mixed_transfer_text) 3) [],
       t_data = t_data (transfer_handler_params mixed_world
                          (regexMatch (js mixed_world) TransferRegex mixed_transfer_text) mixed_content)\<rparr>"
    by code_simp
  note t = handlers_resolve_parameters[where w = mixed_world and c = mixed_content
      and msg = mixed_transfer_message,
      OF st um iw t_pt refl refl refl refl ch t_tp refl refl refl refl pre]
  have t_h: "(msg_source mixed_transfer_message = ''direct''
                \<or> msg_source mixed_transfer_message = ''client_chat:user'')
             \<and> transfer_content mixed_world (regexMatch (js mixed_world) TransferRegex mixed_transfer_text)
                 (MObject mixed_content) = PObject mixed_content"
    by (simp add: mixed_transfer_message_def transfer_content_def)
  note c1 = mp[OF conjunct1[OF t] t_h]

  have s_pt: "mixed_swap_text = (case msg_text mixed_swap_message of JStr s \<Rightarrow> trim s | _ \<Rightarrow> [])"
    by code_simp
  have s_sm: "Some mixed_swap_match =
      (case regexMatch (js mixed_world) BasicSwapRegex mixed_swap_text of
         Some gs \<Rightarrow> Some gs | None \<Rightarrow> regexMatch (js mixed_world) AdvancedSwapRegex mixed_swap_text)"
    by code_simp
  have s_sc: "captured (Some mixed_swap_match) =
      (\<lambda>i. case Some mixed_swap_match of None \<Rightarrow> None
            | Some gs \<Rightarrow> if 4 \<le> length gs then captured (Some mixed_swap_match) i else None)"
    by (simp add: mixed_swap_match_def)
  have s_ft: "''BNB'' = first_available
      (map_option toUpperCase (captured (Some mixed_swap_match) 2))
      (json_string mixed_content ''inputToken'') ''BNB''"
    by code_simp
  have s_sp: "mixed_swap_params =
      \<lparr>s_chain = ''bsc'',
       s_fromToken = ''BNB'',
       s_toToken = first_available
           (map_option toUpperCase (captured (Some mixed_swap_match) 3))
           (json_string mixed_content ''outputToken'')
           (case filter (\<lambda>token. token \<noteq> ''BNB''
                           \<and> regexMatch (js mixed_world) (TokenMention token) mixed_swap_text \<noteq> None)
                        [''USDC'', ''USDT'', ''BUSD''] of
              token # rest \<Rightarrow> token
            | [] \<Rightarrow> if ''BNB'' = ''BNB'' then ''USDC'' else ''BNB''),
       s_amount = first_available
           (captured (Some mixed_swap_match) 1)
           (json_amount mixed_world mixed_content) ''0.001'',
       s_slippage = s_slippage (swap_handler_params mixed_world mixed_swap_text mixed_content)\<rparr>"
    by code_simp
  note s = handlers_resolve_parameters[where w = mixed_world and c = mixed_content
      and msg = mixed_swap_message,
      OF st um iw s_pt refl s_sm s_sc refl ch refl s_ft s_sp refl refl pre]
  note c2 = mp[OF conjunct1[OF conjunct2[OF s]] pc]

  have b_pt: "mixed_bridge_text = (case msg_text mixed_bridge_message of JStr s \<Rightarrow> trim s | _ \<Rightarrow> [])"
    by code_simp
  have b_tk: "JStr ''USDT'' = first_available
      (map_option (\<lambda>t. JStr (toUpperCase t)) (captured (regexMatch (js mixed_world) BridgeRegex mixed_bridge_text) 2))
      (if truthy (mixed_content ''fromToken'') then Some (mixed_content ''fromToken'') else None) JUndefined"
    by code_simp
  have b_bp: "mixed_bridge_params =
      \<lparr>b_fromChain = bridge_handler_fromChain mixed_bridge_text mixed_content,
       b_toChain = bridge_handler_toChain mixed_bridge_text mixed_content,
       b_fromToken = (case JStr ''USDT'' of
                        JStr s \<Rightarrow> if startsWith s ''0x'' then Some s else None | _ \<Rightarrow> None),
       b_toToken = (case mixed_content ''toToken'' of
                      JStr s \<Rightarrow> if startsWith s ''0x'' then Some s else None | _ \<Rightarrow> None),
       b_amount = first_available (captured (regexMatch (js mixed_world) BridgeRegex mixed_bridge_text) 1)
           (json_amount mixed_world mixed_content) ''0.001'',
       b_toAddress = first_available
           (case captured (regexMatch (js mixed_world) BridgeRegex mixed_bridge_text) 3 of
              Some a \<Rightarrow> if startsWith a ''0x'' then Some (Some a) else None | None \<Rightarrow> None)
           (case json_string mixed_content ''toAddress'' of
              Some a \<Rightarrow> if startsWith a ''0x'' then Some (Some a) else None | None \<Rightarrow> None)
           None\<rparr>"
    by code_simp
  note b = handlers_resolve_parameters[where w = mixed_world and c = mixed_content
      and msg = mixed_bridge_message,
      OF st um iw b_pt refl refl refl refl ch refl refl refl b_tk b_bp pre]
  have b_s: "string_or_absent (mixed_content ''fromToken'') \<and> string_or_absent (mixed_content ''toToken'')
             \<and> string_or_absent (mixed_content ''toAddress'')
             \<and> \<not> (b_fromChain mixed_bridge_params = ''bsc'' \<and> truthy (JStr ''USDT'')
                    \<and> JStr ''USDT'' \<noteq> JStr ''BNB'' \<and> \<not> truthy (mixed_content ''toToken''))"
    by code_simp
  note c3 = mp[OF conjunct2[OF conjunct2[OF b]] conjI[OF pc conjI[OF wi b_s]]]
  from f1 c1 f2 c2 f3 c3 show ?thesis
    by (intro conjI)
qed

text \<open>
  Claim C1 as stated fails for the amount of a transfer. The transfer pattern matches the
  text and captures the amount \<^verbatim>\<open>1\<close>; the JSON holds the amount \<^verbatim>\<open>2\<close>; the handler transfers
  2 BNB.
\<close>

theorem transfer_amount_of_json_beats_text:
  "regexMatch (js conflict_world) TransferRegex (promptText_of conflict_message) = Some conflict_match
   \<and> captured (Some conflict_match) 1 = Some ''1''
   \<and> conflict_content ''amount'' = JStr ''2''
   \<and> t_amount (transfer_handler_params conflict_world (Some conflict_match) conflict_content) = ''2''
   \<and> Transfer ''bsc'' example_address 2000000000000000000 \<lparr>gas = None, gasPrice = None, data = None\<rparr>
       \<in> set (fst (transferAction_handler conflict_world conflict_message True))"
  by code_simp

section \<open>Errors at the handler boundary\<close>

lemma reports_failure_snoc: "reports_failure (t @ [Callback r]) = error_report r"
  by (simp add: reports_failure_def)

lemma reports_failure_append: "reports_failure t \<Longrightarrow> reports_failure (s @ t)"
  by (cases t rule: rev_cases) (auto simp: reports_failure_def split: list.splits call.splits)

lemma handled_run_action:
  assumes "\<And>e. error_report (failure e)"
  shows "handled (run_action act success failure)"
  unfolding run_action_eq handled_def
  by (cases "snd act") (simp_all add: reports_failure_snoc assms)

lemma handled_after: "handled m \<Longrightarrow> handled (pre @ fst m, snd m)"
  by (auto simp: handled_def reports_failure_append split: sum.splits)

lemma transfer_failure_report: "error_report (transfer_failure w p e)"
  by (simp add: error_report_def transfer_failure_def Let_def)

lemma swap_failure_report: "error_report (swap_failure p e)"
  by (simp add: error_report_def swap_failure_def)

lemma bridge_failure_report: "error_report (bridge_failure e)"
  by (simp add: error_report_def bridge_failure_def)

lemma wallet_failure_report: "error_report (wallet_failure e)"
  by (simp add: error_report_def wallet_failure_def)

lemma missing_destination_report: "error_report missing_destination_response"
  by (simp add: error_report_def missing_destination_response_def)

lemma handled_refusal: "error_report r \<Longrightarrow> handled (io_bind (callback r) (\<lambda>_. io_return False))"
  unfolding handled_def
  by (simp add: callback_def io_call_def io_bind_Inr io_return_def reports_failure_def)

lemma transfer_handled:
  assumes "state_given \<or> composeState (runtime w) = Inr ()"
    and "useModel (runtime w) = Inr out"
    and "transfer_content w (regexMatch (js w) TransferRegex (promptText_of msg)) out = PObject c"
    and "initWalletProvider (runtime w) = Inr ()"
  shows "handled (transferAction_handler w msg state_given)"
proof (cases "msg_source msg = ''direct'' \<or> msg_source msg = ''client_chat:user''")
  case False
  then show ?thesis
    unfolding transferAction_handler_def Let_def
    by (simp add: handled_refusal error_report_def)
next
  case True
  show ?thesis
    unfolding transfer_handler_runs[OF True assms refl refl]
    by (intro handled_after handled_run_action transfer_failure_report)
qed

lemma swap_handled:
  assumes "state_given \<or> composeState (runtime w) = Inr ()"
    and "useModel (runtime w) = Inr out"
    and "parse_content w out = PObject c"
    and "initWalletProvider (runtime w) = Inr ()"
  shows "handled (swapAction_handler w msg state_given)"
  unfolding swap_handler_runs[OF assms refl refl]
  by (intro handled_after handled_run_action swap_failure_report)

text \<open>With fields that are strings or absent, no \<^verbatim>\<open>startsWith\<close> of the bridge handler fails.\<close>

lemma token_address_string: "string_or_absent v \<Longrightarrow> \<exists>a. token_address v = Inr a"
  by (cases v) (simp_all add: string_or_absent_def token_address_def js_startsWith_0x_def)

lemma bridge_toAddress_string:
  "string_or_absent (content ''toAddress'') \<Longrightarrow> \<exists>a. bridge_handler_toAddress m content = Inr a"
  by (cases "content ''toAddress''")
     (simp_all add: string_or_absent_def bridge_handler_toAddress_def js_startsWith_0x_def
        convertNullStringToUndefined_def)

lemma bridge_params_string:
  assumes "string_or_absent (content ''fromToken'')" and "string_or_absent (content ''toToken'')"
  shows "\<exists>p. bridge_handler_params (bridge_resolve w promptText content) a = Inr p"
proof -
  have "string_or_absent (bridge_handler_fromToken m content)" for m
    using assms(1)
    by (cases "content ''fromToken''")
       (simp_all add: bridge_handler_fromToken_def convertNullStringToUndefined_def string_or_absent_def)
  from token_address_string[OF this]
  obtain x where x: "token_address (bridge_handler_fromToken (regexMatch (js w) BridgeRegex promptText) content) = Inr x"
    by blast
  have "string_or_absent (bridge_handler_toToken content)"
    using assms(2)
    by (cases "content ''toToken''")
       (simp_all add: bridge_handler_toToken_def convertNullStringToUndefined_def string_or_absent_def)
  from token_address_string[OF this]
  obtain y where y: "token_address (bridge_handler_toToken content) = Inr y" by blast
  show ?thesis
    by (simp add: bridge_handler_params_def bridge_resolve_def Let_def x y)
qed

lemma bridge_body_handled:
  assumes "initWalletProvider (runtime w) = Inr ()"
    and "r_toAddress r = Inr a"
    and "bridge_handler_params r a = Inr p"
  shows "handled (bridge_handler_body w r)"
proof (cases "missing_destination_token r")
  case True
  then show ?thesis unfolding bridge_handler_body_def
    by (simp add: handled_refusal missing_destination_report)
next
  case False
  have "bridge_handler_body w r =
          ([InitWalletProvider] @ fst (run_action (bridge w p) (bridge_success w) bridge_failure),
           snd (run_action (bridge w p) (bridge_success w) bridge_failure))"
    using False assms
    by (simp add: bridge_handler_body_def io_lift_def io_bind_Inr io_call_def)
  then show ?thesis
    by (simp only: handled_after[OF handled_run_action[OF bridge_failure_report]])
qed

lemma bridge_handled:
  assumes "state_given \<or> composeState (runtime w) = Inr ()"
    and "useModel (runtime w) = Inr out"
    and "parse_content w out = PObject c"
    and "initWalletProvider (runtime w) = Inr ()"
    and "string_or_absent (c ''fromToken'')"
    and "string_or_absent (c ''toToken'')"
    and "string_or_absent (c ''toAddress'')"
  shows "handled (bridgeAction_handler w msg state_given)"
proof (cases "state_given \<and> (\<exists>e. walletInfo (runtime w) = Inl e)")
  case True
  then obtain e where e: "walletInfo (runtime w) = Inl e" and s: state_given by blast
  show ?thesis
    unfolding bridge_handler_wallet_failure[OF s e]
    by (simp add: handled_def reports_failure_def wallet_failure_report)
next
  case False
  then have wi: "state_given \<longrightarrow> walletInfo (runtime w) = Inr ()"
    by (cases "walletInfo (runtime w)") auto
  define r where "r = bridge_resolve w (promptText_of msg) c"
  obtain a where a: "r_toAddress r = Inr a"
    using bridge_toAddress_string[where content = c, OF assms(7)]
    by (auto simp: r_def bridge_resolve_def Let_def)
  obtain p where p: "bridge_handler_params r a = Inr p"
    using bridge_params_string[where content = c, OF assms(5,6)]
    unfolding r_def by blast
  show ?thesis
    unfolding bridge_handler_enters_body[OF assms(1) wi assms(2,3) refl]
    by (intro handled_after bridge_body_handled[OF assms(4) a[unfolded r_def] p[unfolded r_def]])
qed

lemma run_action_failure:
  "snd act = Inl x \<Longrightarrow>
   run_action act success failure = (fst act @ [Callback (failure x)], Inr False)"
  by (simp add: run_action_eq)

text \<open>
  Claim C9, as amended. Suppose that the calls a handler awaits outside its \<^verbatim>\<open>try\<close> block
  return: \<^verbatim>\<open>composeState\<close> (awaited only when no state is passed), \<^verbatim>\<open>useModel\<close> and
  \<^verbatim>\<open>initWalletProvider\<close>, and that the model output parses to a value that is not \<^verbatim>\<open>null\<close>.
  Then the transfer handler and the swap handler return a boolean, and when the boolean is
  \<^verbatim>\<open>false\<close> the last call made is the callback, with a message and a string \<^verbatim>\<open>error\<close> entry in
  the content. The same holds of the bridge handler when, in addition, the JSON fields
  \<^verbatim>\<open>fromToken\<close>, \<^verbatim>\<open>toToken\<close> and \<^verbatim>\<open>toAddress\<close> are strings or absent. Whatever \<^verbatim>\<open>transfer\<close>,
  \<^verbatim>\<open>swap\<close> or \<^verbatim>\<open>bridge\<close> throws is caught: the handler then ends with the callback of its
  failure response for that error and returns \<^verbatim>\<open>false\<close>. When \<^verbatim>\<open>useModel\<close> throws, or its
  output is \<^verbatim>\<open>null\<close>, each handler (the transfer handler for an allowed source, the bridge
  handler after it has read the wallet info) throws in turn, the error of the model or the
  \<^verbatim>\<open>TypeError\<close> of the first read of the content, after the model call and without a call of
  the callback.
\<close>

theorem handlers_catch_what_the_action_throws:
  assumes "state_given \<or> composeState (runtime w) = Inr ()"
    and "allowed = (msg_source msg = ''direct'' \<or> msg_source msg = ''client_chat:user'')"
    and "wallet_read = (state_given \<longrightarrow> walletInfo (runtime w) = Inr ())"
    and "tc = transfer_content w (regexMatch (js w) TransferRegex (promptText_of msg)) out"
    and "pre = [if state_given then WalletInfo else ComposeState, UseModel]"
    and "tp = transfer_handler_params w (regexMatch (js w) TransferRegex (promptText_of msg)) c"
    and "sp = swap_handler_params w (promptText_of msg) c"
    and "r = bridge_resolve w (promptText_of msg) c"
  shows "(useModel (runtime w) = Inr out \<and> initWalletProvider (runtime w) = Inr () \<longrightarrow>
            (tc = PObject c \<longrightarrow> handled (transferAction_handler w msg state_given))
          \<and> (parse_content w out = PObject c \<longrightarrow> handled (swapAction_handler w msg state_given))
          \<and> (parse_content w out = PObject c
               \<and> string_or_absent (c ''fromToken'') \<and> string_or_absent (c ''toToken'')
               \<and> string_or_absent (c ''toAddress'')
              \<longrightarrow> handled (bridgeAction_handler w msg state_given)))
       \<and> (useModel (runtime w) = Inr out \<and> initWalletProvider (runtime w) = Inr () \<longrightarrow>
            (allowed \<and> tc = PObject c \<and> snd (transfer w tp) = Inl x \<longrightarrow>
               transferAction_handler w msg state_given =
                 (pre @ InitWalletProvider # fst (transfer w tp)
                    @ [Callback (transfer_failure w (transfer_params_after w tp) x)], Inr False))
          \<and> (parse_content w out = PObject c \<and> snd (swap w sp) = Inl x \<longrightarrow>
               swapAction_handler w msg state_given =
                 (pre @ InitWalletProvider # fst (swap w sp) @ [Callback (swap_failure sp x)], Inr False))
          \<and> (wallet_read \<and> parse_content w out = PObject c \<and> \<not> missing_destination_token r
               \<and> r_toAddress r = Inr a \<and> bridge_handler_params r a = Inr bp
               \<and> snd (bridge w bp) = Inl x \<longrightarrow>
               bridgeAction_handler w msg state_given =
                 (pre @ InitWalletProvider # fst (bridge w bp) @ [Callback (bridge_failure x)], Inr False)))
       \<and> (useModel (runtime w) = Inl e \<longrightarrow>
            (allowed \<longrightarrow> transferAction_handler w msg state_given = (pre, Inl e))
          \<and> swapAction_handler w msg state_given = (pre, Inl e)
          \<and> (wallet_read \<longrightarrow> bridgeAction_handler w msg state_given = (pre, Inl e)))
       \<and> (useModel (runtime w) = Inr out \<longrightarrow>
            (allowed \<and> tc = PNull \<longrightarrow>
               transferAction_handler w msg state_given = (pre, Inl (cannot_read ''chain'')))
          \<and> (parse_content w out = PNull \<longrightarrow>
               swapAction_handler w msg state_given = (pre, Inl (cannot_read ''chain'')))
          \<and> (wallet_read \<and> parse_content w out = PNull \<longrightarrow>
               bridgeAction_handler w msg state_given
                 = (pre, Inl (cannot_read (bridge_first_read w (promptText_of msg))))))"
proof (intro conjI impI)
  {
    assume h: "useModel (runtime w) = Inr out \<and> initWalletProvider (runtime w) = Inr ()"
    then have um: "useModel (runtime w) = Inr out" and iw: "initWalletProvider (runtime w) = Inr ()"
      by simp_all
    {
      assume "tc = PObject c"
      then show "handled (transferAction_handler w msg state_given)"
        unfolding assms(4) by (rule transfer_handled[OF assms(1) um _ iw])
    }
    {
      assume "parse_content w out = PObject c"
      then show "handled (swapAction_handler w msg state_given)"
        by (rule swap_handled[OF assms(1) um _ iw])
    }
    {
      assume b: "parse_content w out = PObject c
               \<and> string_or_absent (c ''fromToken'') \<and> string_or_absent (c ''toToken'')
               \<and> string_or_absent (c ''toAddress'')"
      show "handled (bridgeAction_handler w msg state_given)"
        by (rule bridge_handled[where c = c, OF assms(1) um _ iw]) (use b in simp_all)
    }
  }
  {
    assume h: "useModel (runtime w) = Inr out \<and> initWalletProvider (runtime w) = Inr ()"
    then have um: "useModel (runtime w) = Inr out" and iw: "initWalletProvider (runtime w) = Inr ()"
      by simp_all
    {
      assume t: "allowed \<and> tc = PObject c \<and> snd (transfer w tp) = Inl x"
      then have a: "msg_source msg = ''direct'' \<or> msg_source msg = ''client_chat:user''"
        and ct: "transfer_content w (regexMatch (js w) TransferRegex (promptText_of msg)) out = PObject c"
        and th: "snd (transfer w tp) = Inl x"
        unfolding assms(2,4) by simp_all
      show "transferAction_handler w msg state_given =
                 (pre @ InitWalletProvider # fst (transfer w tp)
                    @ [Callback (transfer_failure w (transfer_params_after w tp) x)], Inr False)"
        unfolding transfer_handler_runs[OF a assms(1) um ct iw assms(6) refl] run_action_failure[OF th]
        by (simp add: assms(5))
    }
    {
      assume t: "parse_content w out = PObject c \<and> snd (swap w sp) = Inl x"
      then have ct: "parse_content w out = PObject c" and th: "snd (swap w sp) = Inl x"
        by simp_all
      show "swapAction_handler w msg state_given =
                 (pre @ InitWalletProvider # fst (swap w sp) @ [Callback (swap_failure sp x)], Inr False)"
        unfolding swap_handler_runs[OF assms(1) um ct iw assms(7) refl] run_action_failure[OF th]
        by (simp add: assms(5))
    }
    {
      assume t: "wallet_read \<and> parse_content w out = PObject c \<and> \<not> missing_destination_token r
               \<and> r_toAddress r = Inr a \<and> bridge_handler_params r a = Inr bp
               \<and> snd (bridge w bp) = Inl x"
      then have wr: "state_given \<longrightarrow> walletInfo (runtime w) = Inr ()"
        and ct: "parse_content w out = PObject c" and nm: "\<not> missing_destination_token r"
        and ta: "r_toAddress r = Inr a" and pp: "bridge_handler_params r a = Inr bp"
        and th: "snd (bridge w bp) = Inl x"
        unfolding assms(3) by simp_all
      have body: "bridge_handler_body w r =
                    ([InitWalletProvider] @ fst (bridge w bp) @ [Callback (bridge_failure x)], Inr False)"
        using nm ta pp iw
        by (simp add: bridge_handler_body_def io_lift_def io_bind_Inr io_call_def run_action_failure[OF th])
      show "bridgeAction_handler w msg state_given =
                 (pre @ InitWalletProvider # fst (bridge w bp) @ [Callback (bridge_failure x)], Inr False)"
        unfolding bridge_handler_enters_body[OF assms(1) wr um ct refl] body[unfolded assms(8)]
        by (simp add: assms(5))
    }
  }
  {
    assume um: "useModel (runtime w) = Inl e"
    {
      assume allowed
      then show "transferAction_handler w msg state_given = (pre, Inl e)"
        unfolding assms(2,5) by (rule transfer_handler_model_throws[OF _ assms(1) um])
    }
    show "swapAction_handler w msg state_given = (pre, Inl e)"
      unfolding assms(5) by (rule swap_handler_model_throws[OF assms(1) um])
    {
      assume wallet_read
      then show "bridgeAction_handler w msg state_given = (pre, Inl e)"
        unfolding assms(3,5) by (rule bridge_handler_model_throws[OF assms(1) _ um])
    }
  }
  {
    assume um: "useModel (runtime w) = Inr out"
    {
      assume "allowed \<and> tc = PNull"
      then have a: "msg_source msg = ''direct'' \<or> msg_source msg = ''client_chat:user''"
        and n: "transfer_content w (regexMatch (js w) TransferRegex (promptText_of msg)) out = PNull"
        unfolding assms(2,4) by simp_all
      show "transferAction_handler w msg state_given = (pre, Inl (cannot_read ''chain''))"
        unfolding assms(5) by (rule transfer_handler_null_throws[OF a assms(1) um n])
    }
    {
      assume n: "parse_content w out = PNull"
      show "swapAction_handler w msg state_given = (pre, Inl (cannot_read ''chain''))"
        unfolding assms(5) by (rule swap_handler_null_throws[OF assms(1) um n])
    }
    {
      assume "wallet_read \<and> parse_content w out = PNull"
      then have wr: "state_given \<longrightarrow> walletInfo (runtime w) = Inr ()"
        and n: "parse_content w out = PNull"
        unfolding assms(3) by simp_all
      show "bridgeAction_handler w msg state_given
                 = (pre, Inl (cannot_read (bridge_first_read w (promptText_of msg))))"
        unfolding assms(5) by (rule bridge_handler_null_throws[OF assms(1) wr um n])
    }
  }
qed

text \<open>
  The theorem at three requests that the wallet, the router and the chain refuse: each
  handler returns \<^verbatim>\<open>false\<close> after its report of the error thrown. And at a model that
  answers \<^verbatim>\<open>null\<close>: each handler throws the \<^verbatim>\<open>TypeError\<close>.
\<close>

theorem handlers_catch_what_the_action_throws_witness:
  "useModel (runtime failing_world) = Inr (MObject mixed_content)
   \<and> initWalletProvider (runtime failing_world) = Inr ()
   \<and> handled (transferAction_handler failing_world mixed_transfer_message True)
   \<and> handled (swapAction_handler failing_world mixed_swap_message True)
   \<and> handled (bridgeAction_handler failing_world mixed_bridge_message True)
   \<and> snd (transfer failing_world mixed_transfer_params) = Inl ''insufficient funds for transfer''
   \<and> transferAction_handler failing_world mixed_transfer_message True =
       ([WalletInfo, UseModel] @ InitWalletProvider # fst (transfer failing_world mixed_transfer_params)
          @ [Callback (transfer_failure failing_world
                         (transfer_params_after failing_world mixed_transfer_params)
                         ''insufficient funds for transfer'')],
        Inr False)
   \<and> snd (swap failing_world mixed_swap_params) = Inl ''No routes found''
   \<and> swapAction_handler failing_world mixed_swap_message True =
       ([WalletInfo, UseModel] @ InitWalletProvider # fst (swap failing_world mixed_swap_params)
          @ [Callback (swap_failure mixed_swap_params ''No routes found'')],
        Inr False)
   \<and> bridgeAction_handler failing_world mixed_bridge_message True =
       ([WalletInfo, UseModel] @ InitWalletProvider # fst (bridge failing_world mixed_bridge_params)
          @ [Callback (bridge_failure
               ''Bridge transaction reverted. This could be due to contract restrictions or incorrect parameters.'')],
        Inr False)
   \<and> useModel (runtime null_world) = Inr MNull
   \<and> transferAction_handler null_world mixed_transfer_message True
       = ([WalletInfo, UseModel], Inl (cannot_read ''chain''))
   \<and> swapAction_handler null_world mixed_swap_message True
       = ([WalletInfo, UseModel], Inl (cannot_read ''chain''))
   \<and> bridgeAction_handler null_world mixed_bridge_message True
       = ([WalletInfo, UseModel], Inl (cannot_read ''toToken''))"
proof -
  have st: "True \<or> composeState (runtime w) = Inr ()" for w by simp
  have pre: "[WalletInfo, UseModel] = [if True then WalletInfo else ComposeState, UseModel]" by simp
  have um: "useModel (runtime failing_world) = Inr (MObject mixed_content)"
    by (simp add: failing_world_def mixed_world_def)
  have iw: "initWalletProvider (runtime failing_world) = Inr ()" by code_simp
  have tc: "transfer_content w m (MObject mixed_content) = PObject mixed_content" for w m
    by (simp add: transfer_content_def)
  have pc: "parse_content w (MObject mixed_content) = PObject mixed_content" for w
    by (simp add: parse_content_def)
  have so: "string_or_absent (mixed_content ''fromToken'') \<and> string_or_absent (mixed_content ''toToken'')
            \<and> string_or_absent (mixed_content ''toAddress'')"
    by code_simp
  have tp: "mixed_transfer_params = transfer_handler_params failing_world
              (regexMatch (js failing_world) TransferRegex (promptText_of mixed_transfer_message)) mixed_content"
    by code_simp
  have sp: "mixed_swap_params = swap_handler_params failing_world (promptText_of mixed_swap_message) mixed_content"
    by code_simp
  have al: "msg_source mixed_transfer_message = ''direct'' \<or> msg_source mixed_transfer_message = ''client_chat:user''"
    by (simp add: mixed_transfer_message_def)
  have wf: "True \<longrightarrow> walletInfo (runtime failing_world) = Inr ()" by code_simp
  note t = handlers_catch_what_the_action_throws[where w = failing_world and msg = mixed_transfer_message
      and out = "MObject mixed_content" and c = mixed_content
      and x = "''insufficient funds for transfer''", OF st refl refl refl pre tp refl refl]
  note s = handlers_catch_what_the_action_throws[where w = failing_world and msg = mixed_swap_message
      and out = "MObject mixed_content" and c = mixed_content
      and x = "''No routes found''", OF st refl refl refl pre refl sp refl]
  note b = handlers_catch_what_the_action_throws[where w = failing_world and msg = mixed_bridge_message
      and out = "MObject mixed_content" and c = mixed_content and a = "Some example_address"
      and bp = mixed_bridge_params
      and x = "''Bridge transaction reverted. This could be due to contract restrictions or incorrect parameters.''",
      OF st refl refl refl pre refl refl refl]
  note c1 = mp[OF conjunct1[OF mp[OF conjunct1[OF t] conjI[OF um iw]]] tc]
  note c2 = mp[OF conjunct1[OF conjunct2[OF mp[OF conjunct1[OF s] conjI[OF um iw]]]] pc]
  note c3 = mp[OF conjunct2[OF conjunct2[OF mp[OF conjunct1[OF b] conjI[OF um iw]]]] conjI[OF pc so]]
  have e1: "snd (transfer failing_world mixed_transfer_params) = Inl ''insufficient funds for transfer''"
    by code_simp
  have e2: "snd (swap failing_world mixed_swap_params) = Inl ''No routes found''"
    by code_simp
  have e3: "\<not> missing_destination_token (bridge_resolve failing_world (promptText_of mixed_bridge_message) mixed_content)
            \<and> r_toAddress (bridge_resolve failing_world (promptText_of mixed_bridge_message) mixed_content)
                = Inr (Some example_address)
            \<and> bridge_handler_params (bridge_resolve failing_world (promptText_of mixed_bridge_message) mixed_content)
                (Some example_address) = Inr mixed_bridge_params
            \<and> snd (bridge failing_world mixed_bridge_params)
                = Inl ''Bridge transaction reverted. This could be due to contract restrictions or incorrect parameters.''"
    by code_simp
  note f1 = mp[OF conjunct1[OF mp[OF conjunct1[OF conjunct2[OF t]] conjI[OF um iw]]]
                conjI[OF al conjI[OF tc e1]]]
  note f2 = mp[OF conjunct1[OF conjunct2[OF mp[OF conjunct1[OF conjunct2[OF s]] conjI[OF um iw]]]]
                conjI[OF pc e2]]
  note f3 = mp[OF conjunct2[OF conjunct2[OF mp[OF conjunct1[OF conjunct2[OF b]] conjI[OF um iw]]]]
                conjI[OF wf conjI[OF pc e3]]]
  have un: "useModel (runtime null_world) = Inr MNull"
    by (simp add: null_world_def)
  have wr: "True \<longrightarrow> walletInfo (runtime null_world) = Inr ()" by code_simp
  have tn: "transfer_content w m MNull = PNull" for w m
    by (simp add: transfer_content_def)
  have pn: "parse_content w MNull = PNull" for w
    by (simp add: parse_content_def)
  have fr: "bridge_first_read null_world (promptText_of mixed_bridge_message) = ''toToken''"
    by code_simp
  note nt = handlers_catch_what_the_action_throws[where w = null_world and msg = mixed_transfer_message
      and out = MNull, OF st refl refl refl pre refl refl refl]
  note ns = handlers_catch_what_the_action_throws[where w = null_world and msg = mixed_swap_message
      and out = MNull, OF st refl refl refl pre refl refl refl]
  note nb = handlers_catch_what_the_action_throws[where w = null_world and msg = mixed_bridge_message
      and out = MNull, OF st refl refl refl pre refl refl refl]
  note n1 = mp[OF conjunct1[OF mp[OF conjunct2[OF conjunct2[OF conjunct2[OF nt]]] un]] conjI[OF al tn]]
  note n2 = mp[OF conjunct1[OF conjunct2[OF mp[OF conjunct2[OF conjunct2[OF conjunct2[OF ns]]] un]]] pn]
  note n3 = mp[OF conjunct2[OF conjunct2[OF mp[OF conjunct2[OF conjunct2[OF conjunct2[OF nb]]] un]]]
                conjI[OF wr pn], unfolded fr]
  from um iw c1 c2 c3 e1 f1 e2 f2 f3 un n1 n2 n3 show ?thesis
    by (intro conjI)
qed

text \<open>
  Claim C9 as stated fails: the model call is awaited before the \<^verbatim>\<open>try\<close> block, so when it
  throws, each of the three handlers throws the same error and calls no callback.
\<close>

theorem handler_propagates_model_failure:
  "transferAction_handler model_down_world conflict_message True
     = ([WalletInfo, UseModel], Inl ''model unavailable'')
   \<and> swapAction_handler model_down_world conflict_message True
     = ([WalletInfo, UseModel], Inl ''model unavailable'')
   \<and> bridgeAction_handler model_down_world conflict_message True
     = ([WalletInfo, UseModel], Inl ''model unavailable'')"
  by code_simp

section \<open>A bridge of a token named by its symbol\<close>

lemma run_action_trace: "\<exists>resp. fst (run_action act success failure) = fst act @ [Callback resp]"
proof -
  obtain t r where a: "act = (t, r)" by (cases act)
  show ?thesis
  proof (cases r)
    case (Inl e)
    then show ?thesis unfolding a run_action_def
      by (simp add: io_bind_Inl io_catch_Inl io_bind_Inr callback_def io_call_def io_return_def)
  next
    case (Inr x)
    then show ?thesis unfolding a run_action_def
      by (simp add: io_bind_Inr io_catch_Inr callback_def io_call_def io_return_def)
  qed
qed

lemma bridge_validate_native:
  assumes "bridge_validateAndNormalizeParams w p0 = Inr p" and "b_fromToken p0 = None"
  shows "b_fromToken p = None \<and> b_toAddress p = b_toAddress p0 \<and> b_amount p = b_amount p0"
  using assms
  by (auto simp: bridge_validateAndNormalizeParams_def Let_def split: if_splits)

lemma simulate_then_write_trace:
  "fst (simulate_then_write w c) =
     SimulateContract c # (case simulateContract (client w) c of Inl e \<Rightarrow> [] | Inr u \<Rightarrow> [WriteContract c])"
  by (cases "simulateContract (client w) c")
     (simp_all add: simulate_then_write_def io_call_def io_bind_Inl io_bind_Inr)

lemma bridge_native_trace:
  assumes v: "bridge_validateAndNormalizeParams w p0 = Inr p"
    and nat: "nativeTokenBridge_of p"
    and amt: "parseEther w (b_amount p) = Inr amount"
    and fee: "b_fromChain p = ''opBNB'' \<longrightarrow> delegationFee (client w) = Inr fee"
    and c: "c = (if b_fromChain p = ''bsc'' then l1_deposit_call p (b_toAddress p = None) True amount
                 else l2_withdraw_call p True amount fee)"
  shows "filter is_transaction_step (fst (bridge w p0)) =
           SimulateContract c # (case simulateContract (client w) c of Inl e \<Rightarrow> [] | Inr u \<Rightarrow> [WriteContract c])"
proof -
  have sup: "isSupported (b_fromChain p) (b_toChain p)"
    using v by (rule bridge_validate_supported)
  have am: "bridge_amount w p True = ([], Inr amount)"
    using amt by (simp add: bridge_amount_def io_lift_def)
  have steps: "filter is_transaction_step (fst (simulate_then_write w c)) = fst (simulate_then_write w c)"
    unfolding simulate_then_write_trace by (cases "simulateContract (client w) c") simp_all
  note b = bridge_trace_after_validation[OF v]
  show ?thesis
  proof (cases "b_fromChain p = ''bsc''")
    case True
    then have to: "b_toChain p = ''opBNB''" using sup by (simp add: isSupported_def)
    have l1: "bridge_l1 w p (b_toAddress p = None) True amount = simulate_then_write w c"
      using True c by (simp add: bridge_l1_def io_return_def io_bind_Inr)
    have "fst (bridge w p0) = SwitchChain (b_fromChain p) # fst (simulate_then_write w c)"
      unfolding b using nat am True to l1
      by (simp add: io_call_def io_bind_Inr fst_bind_return)
    then show ?thesis using steps by (simp add: simulate_then_write_trace)
  next
    case False
    then have fr: "b_fromChain p = ''opBNB''" and to: "b_toChain p = ''bsc''"
      using sup by (auto simp add: isSupported_def)
    have l2: "fst (bridge_l2 w p True amount) = ReadContract delegationFee_call # fst (simulate_then_write w c)"
      using False fr c fee by (simp add: bridge_l2_def io_return_def io_bind_Inr io_call_def)
    have "fst (bridge w p0) = SwitchChain (b_fromChain p) # fst (bridge_l2 w p True amount)"
      unfolding b using nat am fr to
      by (simp add: io_call_def io_bind_Inr fst_bind_return)
    then show ?thesis unfolding l2 using steps by (simp add: simulate_then_write_trace)
  qed
qed

lemma missing_destination_of_symbol:
  assumes "r_fromToken r = JStr s" and "s \<noteq> []" and "s \<noteq> ''BNB''"
  shows "missing_destination_token r = (r_fromChain r = ''bsc'' \<and> \<not> truthy (r_toToken r))"
  using assms by (simp add: missing_destination_token_def)

lemma bridge_params_of_symbol:
  assumes "r_fromToken r = JStr s" and "\<not> startsWith s ''0x''" and "token_address (r_toToken r) = Inr t"
  shows "bridge_handler_params r a =
           Inr \<lparr>b_fromChain = r_fromChain r, b_toChain = r_toChain r, b_fromToken = None,
                b_toToken = t, b_amount = r_amount r, b_toAddress = a\<rparr>"
  using assms by (simp add: bridge_handler_params_def token_address_def js_startsWith_0x_def)

lemma bridge_body_runs_bridge:
  assumes "\<not> missing_destination_token r" and "r_toAddress r = Inr a"
    and "initWalletProvider (runtime w) = Inr ()" and "bridge_handler_params r a = Inr p"
  shows "bridge_handler_body w r =
           io_bind (io_call InitWalletProvider (Inr ()))
             (\<lambda>_. run_action (bridge w p) (bridge_success w) bridge_failure)"
  using assms by (simp add: bridge_handler_body_def io_lift_def io_bind_Inr)

lemma native_deposit_explicit:
  assumes "b_toAddress p = a"
  shows "l1_deposit_call p (b_toAddress p = None) True amount =
           (case a of
              None \<Rightarrow>
                \<lparr>address = ''0xF05F0e4362859c3331Cb9395CBC201E3Fa6757Ea'', functionName = ''depositETH'',
                 args = [AInt 1, AStr ''0x''], callValue = Some amount\<rparr>
            | Some recipient \<Rightarrow>
                \<lparr>address = ''0xF05F0e4362859c3331Cb9395CBC201E3Fa6757Ea'', functionName = ''depositETHTo'',
                 args = [AStr recipient, AInt 1, AStr ''0x''], callValue = Some amount\<rparr>)"
  using assms
  by (cases a) (simp_all add: l1_deposit_call_def L1_BRIDGE_ADDRESS_def)

lemma native_withdraw_explicit:
  "l2_withdraw_call p True amount fee =
     \<lparr>address = ''0x4000698e3De52120DE28181BaACda82B21568416'', functionName = ''withdraw'',
      args = [AStr ''0xDeadDeAddeAddEAddeadDEaDDEAdDeaDDeAD0000'', AInt amount, AInt 1, AStr ''0x''],
      callValue = Some (amount + fee)\<rparr>"
  by (simp add: l2_withdraw_call_def L2_BRIDGE_ADDRESS_def LEGACY_ERC20_ETH_def)

text \<open>
  Claim C10. Take a bridge request whose model output parses to an object, and let the
  token the handler resolves from the text and the JSON be a symbol other than \<^verbatim>\<open>BNB\<close>: a
  non-empty string that does not start with \<^verbatim>\<open>0x\<close>. When the source chain is \<^verbatim>\<open>bsc\<close> and no
  destination token was resolved, the handler reports the missing destination token and
  returns \<^verbatim>\<open>false\<close> without calling \<^verbatim>\<open>bridge\<close>. In every other case it calls \<^verbatim>\<open>bridge\<close> with
  \<^verbatim>\<open>fromToken\<close> undefined and the requested amount; when validation accepts these
  parameters, the executor takes the bridge for one of the native token, and the only
  contract it simulates and writes is, from \<^verbatim>\<open>bsc\<close>, \<^verbatim>\<open>depositETH(1, "0x")\<close> (or
  \<^verbatim>\<open>depositETHTo(recipient, 1, "0x")\<close>) on the L1 bridge with the parsed amount as value,
  and, from \<^verbatim>\<open>opBNB\<close>, \<^verbatim>\<open>withdraw\<close> of the amount of the legacy native token on the L2 bridge
  with the amount plus the delegation fee as value.
\<close>

theorem bridge_of_token_symbol_is_native:
  assumes "state_given \<or> composeState (runtime w) = Inr ()"
    and "state_given \<longrightarrow> walletInfo (runtime w) = Inr ()"
    and "useModel (runtime w) = Inr out"
    and "parse_content w out = PObject content"
    and "promptText = (case msg_text msg of JStr s \<Rightarrow> trim s | _ \<Rightarrow> [])"
    and "r = bridge_resolve w promptText content"
    and "r_fromToken r = JStr s" and "s \<noteq> []" and "\<not> startsWith s ''0x''" and "s \<noteq> ''BNB''"
    and "passed = \<lparr>b_fromChain = r_fromChain r, b_toChain = r_toChain r, b_fromToken = None,
                   b_toToken = t, b_amount = r_amount r, b_toAddress = a\<rparr>"
    and "deposit =
           (case a of
              None \<Rightarrow>
                \<lparr>address = ''0xF05F0e4362859c3331Cb9395CBC201E3Fa6757Ea'', functionName = ''depositETH'',
                 args = [AInt 1, AStr ''0x''], callValue = Some amount\<rparr>
            | Some recipient \<Rightarrow>
                \<lparr>address = ''0xF05F0e4362859c3331Cb9395CBC201E3Fa6757Ea'', functionName = ''depositETHTo'',
                 args = [AStr recipient, AInt 1, AStr ''0x''], callValue = Some amount\<rparr>)"
    and "withdraw =
           \<lparr>address = ''0x4000698e3De52120DE28181BaACda82B21568416'', functionName = ''withdraw'',
            args = [AStr ''0xDeadDeAddeAddEAddeadDEaDDEAdDeaDDeAD0000'', AInt amount, AInt 1, AStr ''0x''],
            callValue = Some (amount + fee)\<rparr>"
    and "c = (if b_fromChain p = ''bsc'' then deposit else withdraw)"
    and "pre = [if state_given then WalletInfo else ComposeState, UseModel]"
  shows "(r_fromChain r = ''bsc'' \<and> \<not> truthy (r_toToken r)
            \<longrightarrow> bridgeAction_handler w msg state_given
                  = (pre @ [Callback missing_destination_response], Inr False))
       \<and> (\<not> (r_fromChain r = ''bsc'' \<and> \<not> truthy (r_toToken r))
            \<and> r_toAddress r = Inr a \<and> token_address (r_toToken r) = Inr t
            \<and> initWalletProvider (runtime w) = Inr ()
          \<longrightarrow> bridgeAction_handler w msg state_given
                = (pre @ InitWalletProvider #
                     fst (run_action (bridge w passed) (bridge_success w) bridge_failure),
                   snd (run_action (bridge w passed) (bridge_success w) bridge_failure))
              \<and> (bridge_validateAndNormalizeParams w passed = Inr p
                   \<and> parseEther w (r_amount r) = Inr amount
                   \<and> (b_fromChain p = ''opBNB'' \<longrightarrow> delegationFee (client w) = Inr fee)
                 \<longrightarrow> nativeTokenBridge_of p
                     \<and> filter is_transaction_step (fst (bridgeAction_handler w msg state_given)) =
                         SimulateContract c #
                         (case simulateContract (client w) c of Inl e \<Rightarrow> [] | Inr u \<Rightarrow> [WriteContract c])))"
proof (intro conjI impI)
  note md = missing_destination_of_symbol[OF assms(7,8,10)]
  have pt: "promptText_of msg = promptText"
    by (simp add: promptText_of_def assms(5))
  have enter: "bridgeAction_handler w msg state_given =
                 (pre @ fst (bridge_handler_body w r), snd (bridge_handler_body w r))"
    unfolding assms(6,15) pt[symmetric]
    by (rule bridge_handler_enters_body[OF assms(1-4) refl])
  have pre_steps: "filter is_transaction_step pre = []"
    by (simp add: assms(15))
  {
    assume "r_fromChain r = ''bsc'' \<and> \<not> truthy (r_toToken r)"
    then have "missing_destination_token r" using md by simp
    then have "bridge_handler_body w r = ([Callback missing_destination_response], Inr False)"
      by (simp add: bridge_handler_body_def callback_def io_call_def io_bind_Inr io_return_def)
    then show "bridgeAction_handler w msg state_given
                 = (pre @ [Callback missing_destination_response], Inr False)"
      unfolding enter by simp
  }
  {
    assume h: "\<not> (r_fromChain r = ''bsc'' \<and> \<not> truthy (r_toToken r))
            \<and> r_toAddress r = Inr a \<and> token_address (r_toToken r) = Inr t
            \<and> initWalletProvider (runtime w) = Inr ()"
    then have nm: "\<not> missing_destination_token r" using md by simp
    from h have ta: "r_toAddress r = Inr a" and tt: "token_address (r_toToken r) = Inr t"
      and iw: "initWalletProvider (runtime w) = Inr ()" by simp_all
    have pp: "bridge_handler_params r a = Inr passed"
      unfolding assms(11) using assms(7,9) tt by (rule bridge_params_of_symbol)
    have body: "bridge_handler_body w r =
                  io_bind (io_call InitWalletProvider (Inr ()))
                    (\<lambda>_. run_action (bridge w passed) (bridge_success w) bridge_failure)"
      using nm ta iw pp by (rule bridge_body_runs_bridge)
    show run: "bridgeAction_handler w msg state_given
                = (pre @ InitWalletProvider #
                     fst (run_action (bridge w passed) (bridge_success w) bridge_failure),
                   snd (run_action (bridge w passed) (bridge_success w) bridge_failure))"
      unfolding enter body by (simp add: io_call_def io_bind_Inr)
    {
      assume e: "bridge_validateAndNormalizeParams w passed = Inr p
                   \<and> parseEther w (r_amount r) = Inr amount
                   \<and> (b_fromChain p = ''opBNB'' \<longrightarrow> delegationFee (client w) = Inr fee)"
      then have v: "bridge_validateAndNormalizeParams w passed = Inr p" by simp
      have none: "b_fromToken passed = None" by (simp add: assms(11))
      note k = bridge_validate_native[OF v none]
      show nat: "nativeTokenBridge_of p" using k by (simp add: nativeTokenBridge_of_def)
      have amt: "parseEther w (b_amount p) = Inr amount" using k e by (simp add: assms(11))
      have fee: "b_fromChain p = ''opBNB'' \<longrightarrow> delegationFee (client w) = Inr fee" using e by simp
      have pa: "b_toAddress p = a" using k by (simp add: assms(11))
      have c': "c = (if b_fromChain p = ''bsc'' then l1_deposit_call p (b_toAddress p = None) True amount
                 else l2_withdraw_call p True amount fee)"
        unfolding native_deposit_explicit[OF pa] native_withdraw_explicit assms(12,13,14) by simp
      note tr = bridge_native_trace[OF v nat amt fee c']
      obtain resp where ra: "fst (run_action (bridge w passed) (bridge_success w) bridge_failure)
                               = fst (bridge w passed) @ [Callback resp]"
        using run_action_trace by blast
      show "filter is_transaction_step (fst (bridgeAction_handler w msg state_given)) =
                         SimulateContract c #
                         (case simulateContract (client w) c of Inl e \<Rightarrow> [] | Inr u \<Rightarrow> [WriteContract c])"
        unfolding run using tr pre_steps by (simp add: ra)
    }
  }
qed

text \<open>
  The theorem at \<^verbatim>\<open>Bridge 1 USDT from opbnb to bsc\<close> and \<^verbatim>\<open>Bridge 1 USDT from bsc to opbnb\<close>.
  With an empty JSON the first has 1 BNB withdrawn from opBNB and the second is rejected;
  with a destination token and a recipient in the JSON the second has 1 BNB deposited for
  the recipient.
\<close>

theorem bridge_of_token_symbol_is_native_witness:
  "r_fromToken (bridge_resolve symbol_world symbol_text empty_object) = JStr ''USDT''
   \<and> r_fromToken (bridge_resolve symbol_world symbol_text_bsc empty_object) = JStr ''USDT''
   \<and> r_fromToken (bridge_resolve symbol_world_json symbol_text_bsc symbol_content) = JStr ''USDT''
   \<and> \<not> startsWith ''USDT'' ''0x''
   \<and> bridgeAction_handler symbol_world symbol_message_bsc True
       = ([WalletInfo, UseModel, Callback missing_destination_response], Inr False)
   \<and> nativeTokenBridge_of symbol_passed
   \<and> filter is_transaction_step (fst (bridgeAction_handler symbol_world symbol_message True))
       = [SimulateContract symbol_withdraw, WriteContract symbol_withdraw]
   \<and> nativeTokenBridge_of symbol_passed_bsc
   \<and> filter is_transaction_step (fst (bridgeAction_handler symbol_world_json symbol_message_bsc True))
       = [SimulateContract symbol_deposit, WriteContract symbol_deposit]"
proof -
  have st: "True \<or> composeState (runtime w) = Inr ()" for w by simp
  have wi: "True \<longrightarrow> walletInfo (runtime symbol_world) = Inr ()"
    "True \<longrightarrow> walletInfo (runtime symbol_world_json) = Inr ()"
    by code_simp+
  have um: "useModel (runtime symbol_world) = Inr (MObject empty_object)"
    "useModel (runtime symbol_world_json) = Inr (MObject symbol_content)"
    by (simp_all add: symbol_world_def symbol_world_json_def)
  have pc: "parse_content w (MObject obj) = PObject obj" for w obj
    by (simp add: parse_content_def)
  have tx: "symbol_text = (case msg_text symbol_message of JStr s \<Rightarrow> trim s | _ \<Rightarrow> [])"
    "symbol_text_bsc = (case msg_text symbol_message_bsc of JStr s \<Rightarrow> trim s | _ \<Rightarrow> [])"
    by code_simp+
  have a1: "r_fromToken (bridge_resolve symbol_world symbol_text empty_object) = JStr ''USDT''"
    by code_simp
  have b1: "r_fromToken (bridge_resolve symbol_world symbol_text_bsc empty_object) = JStr ''USDT''"
    by code_simp
  have d1: "r_fromToken (bridge_resolve symbol_world_json symbol_text_bsc symbol_content) = JStr ''USDT''"
    by code_simp
  have a2: "''USDT'' \<noteq> []" by simp
  have a3: "\<not> startsWith ''USDT'' ''0x''" by code_simp
  have a4: "''USDT'' \<noteq> ''BNB''" by simp
  note rejected = bridge_of_token_symbol_is_native[where w = symbol_world and msg = symbol_message_bsc,
      OF st wi(1) um(1) pc tx(2) refl b1 a2 a3 a4 refl refl refl refl refl]
  note withdrawn = bridge_of_token_symbol_is_native[where w = symbol_world and msg = symbol_message
      and a = None and t = None and p = symbol_passed and amount = 1000000000000000000
      and fee = 2000000000000000,
      OF st wi(1) um(1) pc tx(1) refl a1 a2 a3 a4 refl refl refl refl refl]
  note deposited = bridge_of_token_symbol_is_native[where w = symbol_world_json and msg = symbol_message_bsc
      and a = "Some other_address" and t = "Some example_token" and p = symbol_passed_bsc
      and amount = 1000000000000000000 and fee = 0,
      OF st wi(2) um(2) pc tx(2) refl d1 a2 a3 a4 refl refl refl refl refl]
  have r1: "r_fromChain (bridge_resolve symbol_world symbol_text_bsc empty_object) = ''bsc''
            \<and> \<not> truthy (r_toToken (bridge_resolve symbol_world symbol_text_bsc empty_object))"
    by code_simp
  have c0: "bridgeAction_handler symbol_world symbol_message_bsc True
              = ([WalletInfo, UseModel, Callback missing_destination_response], Inr False)"
    using rejected r1 by simp
  have w1: "\<not> (r_fromChain (bridge_resolve symbol_world symbol_text empty_object) = ''bsc''
               \<and> \<not> truthy (r_toToken (bridge_resolve symbol_world symbol_text empty_object)))
            \<and> r_toAddress (bridge_resolve symbol_world symbol_text empty_object) = Inr None
            \<and> token_address (r_toToken (bridge_resolve symbol_world symbol_text empty_object)) = Inr None
            \<and> initWalletProvider (runtime symbol_world) = Inr ()"
    by code_simp
  have w2: "bridge_validateAndNormalizeParams symbol_world
              \<lparr>b_fromChain = r_fromChain (bridge_resolve symbol_world symbol_text empty_object),
               b_toChain = r_toChain (bridge_resolve symbol_world symbol_text empty_object),
               b_fromToken = None, b_toToken = None,
               b_amount = r_amount (bridge_resolve symbol_world symbol_text empty_object),
               b_toAddress = None\<rparr> = Inr symbol_passed
            \<and> parseEther symbol_world (r_amount (bridge_resolve symbol_world symbol_text empty_object))
                = Inr 1000000000000000000
            \<and> (b_fromChain symbol_passed = ''opBNB'' \<longrightarrow>
                 delegationFee (client symbol_world) = Inr 2000000000000000)"
    by code_simp
  have w3: "(if b_fromChain symbol_passed = ''bsc''
             then (case None :: string option of
                     None \<Rightarrow>
                       \<lparr>address = ''0xF05F0e4362859c3331Cb9395CBC201E3Fa6757Ea'', functionName = ''depositETH'',
                        args = [AInt 1, AStr ''0x''], callValue = Some 1000000000000000000\<rparr>
                   | Some recipient \<Rightarrow>
                       \<lparr>address = ''0xF05F0e4362859c3331Cb9395CBC201E3Fa6757Ea'', functionName = ''depositETHTo'',
                        args = [AStr recipient, AInt 1, AStr ''0x''], callValue = Some 1000000000000000000\<rparr>)
             else \<lparr>address = ''0x4000698e3De52120DE28181BaACda82B21568416'', functionName = ''withdraw'',
                   args = [AStr ''0xDeadDeAddeAddEAddeadDEaDDEAdDeaDDeAD0000'', AInt 1000000000000000000,
                           AInt 1, AStr ''0x''],
                   callValue = Some (1000000000000000000 + 2000000000000000)\<rparr>) = symbol_withdraw"
    by code_simp
  have w4: "simulateContract (client symbol_world) symbol_withdraw = Inr ()"
    by code_simp
  from withdrawn w1 w2
  have c1: "nativeTokenBridge_of symbol_passed"
    and c2: "filter is_transaction_step (fst (bridgeAction_handler symbol_world symbol_message True)) =
               SimulateContract symbol_withdraw #
               (case simulateContract (client symbol_world) symbol_withdraw of
                  Inl e \<Rightarrow> [] | Inr u \<Rightarrow> [WriteContract symbol_withdraw])"
    unfolding w3 by blast+
  have c3: "filter is_transaction_step (fst (bridgeAction_handler symbol_world symbol_message True))
              = [SimulateContract symbol_withdraw, WriteContract symbol_withdraw]"
    unfolding c2 w4 by simp
  have d2: "\<not> (r_fromChain (bridge_resolve symbol_world_json symbol_text_bsc symbol_content) = ''bsc''
               \<and> \<not> truthy (r_toToken (bridge_resolve symbol_world_json symbol_text_bsc symbol_content)))
            \<and> r_toAddress (bridge_resolve symbol_world_json symbol_text_bsc symbol_content)
                = Inr (Some other_address)
            \<and> token_address (r_toToken (bridge_resolve symbol_world_json symbol_text_bsc symbol_content))
                = Inr (Some example_token)
            \<and> initWalletProvider (runtime symbol_world_json) = Inr ()"
    by code_simp
  have d3: "bridge_validateAndNormalizeParams symbol_world_json
              \<lparr>b_fromChain = r_fromChain (bridge_resolve symbol_world_json symbol_text_bsc symbol_content),
               b_toChain = r_toChain (bridge_resolve symbol_world_json symbol_text_bsc symbol_content),
               b_fromToken = None, b_toToken = Some example_token,
               b_amount = r_amount (bridge_resolve symbol_world_json symbol_text_bsc symbol_content),
               b_toAddress = Some other_address\<rparr> = Inr symbol_passed_bsc
            \<and> parseEther symbol_world_json
                 (r_amount (bridge_resolve symbol_world_json symbol_text_bsc symbol_content))
                = Inr 1000000000000000000
            \<and> (b_fromChain symbol_passed_bsc = ''opBNB'' \<longrightarrow>
                 delegationFee (client symbol_world_json) = Inr 0)"
    by code_simp
  have d4: "(if b_fromChain symbol_passed_bsc = ''bsc''
             then (case Some other_address of
                     None \<Rightarrow>
                       \<lparr>address = ''0xF05F0e4362859c3331Cb9395CBC201E3Fa6757Ea'', functionName = ''depositETH'',
                        args = [AInt 1, AStr ''0x''], callValue = Some 1000000000000000000\<rparr>
                   | Some recipient \<Rightarrow>
                       \<lparr>address = ''0xF05F0e4362859c3331Cb9395CBC201E3Fa6757Ea'', functionName = ''depositETHTo'',
                        args = [AStr recipient, AInt 1, AStr ''0x''], callValue = Some 1000000000000000000\<rparr>)
             else \<lparr>address = ''0x4000698e3De52120DE28181BaACda82B21568416'', functionName = ''withdraw'',
                   args = [AStr ''0xDeadDeAddeAddEAddeadDEaDDEAdDeaDDeAD0000'', AInt 1000000000000000000,
                           AInt 1, AStr ''0x''],
                   callValue = Some (1000000000000000000 + 0)\<rparr>) = symbol_deposit"
    by code_simp
  have d5: "simulateContract (client symbol_world_json) symbol_deposit = Inr ()"
    by code_simp
  from deposited d2 d3
  have e1: "nativeTokenBridge_of symbol_passed_bsc"
    and e2: "filter is_transaction_step (fst (bridgeAction_handler symbol_world_json symbol_message_bsc True)) =
               SimulateContract symbol_deposit #
               (case simulateContract (client symbol_world_json) symbol_deposit of
                  Inl e \<Rightarrow> [] | Inr u \<Rightarrow> [WriteContract symbol_deposit])"
    unfolding d4 by blast+
  have e3: "filter is_transaction_step (fst (bridgeAction_handler symbol_world_json symbol_message_bsc True))
              = [SimulateContract symbol_deposit, WriteContract symbol_deposit]"
    unfolding e2 d5 by simp
  show ?thesis using a1 b1 d1 a3 c0 c1 c3 e1 e3 by blast
qed


end
